theory Spec2Isabelle
  imports Main "HOL-Library.Sublist"
begin

section \<open>JavaScript values\<close>

text \<open>
  The server of \<^verbatim>\<open>src/index.js\<close> receives tool arguments as parsed JSON and receives
  parsed JSON from the Proxmox API. A value is therefore one of the JSON kinds, plus
  \<open>undefined\<close> (a missing argument or property) and \<open>JNative\<close>, a built-in that a
  property read reaches through \<open>Object.prototype\<close> (for instance \<open>config["constructor"]\<close>).

  A string is a list of code units; Isabelle's \<open>char\<close> covers the code units below 256.
  A number \<open>JNum n\<close> is an integer-valued number; fractional numbers are not modelled.
  An object is the list of its own properties in insertion order.
\<close>

datatype json =
    JUndefined
  | JNull
  | JBool bool
  | JNum int
  | JStr string
  | JArr "json list"
  | JObj "(string \<times> json) list"
  | JNative string

text \<open>Exceptions: every \<open>catch\<close> of the source reads only \<open>error.message\<close>.\<close>

datatype js_error = Error string | TypeError string

fun message :: "js_error \<Rightarrow> string" where
  "message (Error m) = m"
| "message (TypeError m) = m"

subsection \<open>Decimal digits\<close>

definition is_digit :: "char \<Rightarrow> bool" where
  "is_digit c = (c \<in> set ''0123456789'')"

definition digit_val :: "char \<Rightarrow> nat" where
  "digit_val c = of_char c - 48"

definition digit_char :: "nat \<Rightarrow> char" where
  "digit_char d = ''0123456789'' ! d"

text \<open>The value of a digit string, most significant digit first.\<close>

definition digits_val :: "string \<Rightarrow> nat" where
  "digits_val ds = foldl (\<lambda>a c. 10 * a + digit_val c) 0 ds"

text \<open>\<open>Number.prototype.toString\<close> on a non-negative integer: no leading zeros.\<close>

fun dec_nat :: "nat \<Rightarrow> string" where
  "dec_nat n = (if n < 10 then [digit_char n] else dec_nat (n div 10) @ [digit_char (n mod 10)])"

declare dec_nat.simps [simp del]

definition dec_int :: "int \<Rightarrow> string" where
  "dec_int i = (if i < 0 then CHR ''-'' # dec_nat (nat (- i)) else dec_nat (nat i))"

subsection \<open>Conversions\<close>

text \<open>\<open>ToBoolean\<close>: the falsy values are \<open>undefined\<close>, \<open>null\<close>, \<open>false\<close>, \<open>0\<close> and \<open>""\<close>.\<close>

fun truthy :: "json \<Rightarrow> bool" where
  "truthy JUndefined = False"
| "truthy JNull = False"
| "truthy (JBool b) = b"
| "truthy (JNum n) = (n \<noteq> 0)"
| "truthy (JStr s) = (s \<noteq> [])"
| "truthy (JArr xs) = True"
| "truthy (JObj kvs) = True"
| "truthy (JNative f) = True"

text \<open>\<open>Array.prototype.join\<close> on strings.\<close>

fun join :: "string \<Rightarrow> string list \<Rightarrow> string" where
  "join sep [] = []"
| "join sep [x] = x"
| "join sep (x # y # ys) = x @ sep @ join sep (y # ys)"

text \<open>
  \<open>ToString\<close>, as a template literal applies it. An array joins its elements with a
  comma, \<open>null\<close> and \<open>undefined\<close> elements giving the empty string.
\<close>

fun ToString :: "json \<Rightarrow> string" where
  "ToString JUndefined = ''undefined''"
| "ToString JNull = ''null''"
| "ToString (JBool b) = (if b then ''true'' else ''false'')"
| "ToString (JNum n) = dec_int n"
| "ToString (JStr s) = s"
| "ToString (JArr xs) =
     join '','' (map (\<lambda>x. if x = JUndefined \<or> x = JNull then [] else ToString x) xs)"
| "ToString (JObj kvs) = ''[object Object]''"
| "ToString (JNative f) = ''function '' @ f @ ''() { [native code] }''"

text \<open>\<open>typeof v === 'string'\<close>.\<close>

fun is_string :: "json \<Rightarrow> bool" where
  "is_string (JStr s) = True"
| "is_string _ = False"

section \<open>Identifier validators\<close>

text \<open>
  The white space that \<open>parseInt\<close> skips (\<open>StrWhiteSpaceChar\<close>), among the code units
  below 256: TAB, LF, VT, FF, CR, SP and NBSP.
\<close>

definition is_StrWhiteSpaceChar :: "char \<Rightarrow> bool" where
  "is_StrWhiteSpaceChar c =
     (c \<in> {CHR 0x09, CHR 0x0A, CHR 0x0B, CHR 0x0C, CHR 0x0D, CHR 0x20, CHR 0xA0})"

text \<open>
  \<open>parseInt(string, 10)\<close>: skip leading white space, take one optional sign, then the
  longest run of decimal digits; no digit gives \<open>NaN\<close> (here \<open>None\<close>). Whatever follows
  the digits is ignored. The result is an exact integer here; JavaScript rounds a long
  digit string to a double, which changes no comparison with 100 or 999999999.
\<close>

definition parseInt10 :: "string \<Rightarrow> int option" where
  "parseInt10 inputString =
     (let S = dropWhile is_StrWhiteSpaceChar inputString;
          sign = (case S of [] \<Rightarrow> 1 | c # r \<Rightarrow> if c = CHR ''-'' then - 1 else (1 :: int));
          S' = (case S of [] \<Rightarrow> [] | c # r \<Rightarrow> if c = CHR ''+'' \<or> c = CHR ''-'' then r else S);
          Z = takeWhile is_digit S'
      in if Z = [] then None else Some (sign * int (digits_val Z)))"

text \<open>\<open>validateNodeName\<close>, lines 67-79. The regular expression is \<open>/^[a-zA-Z0-9\-_]+$/\<close>.\<close>

definition is_node_char :: "char \<Rightarrow> bool" where
  "is_node_char c =
     (c \<in> set ''abcdefghijklmnopqrstuvwxyzABCDEFGHIJKLMNOPQRSTUVWXYZ0123456789-_'')"

definition validateNodeName :: "json \<Rightarrow> js_error + string" where
  "validateNodeName node =
     (if \<not> truthy node \<or> \<not> is_string node then
        Inl (Error ''Node name is required and must be a string'')
      else if \<not> (ToString node \<noteq> [] \<and> list_all is_node_char (ToString node)) then
        Inl (Error ''Invalid node name format. Only alphanumeric, hyphens, and underscores allowed'')
      else if length (ToString node) > 64 then
        Inl (Error ''Node name too long (max 64 characters)'')
      else Inr (ToString node))"

text \<open>\<open>validateVMID\<close>, lines 81-90.\<close>

definition invalid_vmid :: js_error where
  "invalid_vmid = Error ''Invalid VM ID. Must be a number between 100 and 999999999''"

definition validateVMID :: "json \<Rightarrow> js_error + string" where
  "validateVMID vmid =
     (if \<not> truthy vmid then Inl (Error ''VM ID is required'')
      else case parseInt10 (ToString vmid) of
        None \<Rightarrow> Inl invalid_vmid
      | Some idn \<Rightarrow>
          if idn < 100 \<or> idn > 999999999 then Inl invalid_vmid
          else Inr (dec_int idn))"

text \<open>
  \<open>validateCommand\<close>, lines 92-109. The character class of the regular expression is
  \<open>; & | ` $ ( ) { } [ ] < >\<close> and the backslash (code unit 0x5C).
\<close>

definition dangerousChars :: "char set" where
  "dangerousChars = set '';&|`$(){}[]<>'' \<union> {CHR 0x5C}"

definition validateCommand :: "json \<Rightarrow> js_error + string" where
  "validateCommand command =
     (if \<not> truthy command \<or> \<not> is_string command then
        Inl (Error ''Command is required and must be a string'')
      else if \<exists>c \<in> set (ToString command). c \<in> dangerousChars then
        Inl (Error (''Command contains potentially dangerous characters: ; & | ` $ ( ) { } [ ] < > ''
                    @ [CHR 0x5C]))
      else if length (ToString command) > 1000 then
        Inl (Error ''Command exceeds maximum allowed length (1000 characters)'')
      else Inr (ToString command))"

text \<open>
  The reading of "parses as a base-10 integer" that the specification's words give,
  for comparison with \<open>parseInt10\<close>: the whole string, white space at either end apart,
  is an optional sign followed by one or more decimal digits.
\<close>

definition base10_integer :: "string \<Rightarrow> int option" where
  "base10_integer s =
     (let t = rev (dropWhile is_StrWhiteSpaceChar (rev (dropWhile is_StrWhiteSpaceChar s)));
          sign = (case t of [] \<Rightarrow> 1 | c # r \<Rightarrow> if c = CHR ''-'' then - 1 else (1 :: int));
          ds = (case t of [] \<Rightarrow> [] | c # r \<Rightarrow> if c = CHR ''+'' \<or> c = CHR ''-'' then r else t)
      in if ds \<noteq> [] \<and> list_all is_digit ds then Some (sign * int (digits_val ds)) else None)"

text \<open>
  The specification's "printable characters", read as the printable ASCII range
  0x20 to 0x7E.
\<close>

definition is_printable :: "char \<Rightarrow> bool" where
  "is_printable c = (32 \<le> (of_char c :: nat) \<and> (of_char c :: nat) \<le> 126)"

section \<open>Objects, arrays and strings\<close>

text \<open>
  Property names that every value inherits from \<open>Object.prototype\<close>. A read of one of
  them on a value that has no own property of that name yields a built-in, which is
  truthy and is not a string.
\<close>

definition object_prototype_names :: "string list" where
  "object_prototype_names =
     [''constructor'', ''__defineGetter__'', ''__defineSetter__'', ''hasOwnProperty'',
      ''__lookupGetter__'', ''__lookupSetter__'', ''isPrototypeOf'', ''propertyIsEnumerable'',
      ''toString'', ''valueOf'', ''__proto__'', ''toLocaleString'']"

text \<open>A canonical array index: the decimal string of a natural number, no leading zero.\<close>

definition array_index :: "string \<Rightarrow> nat option" where
  "array_index k =
     (if k \<noteq> [] \<and> list_all is_digit k \<and> dec_nat (digits_val k) = k
      then Some (digits_val k) else None)"

definition inherited :: "string \<Rightarrow> json" where
  "inherited k = (if k \<in> set object_prototype_names then JNative k else JUndefined)"

text \<open>
  The property read \<open>v[k]\<close> on a value that is neither \<open>undefined\<close> nor \<open>null\<close>:
  own properties first (the keys of an object, the indices and \<open>length\<close> of an array or
  a string), then \<open>Object.prototype\<close>. Methods that arrays, strings, numbers and booleans
  inherit from their own prototypes are not listed; no handler reads one by a static
  name, and a configuration object, the one value read by a caller-supplied name, has
  only \<open>Object.prototype\<close> above it.
\<close>

fun read_prop :: "json \<Rightarrow> string \<Rightarrow> json" where
  "read_prop (JObj kvs) k = (case map_of kvs k of Some v \<Rightarrow> v | None \<Rightarrow> inherited k)"
| "read_prop (JArr xs) k =
     (if k = ''length'' then JNum (int (length xs))
      else case array_index k of
        Some i \<Rightarrow> if i < length xs then xs ! i else inherited k
      | None \<Rightarrow> inherited k)"
| "read_prop (JStr s) k =
     (if k = ''length'' then JNum (int (length s))
      else case array_index k of
        Some i \<Rightarrow> if i < length s then JStr [s ! i] else inherited k
      | None \<Rightarrow> inherited k)"
| "read_prop JUndefined k = JUndefined"
| "read_prop JNull k = JUndefined"
| "read_prop v k = inherited k"

definition nullish :: "json \<Rightarrow> bool" where
  "nullish v = (v = JUndefined \<or> v = JNull)"

text \<open>The message of the \<open>TypeError\<close> that V8 raises for \<open>null.k\<close> and \<open>undefined.k\<close>.\<close>

definition cannot_read :: "json \<Rightarrow> string \<Rightarrow> js_error" where
  "cannot_read v k =
     TypeError (''Cannot read properties of '' @ ToString v @ '' (reading '' @ [CHR 0x27] @ k
                @ [CHR 0x27] @ '')'')"

definition get_prop :: "json \<Rightarrow> string \<Rightarrow> js_error + json" where
  "get_prop v k = (if nullish v then Inl (cannot_read v k) else Inr (read_prop v k))"

text \<open>
  The order in which \<open>Object.keys\<close> and \<open>Object.entries\<close> list own properties:
  array indices in ascending numeric order, then the other keys in insertion order.
\<close>

definition index_entries :: "(string \<times> json) list \<Rightarrow> (string \<times> json) list" where
  "index_entries kvs = filter (\<lambda>(k, v). array_index k \<noteq> None) kvs"

definition entries :: "(string \<times> json) list \<Rightarrow> (string \<times> json) list" where
  "entries kvs =
     sort_key (\<lambda>(k, v). digits_val k) (index_entries kvs)
     @ filter (\<lambda>(k, v). array_index k = None) kvs"

text \<open>Own enumerable properties of any value, as \<open>Object.keys\<close> and object spread see them.\<close>

fun own_entries :: "json \<Rightarrow> (string \<times> json) list" where
  "own_entries (JObj kvs) = entries kvs"
| "own_entries (JArr xs) = map (\<lambda>i. (dec_nat i, xs ! i)) [0 ..< length xs]"
| "own_entries (JStr s) = map (\<lambda>i. (dec_nat i, JStr [s ! i])) [0 ..< length s]"
| "own_entries v = []"

definition object_keys :: "json \<Rightarrow> string list" where
  "object_keys v = map fst (own_entries v)"

text \<open>
  The assignment \<open>obj[k] = v\<close> on an object created by a literal: an existing key keeps
  its place, a new key is added last. The key \<open>__proto__\<close> is an accessor of
  \<open>Object.prototype\<close>; assigning a string, a number or \<open>undefined\<close> to it changes
  nothing.
\<close>

fun assign :: "(string \<times> json) list \<Rightarrow> string \<Rightarrow> json \<Rightarrow> (string \<times> json) list" where
  "assign [] k v = [(k, v)]"
| "assign ((k', v') # kvs) k v = (if k' = k then (k, v) # kvs else (k', v') # assign kvs k v)"

definition set_prop :: "(string \<times> json) list \<Rightarrow> string \<Rightarrow> json \<Rightarrow> (string \<times> json) list" where
  "set_prop kvs k v = (if k = ''__proto__'' then kvs else assign kvs k v)"

text \<open>\<open>delete obj[k]\<close>.\<close>

definition delete_prop :: "(string \<times> json) list \<Rightarrow> string \<Rightarrow> (string \<times> json) list" where
  "delete_prop kvs k = filter (\<lambda>(k', v). k' \<noteq> k) kvs"

text \<open>
  Object spread followed by further properties, \<open>{...v, k1: v1, ...}\<close>: the own
  properties of \<open>v\<close> are copied (as data properties, \<open>__proto__\<close> included), then each
  further property is defined.
\<close>

definition spread_with :: "json \<Rightarrow> (string \<times> json) list \<Rightarrow> json" where
  "spread_with v extra = JObj (foldl (\<lambda>kvs (k, x). assign kvs k x) (own_entries v) extra)"

text \<open>
  The values that \<open>for (const x of v)\<close> visits; \<open>var\<close> is the name of the variable
  iterated, which the message of the \<open>TypeError\<close> quotes.
\<close>

fun iterate :: "string \<Rightarrow> json \<Rightarrow> js_error + json list" where
  "iterate var (JArr xs) = Inr xs"
| "iterate var (JStr s) = Inr (map (\<lambda>c. JStr [c]) s)"
| "iterate var v = Inl (TypeError (var @ '' is not iterable''))"

text \<open>
  The elements on which \<open>var.map(f)\<close> and \<open>var.filter(f)\<close> run: only an array has
  these methods among the values that JSON can carry.
\<close>

fun array_elements :: "string \<Rightarrow> string \<Rightarrow> json \<Rightarrow> js_error + json list" where
  "array_elements var m (JArr xs) = Inr xs"
| "array_elements var m JUndefined = Inl (cannot_read JUndefined m)"
| "array_elements var m JNull = Inl (cannot_read JNull m)"
| "array_elements var m v = Inl (TypeError (var @ ''.'' @ m @ '' is not a function''))"

text \<open>\<open>a || b\<close>.\<close>

definition or_else :: "json \<Rightarrow> json \<Rightarrow> json" where
  "or_else a b = (if truthy a then a else b)"

text \<open>\<open>String.prototype.split\<close> with a one-character separator.\<close>

fun str_split :: "char \<Rightarrow> string \<Rightarrow> string list" where
  "str_split sep [] = [[]]"
| "str_split sep (c # cs) =
     (if c = sep then [] # str_split sep cs
      else case str_split sep cs of
        [] \<Rightarrow> [[c]]
      | p # ps \<Rightarrow> (c # p) # ps)"

text \<open>\<open>String.prototype.includes\<close>.\<close>

fun str_includes :: "string \<Rightarrow> string \<Rightarrow> bool" where
  "str_includes [] needle = (needle = [])"
| "str_includes (c # cs) needle = (prefix needle (c # cs) \<or> str_includes cs needle)"

text \<open>\<open>String.prototype.replace\<close> with a string pattern: the first occurrence only.\<close>

fun replace_first :: "string \<Rightarrow> string \<Rightarrow> string \<Rightarrow> string" where
  "replace_first pat rep [] = (if pat = [] then rep else [])"
| "replace_first pat rep (c # cs) =
     (if prefix pat (c # cs) then rep @ drop (length pat) (c # cs)
      else c # replace_first pat rep cs)"

text \<open>\<open>String.prototype.toUpperCase\<close>, on the letters a to z; other code units are kept.\<close>

definition upper_char :: "char \<Rightarrow> char" where
  "upper_char c =
     (if c \<in> set ''abcdefghijklmnopqrstuvwxyz'' then char_of (of_char c - (32 :: nat)) else c)"

definition toUpperCase :: "string \<Rightarrow> string" where
  "toUpperCase s = map upper_char s"

text \<open>
  \<open>encodeURIComponent\<close>: the unreserved characters are kept, every other code unit is
  written as the percent-encoded bytes of its UTF-8 form (one byte below 0x80, two bytes
  from 0x80 to 0xFF).
\<close>

definition hex_digit :: "nat \<Rightarrow> char" where
  "hex_digit d = ''0123456789ABCDEF'' ! d"

definition percent :: "nat \<Rightarrow> string" where
  "percent b = [CHR ''%'', hex_digit (b div 16), hex_digit (b mod 16)]"

definition uri_unreserved :: "char \<Rightarrow> bool" where
  "uri_unreserved c =
     (c \<in> set ''abcdefghijklmnopqrstuvwxyzABCDEFGHIJKLMNOPQRSTUVWXYZ0123456789-_.!~*()''
      \<or> c = CHR 0x27)"

definition encode_unit :: "char \<Rightarrow> string" where
  "encode_unit c =
     (let n = (of_char c :: nat) in
      if uri_unreserved c then [c]
      else if n < 128 then percent n
      else percent (192 + n div 64) @ percent (128 + n mod 64))"

definition encodeURIComponent :: "string \<Rightarrow> string" where
  "encodeURIComponent s = concat (map encode_unit s)"

section \<open>The request transport and the tool protocol\<close>

datatype http_method = GET | POST | PUT | DELETE

text \<open>A transport call: the path, the HTTP method (\<open>verb\<close>) and the body.\<close>

record request =
  endpoint :: string
  verb :: http_method
  body :: json

text \<open>
  \<open>proxmoxRequest\<close> (lines 123-163) performs the HTTPS call. Its networking is outside
  the model: the remote side is a function from the requests made so far in this call and
  the current request to the decoded \<open>data\<close> field or the error thrown. The server object
  carries that function, the permission flag read from \<open>PROXMOX_ALLOW_ELEVATED\<close>, and the
  bytes that \<open>crypto.randomBytes\<close> will deliver.
\<close>

record server =
  allowElevated :: bool
  transport :: "request list \<Rightarrow> request \<Rightarrow> js_error + json"
  randomBytes :: "nat \<Rightarrow> nat"

text \<open>
  An asynchronous method is a function from the log of transport calls made so far to
  its outcome (the exception thrown or the value returned) and the extended log.
\<close>

type_synonym 'a io = "request list \<Rightarrow> (js_error + 'a) \<times> request list"

definition io_return :: "'a \<Rightarrow> 'a io" where
  "io_return x log = (Inr x, log)"

definition io_throw :: "js_error \<Rightarrow> 'a io" where
  "io_throw e log = (Inl e, log)"

definition io_lift :: "js_error + 'a \<Rightarrow> 'a io" where
  "io_lift r log = (r, log)"

definition io_bind :: "'a io \<Rightarrow> ('a \<Rightarrow> 'b io) \<Rightarrow> 'b io" where
  "io_bind m f log = (case m log of (Inl e, log') \<Rightarrow> (Inl e, log') | (Inr x, log') \<Rightarrow> f x log')"

text \<open>\<open>try { m } catch (error) { h error }\<close>.\<close>

definition io_catch :: "'a io \<Rightarrow> (js_error \<Rightarrow> 'a io) \<Rightarrow> 'a io" where
  "io_catch m h log = (case m log of (Inl e, log') \<Rightarrow> h e log' | (Inr x, log') \<Rightarrow> (Inr x, log'))"

definition proxmoxRequest :: "server \<Rightarrow> string \<Rightarrow> http_method \<Rightarrow> json \<Rightarrow> json io" where
  "proxmoxRequest srv ep m b log =
     (let r = \<lparr>endpoint = ep, verb = m, body = b\<rparr> in (transport srv log r, log @ [r]))"

text \<open>The result of a tool call: \<open>{ content: [{ type: 'text', text }], isError? }\<close>.\<close>

datatype content_item = TextContent string

record envelope =
  content :: "content_item list"
  isError :: bool

definition text_result :: "string \<Rightarrow> envelope" where
  "text_result t = \<lparr>content = [TextContent t], isError = False\<rparr>"

definition error_result :: "string \<Rightarrow> envelope" where
  "error_result t = \<lparr>content = [TextContent t], isError = True\<rparr>"

fun text_of :: "content_item \<Rightarrow> string" where
  "text_of (TextContent t) = t"

section \<open>Glyphs\<close>

text \<open>
  The glyphs outside ASCII that occur in the texts of the handlers, as UTF-8 bytes.
\<close>

definition glyph_cross :: string where
  "glyph_cross = [CHR 0xE2, CHR 0x9D, CHR 0x8C]"

definition glyph_warning :: string where
  "glyph_warning = [CHR 0xE2, CHR 0x9A, CHR 0xA0, CHR 0xEF, CHR 0xB8, CHR 0x8F]"

definition glyph_computer :: string where
  "glyph_computer = [CHR 0xF0, CHR 0x9F, CHR 0x92, CHR 0xBB]"

definition glyph_package :: string where
  "glyph_package = [CHR 0xF0, CHR 0x9F, CHR 0x93, CHR 0xA6]"

definition glyph_bullet :: string where
  "glyph_bullet = [CHR 0xE2, CHR 0x80, CHR 0xA2]"

definition glyph_clipboard :: string where
  "glyph_clipboard = [CHR 0xF0, CHR 0x9F, CHR 0x93, CHR 0x8B]"

definition glyph_check :: string where
  "glyph_check = [CHR 0xE2, CHR 0x9C, CHR 0x85]"

definition glyph_lock :: string where
  "glyph_lock = [CHR 0xF0, CHR 0x9F, CHR 0x94, CHR 0x90]"

definition glyph_play :: string where
  "glyph_play = [CHR 0xE2, CHR 0x96, CHR 0xB6, CHR 0xEF, CHR 0xB8, CHR 0x8F]"

definition glyph_stop :: string where
  "glyph_stop = [CHR 0xE2, CHR 0x8F, CHR 0xB9, CHR 0xEF, CHR 0xB8, CHR 0x8F]"

definition glyph_wastebasket :: string where
  "glyph_wastebasket = [CHR 0xF0, CHR 0x9F, CHR 0x97, CHR 0x91, CHR 0xEF, CHR 0xB8, CHR 0x8F]"

definition glyph_cycle :: string where
  "glyph_cycle = [CHR 0xF0, CHR 0x9F, CHR 0x94, CHR 0x84]"

definition glyph_pause :: string where
  "glyph_pause = [CHR 0xE2, CHR 0x8F, CHR 0xB8, CHR 0xEF, CHR 0xB8, CHR 0x8F]"

definition glyph_ruler :: string where
  "glyph_ruler = [CHR 0xF0, CHR 0x9F, CHR 0x93, CHR 0x8F]"

definition glyph_camera :: string where
  "glyph_camera = [CHR 0xF0, CHR 0x9F, CHR 0x93, CHR 0xB8]"

definition glyph_rewind :: string where
  "glyph_rewind = [CHR 0xE2, CHR 0x8F, CHR 0xAE, CHR 0xEF, CHR 0xB8, CHR 0x8F]"

definition glyph_floppy :: string where
  "glyph_floppy = [CHR 0xF0, CHR 0x9F, CHR 0x92, CHR 0xBE]"

definition glyph_recycle :: string where
  "glyph_recycle = [CHR 0xE2, CHR 0x99, CHR 0xBB, CHR 0xEF, CHR 0xB8, CHR 0x8F]"

definition glyph_disc :: string where
  "glyph_disc = [CHR 0xF0, CHR 0x9F, CHR 0x92, CHR 0xBF]"

definition glyph_minus :: string where
  "glyph_minus = [CHR 0xE2, CHR 0x9E, CHR 0x96]"

definition glyph_globe :: string where
  "glyph_globe = [CHR 0xF0, CHR 0x9F, CHR 0x8C, CHR 0x90]"

definition glyph_wrench :: string where
  "glyph_wrench = [CHR 0xF0, CHR 0x9F, CHR 0x94, CHR 0xA7]"

section \<open>Operation handlers\<close>

text \<open>
  Texts are written as the string literals of the source; a glyph outside ASCII (an emoji,
  a bullet) is a named constant holding its UTF-8 bytes. The numbers after a handler's
  name are its lines in \<^verbatim>\<open>src/index.js\<close>.

  Eight handlers render remote data through floating-point arithmetic, locale-dependent
  comparison or date formatting (\<open>toFixed\<close>, \<open>Math.log\<close>, \<open>localeCompare\<close>,
  \<open>toLocaleString\<close>, \<open>sort\<close> with a comparator). That rendering performs no transport
  call and reads no server state other than what it is passed here; it is a parameter
  of the model, a function that returns the text or the exception thrown.
\<close>

record presentation =
  renderNodes :: "json \<Rightarrow> js_error + string"
  renderNodeStatus :: "string \<Rightarrow> json \<Rightarrow> js_error + string"
  renderVMs :: "json list \<Rightarrow> js_error + string"
  renderVMStatus :: "json \<Rightarrow> string \<Rightarrow> string \<Rightarrow> json \<Rightarrow> js_error + string"
  renderStorage :: "json list \<Rightarrow> js_error + string"
  renderClusterStatus :: "bool \<Rightarrow> json \<Rightarrow> js_error + string"
  renderTemplates :: "json \<Rightarrow> json \<Rightarrow> js_error + string"
  renderBackups :: "json \<Rightarrow> json \<Rightarrow> js_error + string"
  formatSnaptime :: "json \<Rightarrow> string"

text \<open>A default parameter value, \<open>f(x = d)\<close>: it replaces \<open>undefined\<close> only.\<close>

definition default_to :: "json \<Rightarrow> json \<Rightarrow> json" where
  "default_to d x = (if x = JUndefined then d else x)"

subsection \<open>Read operations without a gate\<close>

text \<open>\<open>getNodes\<close>, 1086-1109. Lines 1089-1104 are \<open>renderNodes\<close>.\<close>

definition getNodes :: "presentation \<Rightarrow> server \<Rightarrow> envelope io" where
  "getNodes P srv =
     io_bind (proxmoxRequest srv ''/nodes'' GET JNull) (\<lambda>nodes.
     io_bind (io_lift (renderNodes P nodes)) (\<lambda>output.
     io_return (text_result output)))"

text \<open>
  \<open>getVMs\<close>, 1150-1208. The loop over the node list, one element per step; lines
  1179-1203 are \<open>renderVMs\<close>.
\<close>

definition tag_qemu :: "json \<Rightarrow> json \<Rightarrow> json" where
  "tag_qemu nodeName vm = spread_with vm [(''type'', JStr ''qemu''), (''node'', nodeName)]"

definition tag_lxc :: "json \<Rightarrow> json \<Rightarrow> js_error + json" where
  "tag_lxc nodeName vm =
     (case get_prop vm ''node'' of
        Inl e \<Rightarrow> Inl e
      | Inr own \<Rightarrow> Inr (spread_with vm [(''type'', JStr ''lxc''), (''node'', or_else own nodeName)]))"

text \<open>\<open>xs.map(f)\<close> for a callback that may throw: the first exception ends the walk.\<close>

fun map_throwing :: "('a \<Rightarrow> js_error + 'b) \<Rightarrow> 'a list \<Rightarrow> js_error + 'b list" where
  "map_throwing f [] = Inr []"
| "map_throwing f (x # xs) =
     (case f x of
        Inl e \<Rightarrow> Inl e
      | Inr y \<Rightarrow> (case map_throwing f xs of Inl e \<Rightarrow> Inl e | Inr ys \<Rightarrow> Inr (y # ys)))"

definition getVMs_node :: "server \<Rightarrow> json \<Rightarrow> json \<Rightarrow> json list \<Rightarrow> json list io" where
  "getVMs_node srv typeFilter node vms =
     io_bind
       (if typeFilter = JStr ''all'' \<or> typeFilter = JStr ''qemu'' then
          io_bind (io_lift (get_prop node ''node'')) (\<lambda>nodeName.
          io_bind (proxmoxRequest srv (''/nodes/'' @ ToString nodeName @ ''/qemu'') GET JNull)
            (\<lambda>nodeVMs.
          io_bind (io_lift (array_elements ''nodeVMs'' ''map'' nodeVMs)) (\<lambda>elems.
          io_return (vms @ map (tag_qemu nodeName) elems))))
        else io_return vms) (\<lambda>vms.
     if typeFilter = JStr ''all'' \<or> typeFilter = JStr ''lxc'' then
       io_bind (io_lift (get_prop node ''node'')) (\<lambda>nodeName.
       io_bind (proxmoxRequest srv (''/nodes/'' @ ToString nodeName @ ''/lxc'') GET JNull)
         (\<lambda>nodeLXCs.
       io_bind (io_lift (array_elements ''nodeLXCs'' ''map'' nodeLXCs)) (\<lambda>elems.
       io_bind (io_lift (map_throwing (tag_lxc nodeName) elems)) (\<lambda>tagged.
       io_return (vms @ tagged)))))
     else io_return vms)"

fun getVMs_loop :: "server \<Rightarrow> json \<Rightarrow> json list \<Rightarrow> json list \<Rightarrow> json list io" where
  "getVMs_loop srv typeFilter [] vms = io_return vms"
| "getVMs_loop srv typeFilter (node # nodes) vms =
     io_bind (getVMs_node srv typeFilter node vms) (getVMs_loop srv typeFilter nodes)"

definition getVMs :: "presentation \<Rightarrow> server \<Rightarrow> json \<Rightarrow> json \<Rightarrow> envelope io" where
  "getVMs P srv nodeFilter' typeFilter' =
     (let nodeFilter = default_to JNull nodeFilter';
          typeFilter = default_to (JStr ''all'') typeFilter'
      in io_bind
        (if truthy nodeFilter then
           io_bind (proxmoxRequest srv (''/nodes/'' @ ToString nodeFilter @ ''/qemu'') GET JNull)
             (\<lambda>nodeVMs.
           io_bind (proxmoxRequest srv (''/nodes/'' @ ToString nodeFilter @ ''/lxc'') GET JNull)
             (\<lambda>nodeLXCs.
           io_bind
             (if typeFilter = JStr ''all'' \<or> typeFilter = JStr ''qemu'' then
                io_bind (io_lift (array_elements ''nodeVMs'' ''map'' nodeVMs)) (\<lambda>elems.
                io_return (map (\<lambda>vm. spread_with vm
                  [(''type'', JStr ''qemu''), (''node'', nodeFilter)]) elems))
              else io_return []) (\<lambda>vms.
           if typeFilter = JStr ''all'' \<or> typeFilter = JStr ''lxc'' then
             io_bind (io_lift (array_elements ''nodeLXCs'' ''map'' nodeLXCs)) (\<lambda>elems.
             io_return (vms @ map (\<lambda>vm. spread_with vm
               [(''type'', JStr ''lxc''), (''node'', nodeFilter)]) elems))
           else io_return vms)))
         else
           io_bind (proxmoxRequest srv ''/nodes'' GET JNull) (\<lambda>nodes.
           io_bind (io_lift (iterate ''nodes'' nodes)) (\<lambda>nodeList.
           getVMs_loop srv typeFilter nodeList [])))
        (\<lambda>vms.
         io_bind (io_lift (renderVMs P vms)) (\<lambda>output.
         io_return (text_result output))))"

text \<open>\<open>getVMStatus\<close>, 1210-1246. Lines 1218-1235 are \<open>renderVMStatus\<close>.\<close>

definition getVMStatus :: "presentation \<Rightarrow> server \<Rightarrow> json \<Rightarrow> json \<Rightarrow> json \<Rightarrow> envelope io" where
  "getVMStatus P srv node vmid type' =
     (let type = default_to (JStr ''qemu'') type' in
      io_catch
        (io_bind (io_lift (validateNodeName node)) (\<lambda>safeNode.
         io_bind (io_lift (validateVMID vmid)) (\<lambda>safeVMID.
         io_bind (proxmoxRequest srv
           (''/nodes/'' @ safeNode @ ''/'' @ ToString type @ ''/'' @ safeVMID @ ''/status/current'')
           GET JNull) (\<lambda>vmStatus.
         io_bind (io_lift (renderVMStatus P type safeNode safeVMID vmStatus)) (\<lambda>output.
         io_return (text_result output))))))
        (\<lambda>error. io_return (error_result (glyph_cross @ '' Failed to get VM status: '' @ message error))))"

text \<open>
  \<open>getStorage\<close>, 1303-1353. Lines 1318-1348 are \<open>renderStorage\<close>.
\<close>

definition tag_storage :: "json \<Rightarrow> json \<Rightarrow> json" where
  "tag_storage nodeName storage = spread_with storage [(''node'', nodeName)]"

definition getStorage_node :: "server \<Rightarrow> json \<Rightarrow> json list \<Rightarrow> json list io" where
  "getStorage_node srv node storages =
     io_bind (io_lift (get_prop node ''node'')) (\<lambda>nodeName.
     io_bind (proxmoxRequest srv (''/nodes/'' @ ToString nodeName @ ''/storage'') GET JNull)
       (\<lambda>nodeStorages.
     io_bind (io_lift (array_elements ''nodeStorages'' ''map'' nodeStorages)) (\<lambda>elems.
     io_return (storages @ map (tag_storage nodeName) elems))))"

fun getStorage_loop :: "server \<Rightarrow> json list \<Rightarrow> json list \<Rightarrow> json list io" where
  "getStorage_loop srv [] storages = io_return storages"
| "getStorage_loop srv (node # nodes) storages =
     io_bind (getStorage_node srv node storages) (getStorage_loop srv nodes)"

definition getStorage :: "presentation \<Rightarrow> server \<Rightarrow> json \<Rightarrow> envelope io" where
  "getStorage P srv nodeFilter' =
     (let nodeFilter = default_to JNull nodeFilter' in
      io_bind
        (if truthy nodeFilter then
           io_bind (proxmoxRequest srv (''/nodes/'' @ ToString nodeFilter @ ''/storage'') GET JNull)
             (\<lambda>storages.
           io_bind (io_lift (array_elements ''storages'' ''map'' storages)) (\<lambda>elems.
           io_return (map (tag_storage nodeFilter) elems)))
         else
           io_bind (proxmoxRequest srv ''/nodes'' GET JNull) (\<lambda>nodes.
           io_bind (io_lift (iterate ''nodes'' nodes)) (\<lambda>nodeList.
           getStorage_loop srv nodeList [])))
        (\<lambda>storages.
         io_bind (io_lift (renderStorage P storages)) (\<lambda>output.
         io_return (text_result output))))"

text \<open>
  \<open>getClusterStatus\<close>, 1355-1420. With the flag set it also requests
  \<open>/cluster/status\<close> and ignores a failure of that request; lines 1369-1407 are
  \<open>renderClusterStatus\<close>, which is passed the flag.
\<close>

definition getClusterStatus :: "presentation \<Rightarrow> server \<Rightarrow> envelope io" where
  "getClusterStatus P srv =
     io_catch
       (io_bind (proxmoxRequest srv ''/nodes'' GET JNull) (\<lambda>nodes.
        io_bind
          (if allowElevated srv then
             io_catch (proxmoxRequest srv ''/cluster/status'' GET JNull) (\<lambda>error. io_return JNull)
           else io_return JNull) (\<lambda>clusterStatus.
        io_bind (io_lift (renderClusterStatus P (allowElevated srv) nodes)) (\<lambda>output.
        io_return (text_result output)))))
       (\<lambda>error. io_return (text_result (glyph_cross @ '' **Failed to get cluster status**\<newline>\<newline>Error: ''
         @ message error)))"

text \<open>\<open>listTemplates\<close>, 1422-1456. Lines 1429-1443 are \<open>renderTemplates\<close>.\<close>

definition listTemplates :: "presentation \<Rightarrow> server \<Rightarrow> json \<Rightarrow> json \<Rightarrow> envelope io" where
  "listTemplates P srv node storage' =
     (let storage = default_to (JStr ''local'') storage' in
      io_catch
        (io_bind (io_lift (validateNodeName node)) (\<lambda>safeNode.
         io_bind (proxmoxRequest srv
           (''/nodes/'' @ safeNode @ ''/storage/'' @ ToString storage @ ''/content?content=vztmpl'')
           GET JNull) (\<lambda>templates.
         io_bind (io_lift (renderTemplates P storage templates)) (\<lambda>output.
         io_return (text_result output)))))
        (\<lambda>error. io_return (text_result (glyph_cross @ '' **Failed to list templates**\<newline>\<newline>Error: ''
          @ message error
          @ ''\<newline>\<newline>**Note**: Make sure the storage exists and contains LXC templates.''))))"

text \<open>\<open>getNextVMID\<close>, 1670-1681.\<close>

definition getNextVMID :: "server \<Rightarrow> envelope io" where
  "getNextVMID srv =
     io_catch
       (io_bind (proxmoxRequest srv ''/cluster/nextid'' GET JNull) (\<lambda>result.
        io_return (text_result (''**Next Available VM/Container ID**: '' @ ToString result))))
       (\<lambda>error. io_return (text_result (glyph_cross @ '' **Failed to get next VMID**\<newline>\<newline>Error: ''
         @ message error)))"

subsection \<open>Gated reads\<close>

text \<open>\<open>getNodeStatus\<close>, 1111-1148. Lines 1127-1135 are \<open>renderNodeStatus\<close>.\<close>

definition getNodeStatus :: "presentation \<Rightarrow> server \<Rightarrow> json \<Rightarrow> envelope io" where
  "getNodeStatus P srv node =
     (if \<not> allowElevated srv then io_return (text_result
        (glyph_warning
          @ ''  **Node Status Requires Elevated Permissions**\<newline>\<newline>''
          @ ''To view detailed node status, set `PROXMOX_ALLOW_ELEVATED=true` in your .env file and ensure your API token has Sys.Audit permissions.\<newline>\<newline>''
          @ ''**Current permissions**: Basic (node listing only)''))
      else io_catch
        (io_bind (io_lift (validateNodeName node)) (\<lambda>safeNode.
         io_bind (proxmoxRequest srv (''/nodes/'' @ safeNode @ ''/status'') GET JNull) (\<lambda>status.
         io_bind (io_lift (renderNodeStatus P safeNode status)) (\<lambda>output.
         io_return (text_result output)))))
        (\<lambda>error. io_return (text_result
          (glyph_cross @ '' **Failed to get node status**\<newline>\<newline>Error: ''
            @ message error))))"

text \<open>\<open>executeVMCommand\<close>, 1248-1301.\<close>

definition executeVMCommand :: "server \<Rightarrow> json \<Rightarrow> json \<Rightarrow> json \<Rightarrow> json \<Rightarrow> envelope io" where
  "executeVMCommand srv node vmid command type' =
     (let type = default_to (JStr ''qemu'') type' in
      if \<not> allowElevated srv then io_return (text_result
        (glyph_warning
          @ ''  **VM Command Execution Requires Elevated Permissions**\<newline>\<newline>''
          @ ''To execute commands on VMs, set `PROXMOX_ALLOW_ELEVATED=true` in your .env file and ensure your API token has appropriate VM permissions.\<newline>\<newline>''
          @ ''**Current permissions**: Basic (VM listing only)\<newline>**Requested command**: `''
          @ ToString command @ ''`''))
      else io_catch
        (io_bind (io_lift (validateNodeName node)) (\<lambda>safeNode.
         io_bind (io_lift (validateVMID vmid)) (\<lambda>safeVMID.
         io_bind (io_lift (validateCommand command)) (\<lambda>safeCommand.
         if type = JStr ''qemu'' then
           io_bind (proxmoxRequest srv
             (''/nodes/'' @ safeNode @ ''/qemu/'' @ safeVMID @ ''/agent/exec'') POST
             (JObj [(''command'', JStr safeCommand)])) (\<lambda>result.
           io_bind (io_lift (get_prop result ''pid'')) (\<lambda>pid.
           io_return (text_result
             (glyph_computer @ '' **Command executed on VM '' @ safeVMID
               @ ''**\<newline>\<newline>**Command**: `'' @ safeCommand
               @ ''`\<newline>**Result**: Command submitted to guest agent\<newline>**PID**: ''
               @ ToString (or_else pid (JStr ''N/A''))
               @ ''\<newline>\<newline>*Note: Use guest agent status to check command completion*''))))
         else
           io_bind (proxmoxRequest srv
             (''/nodes/'' @ safeNode @ ''/lxc/'' @ safeVMID @ ''/exec'') POST
             (JObj [(''command'', JStr safeCommand)])) (\<lambda>result.
           io_return (text_result
             (glyph_package @ '' **Command executed on LXC '' @ safeVMID
               @ ''**\<newline>\<newline>**Command**: `'' @ safeCommand
               @ ''`\<newline>**Output**:\<newline>```\<newline>''
               @ ToString (or_else result (JStr ''Command executed successfully''))
               @ ''\<newline>```'')))))))
        (\<lambda>error. io_return (text_result
          (glyph_cross @ '' **Failed to execute command on VM '' @ ToString vmid
            @ ''**\<newline>\<newline>Error: '' @ message error
            @ ''\<newline>\<newline>*Note: Make sure the VM has guest agent installed and running*''))))"

text \<open>
  \<open>listSnapshots\<close>, 2020-2076. The filter callback reads \<open>snap.name\<close>, which throws on
  a \<open>null\<close> element. The date of a snapshot is formatted by \<open>toLocaleString\<close>, a
  parameter (\<open>formatSnaptime\<close>).
\<close>

fun realSnapshots_of :: "json list \<Rightarrow> js_error + json list" where
  "realSnapshots_of [] = Inr []"
| "realSnapshots_of (snap # snapshots) =
     (case get_prop snap ''name'' of
        Inl e \<Rightarrow> Inl e
      | Inr name \<Rightarrow>
          (case realSnapshots_of snapshots of
             Inl e \<Rightarrow> Inl e
           | Inr rest \<Rightarrow> Inr (if name \<noteq> JStr ''current'' then snap # rest else rest)))"

definition renderSnapshot :: "presentation \<Rightarrow> json \<Rightarrow> string" where
  "renderSnapshot P snapshot =
     glyph_bullet @ '' **'' @ ToString (read_prop snapshot ''name'') @ ''**\<newline>''
     @ (if truthy (read_prop snapshot ''description'') then ''  Description: '' @ ToString (read_prop snapshot ''description'') @ ''\<newline>'' else [])
     @ (if truthy (read_prop snapshot ''snaptime'') then ''  Created: '' @ formatSnaptime P (read_prop snapshot ''snaptime'') @ ''\<newline>'' else [])
     @ ''\<newline>''"

text \<open>Lines 2037-2063, the text of the listing.\<close>

definition renderSnapshots :: "presentation \<Rightarrow> string \<Rightarrow> string \<Rightarrow> json \<Rightarrow> js_error + string" where
  "renderSnapshots P type safeVMID snapshots =
     (if \<not> truthy snapshots \<or> read_prop snapshots ''length'' = JNum 0 then
        Inr (glyph_clipboard @ '' **Snapshots for '' @ toUpperCase type @ '' '' @ safeVMID
          @ ''**\<newline>\<newline>''
             @ ''No snapshots found.\<newline>\<newline>''
               @ ''**Tip**: Create a snapshot with `proxmox_create_snapshot_''
               @ (if type = ''lxc'' then ''lxc'' else ''vm'') @ ''`.\<newline>'')
      else
        case array_elements ''snapshots'' ''filter'' snapshots of
          Inl e \<Rightarrow> Inl e
        | Inr elems \<Rightarrow>
            (case realSnapshots_of elems of
               Inl e \<Rightarrow> Inl e
             | Inr realSnapshots \<Rightarrow>
                 if length realSnapshots = 0 then
                   Inr (glyph_clipboard @ '' **Snapshots for '' @ toUpperCase type @ '' ''
                     @ safeVMID @ ''**\<newline>\<newline>''
                        @ ''No snapshots found.\<newline>\<newline>''
                          @ ''**Tip**: Create a snapshot with `proxmox_create_snapshot_''
                          @ (if type = ''lxc'' then ''lxc'' else ''vm'') @ ''`.\<newline>'')
                 else
                   Inr (glyph_clipboard @ '' **Snapshots for '' @ toUpperCase type @ '' ''
                     @ safeVMID @ ''**\<newline>\<newline>''
                        @ concat (map (renderSnapshot P) realSnapshots)
                        @ ''**Total**: '' @ dec_nat (length realSnapshots)
                          @ '' snapshot(s)\<newline>'')))"

definition listSnapshots :: "presentation \<Rightarrow> server \<Rightarrow> json \<Rightarrow> json \<Rightarrow> string \<Rightarrow> envelope io" where
  "listSnapshots P srv node vmid type =
     (if \<not> allowElevated srv then io_return (text_result
        (glyph_warning
          @ ''  **Snapshot Listing Requires Elevated Permissions**\<newline>\<newline>''
          @ ''To list snapshots, set `PROXMOX_ALLOW_ELEVATED=true` in your .env file.\<newline>\<newline>''
          @ ''**Current permissions**: Basic (read-only)''))
      else io_catch
        (io_bind (io_lift (validateNodeName node)) (\<lambda>safeNode.
         io_bind (io_lift (validateVMID vmid)) (\<lambda>safeVMID.
         io_bind (proxmoxRequest srv
           (''/nodes/'' @ safeNode @ ''/'' @ type @ ''/'' @ safeVMID @ ''/snapshot'') GET JNull)
           (\<lambda>snapshots.
         io_bind (io_lift (renderSnapshots P type safeVMID snapshots)) (\<lambda>output.
         io_return (text_result output))))))
        (\<lambda>error. io_return (text_result
          (glyph_cross @ '' **Failed to list snapshots**\<newline>\<newline>Error: ''
            @ message error))))"

text \<open>\<open>listBackups\<close>, 2204-2260. Lines 2220-2247 are \<open>renderBackups\<close>.\<close>

definition listBackups :: "presentation \<Rightarrow> server \<Rightarrow> json \<Rightarrow> json \<Rightarrow> envelope io" where
  "listBackups P srv node storage' =
     (let storage = default_to (JStr ''local'') storage' in
      if \<not> allowElevated srv then io_return (text_result
        (glyph_warning
          @ ''  **Backup Listing Requires Elevated Permissions**\<newline>\<newline>''
          @ ''To list backups, set `PROXMOX_ALLOW_ELEVATED=true` in your .env file.\<newline>\<newline>''
          @ ''**Current permissions**: Basic (read-only)''))
      else io_catch
        (io_bind (io_lift (validateNodeName node)) (\<lambda>safeNode.
         io_bind (proxmoxRequest srv
           (''/nodes/'' @ safeNode @ ''/storage/'' @ ToString storage @ ''/content?content=backup'')
           GET JNull) (\<lambda>backups.
         io_bind (io_lift (renderBackups P storage backups)) (\<lambda>output.
         io_return (text_result output)))))
        (\<lambda>error. io_return (text_result
          (glyph_cross @ '' **Failed to list backups**\<newline>\<newline>Error: ''
            @ message error
            @ ''\<newline>\<newline>**Common issues**:\<newline>- Storage doesn't exist\<newline>''
            @ ''- Storage is not accessible\<newline>- Insufficient permissions''))))"

subsection \<open>Creation\<close>

text \<open>\<open>generateSecurePassword\<close>, 111-121.\<close>

definition password_chars :: string where
  "password_chars = ''ABCDEFGHIJKLMNOPQRSTUVWXYZabcdefghijklmnopqrstuvwxyz0123456789!@#$%^&*''"

definition generateSecurePassword :: "server \<Rightarrow> string" where
  "generateSecurePassword srv =
     map (\<lambda>i. password_chars ! (randomBytes srv i mod length password_chars)) [0 ..< 16]"

text \<open>\<open>createLXCContainer\<close>, 1458-1521.\<close>

definition createLXCContainer :: "server \<Rightarrow> json \<Rightarrow> envelope io" where
  "createLXCContainer srv args =
     (if \<not> allowElevated srv then io_return (text_result
        (glyph_warning
          @ ''  **Container Creation Requires Elevated Permissions**\<newline>\<newline>''
          @ ''To create containers, set `PROXMOX_ALLOW_ELEVATED=true` in your .env file and ensure your API token has VM.Allocate permissions.\<newline>\<newline>''
          @ ''**Current permissions**: Basic (read-only)''))
      else io_catch
        (io_bind (io_lift (get_prop args ''node'')) (\<lambda>node.
         io_bind (io_lift (validateNodeName node)) (\<lambda>safeNode.
         io_bind (io_lift (validateVMID (read_prop args ''vmid''))) (\<lambda>safeVMID.
         (let generatedPassword =
                (if truthy (read_prop args ''password'') then read_prop args ''password''
                 else JStr (generateSecurePassword srv));
              isPasswordGenerated = (\<not> truthy (read_prop args ''password''));
              hostname = or_else (read_prop args ''hostname'') (JStr (''ct'' @ safeVMID));
              memory = or_else (read_prop args ''memory'') (JNum 512);
              storage = or_else (read_prop args ''storage'') (JStr ''local-lvm'');
              body = JObj
                [(''vmid'', JStr safeVMID),
                 (''ostemplate'', read_prop args ''ostemplate''),
                 (''hostname'', hostname),
                 (''password'', generatedPassword),
                 (''memory'', memory),
                 (''storage'', storage),
                 (''rootfs'', JStr (ToString storage @ '':''
                    @ ToString (or_else (read_prop args ''rootfs'') (JNum 8))))]
          in io_bind (proxmoxRequest srv (''/nodes/'' @ safeNode @ ''/lxc'') POST body) (\<lambda>result.
             io_return (text_result
               (glyph_check @ '' **LXC Container Creation Started**\<newline>\<newline>''
                 @ glyph_bullet @ '' **VM ID**: '' @ safeVMID @ ''\<newline>'' @ glyph_bullet
                 @ '' **Hostname**: '' @ ToString hostname @ ''\<newline>'' @ glyph_bullet
                 @ '' **Node**: '' @ safeNode @ ''\<newline>'' @ glyph_bullet
                 @ '' **Template**: '' @ ToString (read_prop args ''ostemplate'')
                 @ ''\<newline>'' @ glyph_bullet @ '' **Memory**: '' @ ToString memory
                 @ '' MB\<newline>'' @ glyph_bullet @ '' **Storage**: '' @ ToString storage
                 @ ''\<newline>''
                @ (if isPasswordGenerated then
                     glyph_bullet @ '' **'' @ glyph_lock @ '' Generated Password**: `''
                       @ ToString generatedPassword @ ''`\<newline>  '' @ glyph_warning
                       @ '' **SAVE THIS PASSWORD** - it will not be shown again!\<newline>''
                   else [])
                @ glyph_bullet @ '' **Task ID**: '' @ ToString (or_else result (JStr ''N/A''))
                  @ ''\<newline>\<newline>**Next steps**:\<newline>''
                  @ ''1. Wait a moment for container to be created\<newline>''
                  @ ''2. Start it with `proxmox_start_lxc`\<newline>''
                  @ ''3. View status with `proxmox_get_vm_status`\<newline>''))))))))
        (\<lambda>error. io_return (text_result
          (glyph_cross @ '' **Failed to create container**\<newline>\<newline>Error: ''
            @ message error
            @ ''\<newline>\<newline>**Common issues**:\<newline>- VM ID already in use\<newline>''
            @ ''- Invalid template path\<newline>- Insufficient permissions\<newline>''
            @ ''- Storage doesn't exist''))))"

text \<open>
  \<open>createVM\<close>, 1523-1594. \<open>diskSize.replace(/[^0-9]/g, '')\<close> keeps the decimal digits of
  a string and throws on any other value.
\<close>

fun digits_only :: "json \<Rightarrow> js_error + string" where
  "digits_only (JStr s) = Inr (filter is_digit s)"
| "digits_only v = Inl (TypeError ''diskSize.replace is not a function'')"

definition createVM :: "server \<Rightarrow> json \<Rightarrow> envelope io" where
  "createVM srv args =
     (if \<not> allowElevated srv then io_return (text_result
        (glyph_warning
          @ ''  **VM Creation Requires Elevated Permissions**\<newline>\<newline>''
          @ ''To create VMs, set `PROXMOX_ALLOW_ELEVATED=true` in your .env file and ensure your API token has VM.Allocate permissions.\<newline>\<newline>''
          @ ''**Current permissions**: Basic (read-only)''))
      else io_catch
        (io_bind (io_lift (get_prop args ''node'')) (\<lambda>node.
         io_bind (io_lift (validateNodeName node)) (\<lambda>safeNode.
         io_bind (io_lift (validateVMID (read_prop args ''vmid''))) (\<lambda>safeVMID.
         (let name = or_else (read_prop args ''name'') (JStr (''vm'' @ safeVMID));
              memory = or_else (read_prop args ''memory'') (JNum 512);
              cores = or_else (read_prop args ''cores'') (JNum 1);
              sockets = or_else (read_prop args ''sockets'') (JNum 1);
              ostype = or_else (read_prop args ''ostype'') (JStr ''l26'');
              net0 = or_else (read_prop args ''net0'') (JStr ''virtio,bridge=vmbr0'');
              storage = or_else (read_prop args ''storage'') (JStr ''local-lvm'');
              diskSize = or_else (read_prop args ''disk_size'') (JStr ''8G'')
          in io_bind (io_lift (digits_only diskSize)) (\<lambda>sizeValue.
             (let scsi0 = ToString storage @ '':'' @ sizeValue;
                  body = JObj
                    ([(''vmid'', JStr safeVMID), (''name'', name), (''memory'', memory),
                      (''cores'', cores), (''sockets'', sockets), (''ostype'', ostype),
                      (''net0'', net0), (''scsi0'', JStr scsi0)]
                     @ (if truthy (read_prop args ''iso'') then
                          [(''ide2'', JStr (ToString (read_prop args ''iso'') @ '',media=cdrom'')),
                           (''boot'', JStr ''order=ide2;scsi0'')]
                        else []))
              in io_bind (proxmoxRequest srv (''/nodes/'' @ safeNode @ ''/qemu'') POST body)
                (\<lambda>result.
                 io_return (text_result
                   (glyph_check @ '' **QEMU VM Creation Started**\<newline>\<newline>''
                     @ glyph_bullet @ '' **VM ID**: '' @ safeVMID @ ''\<newline>''
                     @ glyph_bullet @ '' **Name**: '' @ ToString name @ ''\<newline>''
                     @ glyph_bullet @ '' **Node**: '' @ safeNode @ ''\<newline>'' @ glyph_bullet
                     @ '' **Memory**: '' @ ToString memory @ '' MB\<newline>'' @ glyph_bullet
                     @ '' **CPU**: '' @ ToString sockets @ '' socket(s), '' @ ToString cores
                     @ '' core(s)\<newline>'' @ glyph_bullet @ '' **Disk**: '' @ scsi0
                     @ ''\<newline>'' @ glyph_bullet @ '' **Network**: '' @ ToString net0
                     @ ''\<newline>''
                    @ (if truthy (read_prop args ''iso'') then glyph_bullet @ '' **ISO**: '' @ ToString (read_prop args ''iso'')
                      @ ''\<newline>'' else [])
                    @ glyph_bullet @ '' **Task ID**: ''
                      @ ToString (or_else result (JStr ''N/A''))
                      @ ''\<newline>\<newline>**Next steps**:\<newline>''
                      @ ''1. Wait a moment for VM to be created\<newline>''
                      @ ''2. Start it with `proxmox_start_vm`\<newline>''
                      @ ''3. View status with `proxmox_get_vm_status`\<newline>''))))))))))
        (\<lambda>error. io_return (text_result
          (glyph_cross @ '' **Failed to create VM**\<newline>\<newline>Error: ''
            @ message error
            @ ''\<newline>\<newline>**Common issues**:\<newline>- VM ID already in use\<newline>''
            @ ''- Invalid ISO path\<newline>- Insufficient permissions\<newline>''
            @ ''- Storage doesn't exist''))))"

subsection \<open>Lifecycle\<close>

text \<open>
  The family discriminator \<open>type\<close> of these handlers is a string: the dispatcher passes
  the literal \<open>'lxc'\<close> or \<open>'qemu'\<close>, never a caller's value.
\<close>

text \<open>\<open>startVM\<close>, 1596-1631.\<close>

definition startVM :: "server \<Rightarrow> json \<Rightarrow> json \<Rightarrow> string \<Rightarrow> envelope io" where
  "startVM srv node vmid type =
     (if \<not> allowElevated srv then io_return (text_result
        (glyph_warning @ ''  **VM Control Requires Elevated Permissions**\<newline>\<newline>''
          @ ''To start/stop VMs, set `PROXMOX_ALLOW_ELEVATED=true` in your .env file.\<newline>\<newline>''
          @ ''**Current permissions**: Basic (read-only)''))
      else io_catch
        (io_bind (io_lift (validateNodeName node)) (\<lambda>safeNode.
         io_bind (io_lift (validateVMID vmid)) (\<lambda>safeVMID.
         io_bind (proxmoxRequest srv
           (''/nodes/'' @ safeNode @ ''/'' @ type @ ''/'' @ safeVMID @ ''/status/start'') POST (JObj []))
           (\<lambda>result.
         io_return (text_result
           (glyph_play @ ''  **VM/Container Start Command Sent**\<newline>\<newline>''
             @ glyph_bullet @ '' **VM ID**: '' @ safeVMID @ ''\<newline>'' @ glyph_bullet
             @ '' **Type**: '' @ toUpperCase type @ ''\<newline>'' @ glyph_bullet
             @ '' **Node**: '' @ safeNode @ ''\<newline>'' @ glyph_bullet @ '' **Task ID**: ''
             @ ToString (or_else result (JStr ''N/A'')) @ ''\<newline>\<newline>''
             @ ''**Tip**: Use `proxmox_get_vm_status` to check if it's running.\<newline>''))))))
        (\<lambda>error. io_return (text_result
          (glyph_cross @ '' **Failed to start VM/Container**\<newline>\<newline>Error: ''
            @ message error))))"

text \<open>\<open>stopVM\<close>, 1633-1668.\<close>

definition stopVM :: "server \<Rightarrow> json \<Rightarrow> json \<Rightarrow> string \<Rightarrow> envelope io" where
  "stopVM srv node vmid type =
     (if \<not> allowElevated srv then io_return (text_result
        (glyph_warning @ ''  **VM Control Requires Elevated Permissions**\<newline>\<newline>''
          @ ''To start/stop VMs, set `PROXMOX_ALLOW_ELEVATED=true` in your .env file.\<newline>\<newline>''
          @ ''**Current permissions**: Basic (read-only)''))
      else io_catch
        (io_bind (io_lift (validateNodeName node)) (\<lambda>safeNode.
         io_bind (io_lift (validateVMID vmid)) (\<lambda>safeVMID.
         io_bind (proxmoxRequest srv
           (''/nodes/'' @ safeNode @ ''/'' @ type @ ''/'' @ safeVMID @ ''/status/stop'') POST (JObj []))
           (\<lambda>result.
         io_return (text_result
           (glyph_stop @ ''  **VM/Container Stop Command Sent**\<newline>\<newline>''
             @ glyph_bullet @ '' **VM ID**: '' @ safeVMID @ ''\<newline>'' @ glyph_bullet
             @ '' **Type**: '' @ toUpperCase type @ ''\<newline>'' @ glyph_bullet
             @ '' **Node**: '' @ safeNode @ ''\<newline>'' @ glyph_bullet @ '' **Task ID**: ''
             @ ToString (or_else result (JStr ''N/A'')) @ ''\<newline>\<newline>''
             @ ''**Tip**: Use `proxmox_get_vm_status` to confirm it's stopped.\<newline>''))))))
        (\<lambda>error. io_return (text_result
          (glyph_cross @ '' **Failed to stop VM/Container**\<newline>\<newline>Error: ''
            @ message error))))"

text \<open>\<open>deleteVM\<close>, 1683-1718.\<close>

definition deleteVM :: "server \<Rightarrow> json \<Rightarrow> json \<Rightarrow> string \<Rightarrow> envelope io" where
  "deleteVM srv node vmid type =
     (if \<not> allowElevated srv then io_return (text_result
        (glyph_warning
          @ ''  **VM/Container Deletion Requires Elevated Permissions**\<newline>\<newline>''
          @ ''To delete VMs/containers, set `PROXMOX_ALLOW_ELEVATED=true` in your .env file.\<newline>\<newline>''
          @ ''**Current permissions**: Basic (read-only)''))
      else io_catch
        (io_bind (io_lift (validateNodeName node)) (\<lambda>safeNode.
         io_bind (io_lift (validateVMID vmid)) (\<lambda>safeVMID.
         io_bind (proxmoxRequest srv
           (''/nodes/'' @ safeNode @ ''/'' @ type @ ''/'' @ safeVMID) DELETE (JNull))
           (\<lambda>result.
         io_return (text_result
           (glyph_wastebasket @ ''  **VM/Container Deletion Started**\<newline>\<newline>''
             @ glyph_bullet @ '' **VM/Container ID**: '' @ safeVMID @ ''\<newline>''
             @ glyph_bullet @ '' **Type**: '' @ toUpperCase type @ ''\<newline>'' @ glyph_bullet
             @ '' **Node**: '' @ safeNode @ ''\<newline>'' @ glyph_bullet @ '' **Task ID**: ''
             @ ToString (or_else result (JStr ''N/A''))
             @ ''\<newline>\<newline>**Note**: Deletion may take a moment to complete.\<newline>''))))))
        (\<lambda>error. io_return (text_result
          (glyph_cross @ '' **Failed to delete VM/Container**\<newline>\<newline>Error: ''
            @ message error
            @ ''\<newline>\<newline>**Note**: Make sure the VM/container is stopped first.''))))"

text \<open>\<open>rebootVM\<close>, 1720-1755.\<close>

definition rebootVM :: "server \<Rightarrow> json \<Rightarrow> json \<Rightarrow> string \<Rightarrow> envelope io" where
  "rebootVM srv node vmid type =
     (if \<not> allowElevated srv then io_return (text_result
        (glyph_warning @ ''  **VM Reboot Requires Elevated Permissions**\<newline>\<newline>''
          @ ''To reboot VMs/containers, set `PROXMOX_ALLOW_ELEVATED=true` in your .env file.\<newline>\<newline>''
          @ ''**Current permissions**: Basic (read-only)''))
      else io_catch
        (io_bind (io_lift (validateNodeName node)) (\<lambda>safeNode.
         io_bind (io_lift (validateVMID vmid)) (\<lambda>safeVMID.
         io_bind (proxmoxRequest srv
           (''/nodes/'' @ safeNode @ ''/'' @ type @ ''/'' @ safeVMID @ ''/status/reboot'') POST (JObj []))
           (\<lambda>result.
         io_return (text_result
           (glyph_cycle @ '' **VM/Container Reboot Command Sent**\<newline>\<newline>''
             @ glyph_bullet @ '' **VM ID**: '' @ safeVMID @ ''\<newline>'' @ glyph_bullet
             @ '' **Type**: '' @ toUpperCase type @ ''\<newline>'' @ glyph_bullet
             @ '' **Node**: '' @ safeNode @ ''\<newline>'' @ glyph_bullet @ '' **Task ID**: ''
             @ ToString (or_else result (JStr ''N/A''))
             @ ''\<newline>\<newline>**Tip**: The VM/container will restart momentarily.\<newline>''))))))
        (\<lambda>error. io_return (text_result
          (glyph_cross @ '' **Failed to reboot VM/Container**\<newline>\<newline>Error: ''
            @ message error))))"

text \<open>\<open>shutdownVM\<close>, 1757-1792.\<close>

definition shutdownVM :: "server \<Rightarrow> json \<Rightarrow> json \<Rightarrow> string \<Rightarrow> envelope io" where
  "shutdownVM srv node vmid type =
     (if \<not> allowElevated srv then io_return (text_result
        (glyph_warning
          @ ''  **VM Shutdown Requires Elevated Permissions**\<newline>\<newline>''
          @ ''To shutdown VMs/containers, set `PROXMOX_ALLOW_ELEVATED=true` in your .env file.\<newline>\<newline>''
          @ ''**Current permissions**: Basic (read-only)''))
      else io_catch
        (io_bind (io_lift (validateNodeName node)) (\<lambda>safeNode.
         io_bind (io_lift (validateVMID vmid)) (\<lambda>safeVMID.
         io_bind (proxmoxRequest srv
           (''/nodes/'' @ safeNode @ ''/'' @ type @ ''/'' @ safeVMID @ ''/status/shutdown'') POST (JObj []))
           (\<lambda>result.
         io_return (text_result
           (glyph_pause @ ''  **VM/Container Shutdown Command Sent**\<newline>\<newline>''
             @ glyph_bullet @ '' **VM ID**: '' @ safeVMID @ ''\<newline>'' @ glyph_bullet
             @ '' **Type**: '' @ toUpperCase type @ ''\<newline>'' @ glyph_bullet
             @ '' **Node**: '' @ safeNode @ ''\<newline>'' @ glyph_bullet @ '' **Task ID**: ''
             @ ToString (or_else result (JStr ''N/A'')) @ ''\<newline>\<newline>''
             @ ''**Note**: This is a graceful shutdown. Use `proxmox_stop_vm` for forceful stop.\<newline>''))))))
        (\<lambda>error. io_return (text_result
          (glyph_cross @ '' **Failed to shutdown VM/Container**\<newline>\<newline>Error: ''
            @ message error))))"

text \<open>\<open>pauseVM\<close>, 1794-1829.\<close>

definition pauseVM :: "server \<Rightarrow> json \<Rightarrow> json \<Rightarrow> envelope io" where
  "pauseVM srv node vmid =
     (if \<not> allowElevated srv then io_return (text_result
        (glyph_warning @ ''  **VM Pause Requires Elevated Permissions**\<newline>\<newline>''
          @ ''To pause VMs, set `PROXMOX_ALLOW_ELEVATED=true` in your .env file.\<newline>\<newline>''
          @ ''**Current permissions**: Basic (read-only)''))
      else io_catch
        (io_bind (io_lift (validateNodeName node)) (\<lambda>safeNode.
         io_bind (io_lift (validateVMID vmid)) (\<lambda>safeVMID.
         io_bind (proxmoxRequest srv
           (''/nodes/'' @ safeNode @ ''/qemu/'' @ safeVMID @ ''/status/suspend'') POST (JObj []))
           (\<lambda>result.
         io_return (text_result
           (glyph_pause @ ''  **VM Pause Command Sent**\<newline>\<newline>'' @ glyph_bullet
             @ '' **VM ID**: '' @ safeVMID @ ''\<newline>'' @ glyph_bullet
             @ '' **Type**: QEMU\<newline>'' @ glyph_bullet @ '' **Node**: '' @ safeNode
             @ ''\<newline>'' @ glyph_bullet @ '' **Task ID**: ''
             @ ToString (or_else result (JStr ''N/A'')) @ ''\<newline>\<newline>''
             @ ''**Note**: VM is now paused. Use `proxmox_resume_vm` to resume.\<newline>''))))))
        (\<lambda>error. io_return (text_result
          (glyph_cross @ '' **Failed to pause VM**\<newline>\<newline>Error: '' @ message error
            @ ''\<newline>\<newline>''
            @ ''**Note**: Pause is only available for QEMU VMs, not LXC containers.''))))"

text \<open>\<open>resumeVM\<close>, 1831-1866.\<close>

definition resumeVM :: "server \<Rightarrow> json \<Rightarrow> json \<Rightarrow> envelope io" where
  "resumeVM srv node vmid =
     (if \<not> allowElevated srv then io_return (text_result
        (glyph_warning @ ''  **VM Resume Requires Elevated Permissions**\<newline>\<newline>''
          @ ''To resume VMs, set `PROXMOX_ALLOW_ELEVATED=true` in your .env file.\<newline>\<newline>''
          @ ''**Current permissions**: Basic (read-only)''))
      else io_catch
        (io_bind (io_lift (validateNodeName node)) (\<lambda>safeNode.
         io_bind (io_lift (validateVMID vmid)) (\<lambda>safeVMID.
         io_bind (proxmoxRequest srv
           (''/nodes/'' @ safeNode @ ''/qemu/'' @ safeVMID @ ''/status/resume'') POST (JObj []))
           (\<lambda>result.
         io_return (text_result
           (glyph_play @ ''  **VM Resume Command Sent**\<newline>\<newline>'' @ glyph_bullet
             @ '' **VM ID**: '' @ safeVMID @ ''\<newline>'' @ glyph_bullet
             @ '' **Type**: QEMU\<newline>'' @ glyph_bullet @ '' **Node**: '' @ safeNode
             @ ''\<newline>'' @ glyph_bullet @ '' **Task ID**: ''
             @ ToString (or_else result (JStr ''N/A''))
             @ ''\<newline>\<newline>**Note**: VM is now resuming from paused state.\<newline>''))))))
        (\<lambda>error. io_return (text_result
          (glyph_cross @ '' **Failed to resume VM**\<newline>\<newline>Error: ''
            @ message error @ ''\<newline>\<newline>''
            @ ''**Note**: Resume is only available for QEMU VMs, not LXC containers.''))))"

text \<open>\<open>cloneVM\<close>, 1868-1917.\<close>

definition cloneVM :: "server \<Rightarrow> json \<Rightarrow> json \<Rightarrow> json \<Rightarrow> json \<Rightarrow> string \<Rightarrow> envelope io" where
  "cloneVM srv node vmid newid nameOrHostname type =
     (if \<not> allowElevated srv then io_return (text_result
        (glyph_warning @ ''  **VM Clone Requires Elevated Permissions**\<newline>\<newline>''
          @ ''To clone VMs/containers, set `PROXMOX_ALLOW_ELEVATED=true` in your .env file.\<newline>\<newline>''
          @ ''**Current permissions**: Basic (read-only)''))
      else io_catch
        (io_bind (io_lift (validateNodeName node)) (\<lambda>safeNode.
         io_bind (io_lift (validateVMID vmid)) (\<lambda>safeVMID.
         io_bind (io_lift (validateVMID newid)) (\<lambda>safeNewID.
         (let body = JObj
                [(''newid'', JStr safeNewID),
                 (if type = ''lxc'' then ''hostname'' else ''name'',
                  or_else nameOrHostname (JStr (''clone-'' @ safeNewID)))]
          in io_bind (proxmoxRequest srv
               (''/nodes/'' @ safeNode @ ''/'' @ type @ ''/'' @ safeVMID @ ''/clone'') POST body)
               (\<lambda>result.
             io_return (text_result
               (glyph_clipboard @ '' **VM/Container Clone Started**\<newline>\<newline>''
                 @ glyph_bullet @ '' **Source VM ID**: '' @ safeVMID @ ''\<newline>''
                 @ glyph_bullet @ '' **New VM ID**: '' @ safeNewID @ ''\<newline>''
                 @ glyph_bullet @ '' **New Name**: ''
                 @ ToString (or_else nameOrHostname (JStr (''clone-'' @ safeNewID)))
                 @ ''\<newline>'' @ glyph_bullet @ '' **Type**: '' @ toUpperCase type
                 @ ''\<newline>'' @ glyph_bullet @ '' **Node**: '' @ safeNode @ ''\<newline>''
                 @ glyph_bullet @ '' **Task ID**: '' @ ToString (or_else result (JStr ''N/A''))
                 @ ''\<newline>\<newline>''
                 @ ''**Note**: Clone operation may take several minutes. Check task status in Proxmox.\<newline>''))))))))
        (\<lambda>error. io_return (text_result
          (glyph_cross @ '' **Failed to clone VM/Container**\<newline>\<newline>Error: ''
            @ message error
            @ ''\<newline>\<newline>**Common issues**:\<newline>- New VM ID already in use\<newline>''
            @ ''- Insufficient storage space\<newline>''
            @ ''- Source VM is running (some storage types require stopped VM)''))))"

text \<open>\<open>resizeVM\<close>, 1919-1978.\<close>

definition resizeVM :: "server \<Rightarrow> json \<Rightarrow> json \<Rightarrow> json \<Rightarrow> json \<Rightarrow> string \<Rightarrow> envelope io" where
  "resizeVM srv node vmid memory cores type =
     (if \<not> allowElevated srv then io_return (text_result
        (glyph_warning @ ''  **VM Resize Requires Elevated Permissions**\<newline>\<newline>''
          @ ''To resize VMs/containers, set `PROXMOX_ALLOW_ELEVATED=true` in your .env file.\<newline>\<newline>''
          @ ''**Current permissions**: Basic (read-only)''))
      else
        (let body = (if memory \<noteq> JUndefined then [(''memory'', memory)] else [])
                    @ (if cores \<noteq> JUndefined then [(''cores'', cores)] else [])
         in if length body = 0 then io_return (text_result
              (glyph_warning @ ''  **No Resize Parameters Provided**\<newline>\<newline>''
                @ ''Please specify at least one parameter:\<newline>- `memory`: Memory in MB\<newline>''
                @ ''- `cores`: Number of CPU cores''))
            else io_catch
              (io_bind (io_lift (validateNodeName node)) (\<lambda>safeNode.
               io_bind (io_lift (validateVMID vmid)) (\<lambda>safeVMID.
               io_bind (proxmoxRequest srv
                 (''/nodes/'' @ safeNode @ ''/'' @ type @ ''/'' @ safeVMID @ ''/config'') PUT
                 (JObj body)) (\<lambda>result.
               io_return (text_result
                 (glyph_ruler @ '' **VM/Container Resize Command Sent**\<newline>\<newline>''
                   @ glyph_bullet @ '' **VM ID**: '' @ safeVMID @ ''\<newline>'' @ glyph_bullet
                   @ '' **Type**: '' @ toUpperCase type @ ''\<newline>'' @ glyph_bullet
                   @ '' **Node**: '' @ safeNode @ ''\<newline>''
                  @ (if memory \<noteq> JUndefined then glyph_bullet @ '' **New Memory**: '' @ ToString memory @ '' MB\<newline>'' else [])
                  @ (if cores \<noteq> JUndefined then glyph_bullet @ '' **New Cores**: '' @ ToString cores @ ''\<newline>'' else [])
                  @ glyph_bullet @ '' **Task ID**: '' @ ToString (or_else result (JStr ''N/A''))
                    @ ''\<newline>\<newline>''
                    @ ''**Note**: Some changes may require a reboot to take effect.\<newline>''))))))
              (\<lambda>error. io_return (text_result
                (glyph_cross
                  @ '' **Failed to resize VM/Container**\<newline>\<newline>Error: ''
                  @ message error @ ''\<newline>\<newline>**Common issues**:\<newline>''
                  @ ''- Memory/CPU values exceed node capacity\<newline>- VM is locked or in use\<newline>''
                  @ ''- Invalid parameter values'')))))"

subsection \<open>Snapshots and backups\<close>

text \<open>\<open>createSnapshot\<close>, 1980-2018.\<close>

definition createSnapshot :: "server \<Rightarrow> json \<Rightarrow> json \<Rightarrow> json \<Rightarrow> string \<Rightarrow> envelope io" where
  "createSnapshot srv node vmid snapname type =
     (if \<not> allowElevated srv then io_return (text_result
        (glyph_warning
          @ ''  **Snapshot Creation Requires Elevated Permissions**\<newline>\<newline>''
          @ ''To create snapshots, set `PROXMOX_ALLOW_ELEVATED=true` in your .env file.\<newline>\<newline>''
          @ ''**Current permissions**: Basic (read-only)''))
      else io_catch
        (io_bind (io_lift (validateNodeName node)) (\<lambda>safeNode.
         io_bind (io_lift (validateVMID vmid)) (\<lambda>safeVMID.
         io_bind (proxmoxRequest srv
           (''/nodes/'' @ safeNode @ ''/'' @ type @ ''/'' @ safeVMID @ ''/snapshot'') POST
           (JObj [(''snapname'', snapname)])) (\<lambda>result.
         io_return (text_result
           (glyph_camera @ '' **Snapshot Creation Started**\<newline>\<newline>''
             @ glyph_bullet @ '' **VM ID**: '' @ safeVMID @ ''\<newline>'' @ glyph_bullet
             @ '' **Snapshot Name**: '' @ ToString snapname @ ''\<newline>'' @ glyph_bullet
             @ '' **Type**: '' @ toUpperCase type @ ''\<newline>'' @ glyph_bullet
             @ '' **Node**: '' @ safeNode @ ''\<newline>'' @ glyph_bullet @ '' **Task ID**: ''
             @ ToString (or_else result (JStr ''N/A''))
             @ ''\<newline>\<newline>**Tip**: Use `proxmox_list_snapshots_''
             @ (if type = ''lxc'' then ''lxc'' else ''vm'')
             @ ''` to view all snapshots.\<newline>''))))))
        (\<lambda>error. io_return (text_result
          (glyph_cross @ '' **Failed to create snapshot**\<newline>\<newline>Error: ''
            @ message error @ ''\<newline>\<newline>**Common issues**:\<newline>''
            @ ''- Snapshot name already exists\<newline>- Insufficient disk space\<newline>''
            @ ''- VM is locked or in use''))))"

text \<open>\<open>rollbackSnapshot\<close>, 2078-2115.\<close>

definition rollbackSnapshot :: "server \<Rightarrow> json \<Rightarrow> json \<Rightarrow> json \<Rightarrow> string \<Rightarrow> envelope io" where
  "rollbackSnapshot srv node vmid snapname type =
     (if \<not> allowElevated srv then io_return (text_result
        (glyph_warning
          @ ''  **Snapshot Rollback Requires Elevated Permissions**\<newline>\<newline>''
          @ ''To rollback snapshots, set `PROXMOX_ALLOW_ELEVATED=true` in your .env file.\<newline>\<newline>''
          @ ''**Current permissions**: Basic (read-only)''))
      else io_catch
        (io_bind (io_lift (validateNodeName node)) (\<lambda>safeNode.
         io_bind (io_lift (validateVMID vmid)) (\<lambda>safeVMID.
         io_bind (proxmoxRequest srv
           (''/nodes/'' @ safeNode @ ''/'' @ type @ ''/'' @ safeVMID @ ''/snapshot/''
            @ ToString snapname @ ''/rollback'') POST (JObj [])) (\<lambda>result.
         io_return (text_result
           (glyph_rewind @ ''  **Snapshot Rollback Started**\<newline>\<newline>''
             @ glyph_bullet @ '' **VM ID**: '' @ safeVMID @ ''\<newline>'' @ glyph_bullet
             @ '' **Snapshot Name**: '' @ ToString snapname @ ''\<newline>'' @ glyph_bullet
             @ '' **Type**: '' @ toUpperCase type @ ''\<newline>'' @ glyph_bullet
             @ '' **Node**: '' @ safeNode @ ''\<newline>'' @ glyph_bullet @ '' **Task ID**: ''
             @ ToString (or_else result (JStr ''N/A'')) @ ''\<newline>\<newline>''
             @ ''**Warning**: This will restore the VM/container to the state of the snapshot.\<newline>''
             @ ''**Tip**: Any changes made after the snapshot was created will be lost.\<newline>''))))))
        (\<lambda>error. io_return (text_result
          (glyph_cross @ '' **Failed to rollback snapshot**\<newline>\<newline>Error: ''
            @ message error
            @ ''\<newline>\<newline>**Common issues**:\<newline>- Snapshot doesn't exist\<newline>''
            @ ''- VM is running (stop it first)\<newline>- VM is locked or in use''))))"

text \<open>\<open>deleteSnapshot\<close>, 2117-2153.\<close>

definition deleteSnapshot :: "server \<Rightarrow> json \<Rightarrow> json \<Rightarrow> json \<Rightarrow> string \<Rightarrow> envelope io" where
  "deleteSnapshot srv node vmid snapname type =
     (if \<not> allowElevated srv then io_return (text_result
        (glyph_warning
          @ ''  **Snapshot Deletion Requires Elevated Permissions**\<newline>\<newline>''
          @ ''To delete snapshots, set `PROXMOX_ALLOW_ELEVATED=true` in your .env file.\<newline>\<newline>''
          @ ''**Current permissions**: Basic (read-only)''))
      else io_catch
        (io_bind (io_lift (validateNodeName node)) (\<lambda>safeNode.
         io_bind (io_lift (validateVMID vmid)) (\<lambda>safeVMID.
         io_bind (proxmoxRequest srv
           (''/nodes/'' @ safeNode @ ''/'' @ type @ ''/'' @ safeVMID @ ''/snapshot/''
            @ ToString snapname) DELETE JNull) (\<lambda>result.
         io_return (text_result
           (glyph_wastebasket @ ''  **Snapshot Deletion Started**\<newline>\<newline>''
             @ glyph_bullet @ '' **VM ID**: '' @ safeVMID @ ''\<newline>'' @ glyph_bullet
             @ '' **Snapshot Name**: '' @ ToString snapname @ ''\<newline>'' @ glyph_bullet
             @ '' **Type**: '' @ toUpperCase type @ ''\<newline>'' @ glyph_bullet
             @ '' **Node**: '' @ safeNode @ ''\<newline>'' @ glyph_bullet @ '' **Task ID**: ''
             @ ToString (or_else result (JStr ''N/A'')) @ ''\<newline>\<newline>''
             @ ''**Note**: Snapshot deletion may take a moment to complete.\<newline>''))))))
        (\<lambda>error. io_return (text_result
          (glyph_cross @ '' **Failed to delete snapshot**\<newline>\<newline>Error: ''
            @ message error
            @ ''\<newline>\<newline>**Common issues**:\<newline>- Snapshot doesn't exist\<newline>''
            @ ''- VM is locked or in use\<newline>- Insufficient permissions''))))"

text \<open>\<open>createBackup\<close>, 2155-2202.\<close>

definition createBackup ::
  "server \<Rightarrow> json \<Rightarrow> json \<Rightarrow> json \<Rightarrow> json \<Rightarrow> json \<Rightarrow> string \<Rightarrow> envelope io" where
  "createBackup srv node vmid storage' mode' compress' type =
     (let storage = default_to (JStr ''local'') storage';
          mode = default_to (JStr ''snapshot'') mode';
          compress = default_to (JStr ''zstd'') compress'
      in if \<not> allowElevated srv then io_return (text_result
        (glyph_warning
          @ ''  **Backup Creation Requires Elevated Permissions**\<newline>\<newline>''
          @ ''To create backups, set `PROXMOX_ALLOW_ELEVATED=true` in your .env file.\<newline>\<newline>''
          @ ''**Current permissions**: Basic (read-only)''))
      else io_catch
        (io_bind (io_lift (validateNodeName node)) (\<lambda>safeNode.
         io_bind (io_lift (validateVMID vmid)) (\<lambda>safeVMID.
         io_bind (proxmoxRequest srv (''/nodes/'' @ safeNode @ ''/vzdump'') POST
           (JObj [(''vmid'', JStr safeVMID), (''storage'', storage), (''mode'', mode),
                  (''compress'', compress)])) (\<lambda>result.
         io_return (text_result
           (glyph_floppy @ '' **Backup Creation Started**\<newline>\<newline>'' @ glyph_bullet
             @ '' **VM ID**: '' @ safeVMID @ ''\<newline>'' @ glyph_bullet @ '' **Type**: ''
             @ toUpperCase type @ ''\<newline>'' @ glyph_bullet @ '' **Node**: '' @ safeNode
             @ ''\<newline>'' @ glyph_bullet @ '' **Storage**: '' @ ToString storage
             @ ''\<newline>'' @ glyph_bullet @ '' **Mode**: '' @ ToString mode @ ''\<newline>''
             @ glyph_bullet @ '' **Compression**: '' @ ToString compress @ ''\<newline>''
             @ glyph_bullet @ '' **Task ID**: '' @ ToString (or_else result (JStr ''N/A''))
             @ ''\<newline>\<newline>''
             @ ''**Tip**: Backup runs in the background. Use `proxmox_list_backups` to view all backups.\<newline>''
             @ ''**Note**: Backup modes:\<newline>''
             @ ''  - snapshot: Quick backup using snapshots (recommended)\<newline>''
             @ ''  - suspend: Suspends VM during backup\<newline>''
             @ ''  - stop: Stops VM during backup\<newline>''))))))
        (\<lambda>error. io_return (text_result
          (glyph_cross @ '' **Failed to create backup**\<newline>\<newline>Error: ''
            @ message error @ ''\<newline>\<newline>**Common issues**:\<newline>''
            @ ''- Insufficient disk space on storage\<newline>- VM is locked or in use\<newline>''
            @ ''- Invalid storage name\<newline>- Insufficient permissions''))))"

text \<open>\<open>restoreBackup\<close>, 2262-2312.\<close>

definition restoreBackup :: "server \<Rightarrow> json \<Rightarrow> json \<Rightarrow> json \<Rightarrow> json \<Rightarrow> string \<Rightarrow> envelope io" where
  "restoreBackup srv node vmid archive storage type =
     (if \<not> allowElevated srv then io_return (text_result
        (glyph_warning
          @ ''  **Backup Restore Requires Elevated Permissions**\<newline>\<newline>''
          @ ''To restore backups, set `PROXMOX_ALLOW_ELEVATED=true` in your .env file.\<newline>\<newline>''
          @ ''**Current permissions**: Basic (read-only)''))
      else io_catch
        (io_bind (io_lift (validateNodeName node)) (\<lambda>safeNode.
         io_bind (io_lift (validateVMID vmid)) (\<lambda>safeVMID.
         (let body = JObj
                ([(''vmid'', JStr safeVMID), (''archive'', archive), (''restore'', JNum 1)]
                 @ (if truthy storage then [(''storage'', storage)] else []))
          in io_bind (proxmoxRequest srv (''/nodes/'' @ safeNode @ ''/'' @ type) POST body)
               (\<lambda>result.
             io_return (text_result
               (glyph_recycle @ ''  **Backup Restore Started**\<newline>\<newline>''
                 @ glyph_bullet @ '' **New VM ID**: '' @ safeVMID @ ''\<newline>''
                 @ glyph_bullet @ '' **Type**: '' @ toUpperCase type @ ''\<newline>''
                 @ glyph_bullet @ '' **Node**: '' @ safeNode @ ''\<newline>'' @ glyph_bullet
                 @ '' **Archive**: '' @ ToString archive @ ''\<newline>''
                @ (if truthy storage then glyph_bullet @ '' **Storage**: '' @ ToString storage @ ''\<newline>'' else [])
                @ glyph_bullet @ '' **Task ID**: '' @ ToString (or_else result (JStr ''N/A''))
                  @ ''\<newline>\<newline>''
                  @ ''**Note**: Restore operation may take several minutes depending on backup size.\<newline>''
                  @ ''**Tip**: Use `proxmox_get_vm_status` to check the restored VM status after completion.\<newline>'')))))))
        (\<lambda>error. io_return (text_result
          (glyph_cross @ '' **Failed to restore backup**\<newline>\<newline>Error: ''
            @ message error
            @ ''\<newline>\<newline>**Common issues**:\<newline>- VM ID already in use\<newline>''
            @ ''- Backup archive doesn't exist\<newline>- Insufficient storage space\<newline>''
            @ ''- Invalid archive path\<newline>- Insufficient permissions''))))"

text \<open>\<open>deleteBackup\<close>, 2314-2349.\<close>

definition deleteBackup :: "server \<Rightarrow> json \<Rightarrow> json \<Rightarrow> json \<Rightarrow> envelope io" where
  "deleteBackup srv node storage volume =
     (if \<not> allowElevated srv then io_return (text_result
        (glyph_warning
          @ ''  **Backup Deletion Requires Elevated Permissions**\<newline>\<newline>''
          @ ''To delete backups, set `PROXMOX_ALLOW_ELEVATED=true` in your .env file.\<newline>\<newline>''
          @ ''**Current permissions**: Basic (read-only)''))
      else io_catch
        (io_bind (io_lift (validateNodeName node)) (\<lambda>safeNode.
         (let encodedVolume = encodeURIComponent (ToString volume)
          in io_bind (proxmoxRequest srv
               (''/nodes/'' @ safeNode @ ''/storage/'' @ ToString storage @ ''/content/''
                @ encodedVolume) DELETE JNull) (\<lambda>result.
             io_return (text_result
               (glyph_wastebasket @ ''  **Backup Deletion Started**\<newline>\<newline>''
                 @ glyph_bullet @ '' **Node**: '' @ safeNode @ ''\<newline>'' @ glyph_bullet
                 @ '' **Storage**: '' @ ToString storage @ ''\<newline>'' @ glyph_bullet
                 @ '' **Volume**: '' @ ToString volume @ ''\<newline>'' @ glyph_bullet
                 @ '' **Task ID**: '' @ ToString (or_else result (JStr ''N/A''))
                 @ ''\<newline>\<newline>''
                 @ ''**Note**: Backup file will be permanently deleted from storage.\<newline>''))))))
        (\<lambda>error. io_return (text_result
          (glyph_cross @ '' **Failed to delete backup**\<newline>\<newline>Error: ''
            @ message error
            @ ''\<newline>\<newline>**Common issues**:\<newline>- Backup doesn't exist\<newline>''
            @ ''- Invalid volume path\<newline>- Backup is in use\<newline>''
            @ ''- Insufficient permissions''))))"

subsection \<open>Disks and mount points\<close>

text \<open>\<open>addDiskVM\<close>, 2351-2397.\<close>

definition addDiskVM :: "server \<Rightarrow> json \<Rightarrow> json \<Rightarrow> json \<Rightarrow> json \<Rightarrow> json \<Rightarrow> envelope io" where
  "addDiskVM srv node vmid disk storage size' =
     (if \<not> allowElevated srv then io_return (text_result
        (glyph_warning
          @ ''  **Disk Management Requires Elevated Permissions**\<newline>\<newline>''
          @ ''To add disks to VMs, set `PROXMOX_ALLOW_ELEVATED=true` in your .env file.\<newline>\<newline>''
          @ ''**Current permissions**: Basic (read-only)''))
      else io_catch
        (io_bind (io_lift (validateNodeName node)) (\<lambda>safeNode.
         io_bind (io_lift (validateVMID vmid)) (\<lambda>safeVMID.
         io_bind (proxmoxRequest srv
           (''/nodes/'' @ safeNode @ ''/qemu/'' @ safeVMID @ ''/config'') PUT
           (JObj [(ToString disk, JStr (ToString storage @ '':'' @ ToString size'))])) (\<lambda>result.
         io_return (text_result
           (glyph_disc @ '' **VM Disk Addition Started**\<newline>\<newline>'' @ glyph_bullet
             @ '' **VM ID**: '' @ safeVMID @ ''\<newline>'' @ glyph_bullet @ '' **Node**: ''
             @ safeNode @ ''\<newline>'' @ glyph_bullet @ '' **Disk**: '' @ ToString disk
             @ ''\<newline>'' @ glyph_bullet @ '' **Storage**: '' @ ToString storage
             @ ''\<newline>'' @ glyph_bullet @ '' **Size**: '' @ ToString size'
             @ '' GB\<newline>'' @ glyph_bullet @ '' **Task ID**: ''
             @ ToString (or_else result (JStr ''N/A'')) @ ''\<newline>\<newline>''
            @ ''**Disk naming conventions**:\<newline>  - SCSI: scsi0-15\<newline>''
              @ ''  - VirtIO: virtio0-15\<newline>  - SATA: sata0-5\<newline>''
              @ ''  - IDE: ide0-3\<newline>\<newline>''
              @ ''**Note**: The VM may need to be stopped for this operation depending on configuration.\<newline>''))))))
        (\<lambda>error. io_return (text_result
          (glyph_cross @ '' **Failed to add disk to VM**\<newline>\<newline>Error: ''
            @ message error
            @ ''\<newline>\<newline>**Common issues**:\<newline>- Disk name already in use\<newline>''
            @ ''- VM is running (may need to be stopped)\<newline>''
            @ ''- Invalid disk name format\<newline>- Insufficient storage space\<newline>''
            @ ''- Storage doesn't exist''))))"

text \<open>\<open>addMountPointLXC\<close>, 2399-2441.\<close>

definition addMountPointLXC :: "server \<Rightarrow> json \<Rightarrow> json \<Rightarrow> json \<Rightarrow> json \<Rightarrow> json \<Rightarrow> envelope io" where
  "addMountPointLXC srv node vmid mp storage size' =
     (if \<not> allowElevated srv then io_return (text_result
        (glyph_warning
          @ ''  **Disk Management Requires Elevated Permissions**\<newline>\<newline>''
          @ ''To add mount points to containers, set `PROXMOX_ALLOW_ELEVATED=true` in your .env file.\<newline>\<newline>''
          @ ''**Current permissions**: Basic (read-only)''))
      else io_catch
        (io_bind (io_lift (validateNodeName node)) (\<lambda>safeNode.
         io_bind (io_lift (validateVMID vmid)) (\<lambda>safeVMID.
         io_bind (proxmoxRequest srv
           (''/nodes/'' @ safeNode @ ''/lxc/'' @ safeVMID @ ''/config'') PUT
           (JObj [(ToString mp, JStr (ToString storage @ '':'' @ ToString size'))])) (\<lambda>result.
         io_return (text_result
           (glyph_disc @ '' **LXC Mount Point Addition Started**\<newline>\<newline>''
             @ glyph_bullet @ '' **Container ID**: '' @ safeVMID @ ''\<newline>'' @ glyph_bullet
             @ '' **Node**: '' @ safeNode @ ''\<newline>'' @ glyph_bullet
             @ '' **Mount Point**: '' @ ToString mp @ ''\<newline>'' @ glyph_bullet
             @ '' **Storage**: '' @ ToString storage @ ''\<newline>'' @ glyph_bullet
             @ '' **Size**: '' @ ToString size' @ '' GB\<newline>'' @ glyph_bullet
             @ '' **Task ID**: '' @ ToString (or_else result (JStr ''N/A''))
             @ ''\<newline>\<newline>**Mount point naming**: mp0-255\<newline>\<newline>''
             @ ''**Note**: The container may need to be stopped for this operation.\<newline>''))))))
        (\<lambda>error. io_return (text_result
          (glyph_cross
            @ '' **Failed to add mount point to container**\<newline>\<newline>Error: ''
            @ message error @ ''\<newline>\<newline>**Common issues**:\<newline>''
            @ ''- Mount point name already in use\<newline>''
            @ ''- Container is running (may need to be stopped)\<newline>''
            @ ''- Invalid mount point name\<newline>- Insufficient storage space\<newline>''
            @ ''- Storage doesn't exist''))))"

text \<open>\<open>resizeDiskVM\<close>, 2443-2487.\<close>

definition resizeDiskVM :: "server \<Rightarrow> json \<Rightarrow> json \<Rightarrow> json \<Rightarrow> json \<Rightarrow> envelope io" where
  "resizeDiskVM srv node vmid disk size' =
     (if \<not> allowElevated srv then io_return (text_result
        (glyph_warning
          @ ''  **Disk Management Requires Elevated Permissions**\<newline>\<newline>''
          @ ''To resize VM disks, set `PROXMOX_ALLOW_ELEVATED=true` in your .env file.\<newline>\<newline>''
          @ ''**Current permissions**: Basic (read-only)''))
      else io_catch
        (io_bind (io_lift (validateNodeName node)) (\<lambda>safeNode.
         io_bind (io_lift (validateVMID vmid)) (\<lambda>safeVMID.
         io_bind (proxmoxRequest srv
           (''/nodes/'' @ safeNode @ ''/qemu/'' @ safeVMID @ ''/resize'') PUT
           (JObj [(''disk'', disk), (''size'', size')])) (\<lambda>result.
         io_return (text_result
           (glyph_ruler @ '' **VM Disk Resize Started**\<newline>\<newline>'' @ glyph_bullet
             @ '' **VM ID**: '' @ safeVMID @ ''\<newline>'' @ glyph_bullet @ '' **Node**: ''
             @ safeNode @ ''\<newline>'' @ glyph_bullet @ '' **Disk**: '' @ ToString disk
             @ ''\<newline>'' @ glyph_bullet @ '' **New Size**: '' @ ToString size'
             @ ''\<newline>'' @ glyph_bullet @ '' **Task ID**: ''
             @ ToString (or_else result (JStr ''N/A''))
             @ ''\<newline>\<newline>**Size format examples**:\<newline>''
             @ ''  - +10G: Add 10GB to current size\<newline>''
             @ ''  - 50G: Set absolute size to 50GB\<newline>\<newline>''
             @ ''**Note**: Disks can only be expanded, not shrunk. Some configurations allow online resizing.\<newline>''))))))
        (\<lambda>error. io_return (text_result
          (glyph_cross @ '' **Failed to resize VM disk**\<newline>\<newline>Error: ''
            @ message error
            @ ''\<newline>\<newline>**Common issues**:\<newline>- Disk doesn't exist\<newline>''
            @ ''- Trying to shrink disk (not supported)\<newline>''
            @ ''- Insufficient storage space\<newline>- Invalid size format\<newline>''
            @ ''- VM is locked or in use''))))"

text \<open>\<open>resizeDiskLXC\<close>, 2489-2534.\<close>

definition resizeDiskLXC :: "server \<Rightarrow> json \<Rightarrow> json \<Rightarrow> json \<Rightarrow> json \<Rightarrow> envelope io" where
  "resizeDiskLXC srv node vmid disk size' =
     (if \<not> allowElevated srv then io_return (text_result
        (glyph_warning
          @ ''  **Disk Management Requires Elevated Permissions**\<newline>\<newline>''
          @ ''To resize LXC disks, set `PROXMOX_ALLOW_ELEVATED=true` in your .env file.\<newline>\<newline>''
          @ ''**Current permissions**: Basic (read-only)''))
      else io_catch
        (io_bind (io_lift (validateNodeName node)) (\<lambda>safeNode.
         io_bind (io_lift (validateVMID vmid)) (\<lambda>safeVMID.
         io_bind (proxmoxRequest srv
           (''/nodes/'' @ safeNode @ ''/lxc/'' @ safeVMID @ ''/resize'') PUT
           (JObj [(''disk'', disk), (''size'', size')])) (\<lambda>result.
         io_return (text_result
           (glyph_ruler @ '' **LXC Disk Resize Started**\<newline>\<newline>'' @ glyph_bullet
             @ '' **Container ID**: '' @ safeVMID @ ''\<newline>'' @ glyph_bullet
             @ '' **Node**: '' @ safeNode @ ''\<newline>'' @ glyph_bullet @ '' **Disk**: ''
             @ ToString disk @ ''\<newline>'' @ glyph_bullet @ '' **New Size**: ''
             @ ToString size' @ ''\<newline>'' @ glyph_bullet @ '' **Task ID**: ''
             @ ToString (or_else result (JStr ''N/A''))
             @ ''\<newline>\<newline>**Size format examples**:\<newline>''
             @ ''  - +10G: Add 10GB to current size\<newline>''
             @ ''  - 50G: Set absolute size to 50GB\<newline>\<newline>''
             @ ''**Valid disk names**: rootfs, mp0, mp1, mp2, etc.\<newline>\<newline>''
             @ ''**Note**: Disks can only be expanded, not shrunk. Container may need to be stopped.\<newline>''))))))
        (\<lambda>error. io_return (text_result
          (glyph_cross @ '' **Failed to resize LXC disk**\<newline>\<newline>Error: ''
            @ message error
            @ ''\<newline>\<newline>**Common issues**:\<newline>- Disk doesn't exist\<newline>''
            @ ''- Trying to shrink disk (not supported)\<newline>''
            @ ''- Insufficient storage space\<newline>- Invalid size format\<newline>''
            @ ''- Container is locked or in use''))))"

text \<open>\<open>removeDiskVM\<close>, 2536-2576.\<close>

definition removeDiskVM :: "server \<Rightarrow> json \<Rightarrow> json \<Rightarrow> json \<Rightarrow> envelope io" where
  "removeDiskVM srv node vmid disk =
     (if \<not> allowElevated srv then io_return (text_result
        (glyph_warning
          @ ''  **Disk Management Requires Elevated Permissions**\<newline>\<newline>''
          @ ''To remove disks from VMs, set `PROXMOX_ALLOW_ELEVATED=true` in your .env file.\<newline>\<newline>''
          @ ''**Current permissions**: Basic (read-only)''))
      else io_catch
        (io_bind (io_lift (validateNodeName node)) (\<lambda>safeNode.
         io_bind (io_lift (validateVMID vmid)) (\<lambda>safeVMID.
         io_bind (proxmoxRequest srv
           (''/nodes/'' @ safeNode @ ''/qemu/'' @ safeVMID @ ''/config'') PUT
           (JObj [(''delete'', disk)])) (\<lambda>result.
         io_return (text_result
           (glyph_minus @ '' **VM Disk Removal Started**\<newline>\<newline>'' @ glyph_bullet
             @ '' **VM ID**: '' @ safeVMID @ ''\<newline>'' @ glyph_bullet @ '' **Node**: ''
             @ safeNode @ ''\<newline>'' @ glyph_bullet @ '' **Disk**: '' @ ToString disk
             @ ''\<newline>'' @ glyph_bullet @ '' **Task ID**: ''
             @ ToString (or_else result (JStr ''N/A'')) @ ''\<newline>\<newline>''
             @ ''**Warning**: This will permanently delete the disk and all its data.\<newline>''
             @ ''**Note**: The VM should be stopped for this operation.\<newline>''))))))
        (\<lambda>error. io_return (text_result
          (glyph_cross @ '' **Failed to remove disk from VM**\<newline>\<newline>Error: ''
            @ message error
            @ ''\<newline>\<newline>**Common issues**:\<newline>- Disk doesn't exist\<newline>''
            @ ''- VM is running (must be stopped)\<newline>- Cannot remove boot disk\<newline>''
            @ ''- VM is locked or in use''))))"

text \<open>\<open>removeMountPointLXC\<close>, 2578-2618.\<close>

definition removeMountPointLXC :: "server \<Rightarrow> json \<Rightarrow> json \<Rightarrow> json \<Rightarrow> envelope io" where
  "removeMountPointLXC srv node vmid mp =
     (if \<not> allowElevated srv then io_return (text_result
        (glyph_warning
          @ ''  **Disk Management Requires Elevated Permissions**\<newline>\<newline>''
          @ ''To remove mount points from containers, set `PROXMOX_ALLOW_ELEVATED=true` in your .env file.\<newline>\<newline>''
          @ ''**Current permissions**: Basic (read-only)''))
      else io_catch
        (io_bind (io_lift (validateNodeName node)) (\<lambda>safeNode.
         io_bind (io_lift (validateVMID vmid)) (\<lambda>safeVMID.
         io_bind (proxmoxRequest srv
           (''/nodes/'' @ safeNode @ ''/lxc/'' @ safeVMID @ ''/config'') PUT
           (JObj [(''delete'', mp)])) (\<lambda>result.
         io_return (text_result
           (glyph_minus @ '' **LXC Mount Point Removal Started**\<newline>\<newline>''
             @ glyph_bullet @ '' **Container ID**: '' @ safeVMID @ ''\<newline>'' @ glyph_bullet
             @ '' **Node**: '' @ safeNode @ ''\<newline>'' @ glyph_bullet
             @ '' **Mount Point**: '' @ ToString mp @ ''\<newline>'' @ glyph_bullet
             @ '' **Task ID**: '' @ ToString (or_else result (JStr ''N/A''))
             @ ''\<newline>\<newline>''
             @ ''**Warning**: This will permanently delete the mount point and all its data.\<newline>''
             @ ''**Note**: The container should be stopped for this operation.\<newline>''))))))
        (\<lambda>error. io_return (text_result
          (glyph_cross
            @ '' **Failed to remove mount point from container**\<newline>\<newline>Error: ''
            @ message error @ ''\<newline>\<newline>**Common issues**:\<newline>''
            @ ''- Mount point doesn't exist\<newline>''
            @ ''- Container is running (must be stopped)\<newline>- Cannot remove rootfs\<newline>''
            @ ''- Container is locked or in use''))))"

text \<open>\<open>moveDiskVM\<close>, 2620-2664.\<close>

definition moveDiskVM :: "server \<Rightarrow> json \<Rightarrow> json \<Rightarrow> json \<Rightarrow> json \<Rightarrow> json \<Rightarrow> envelope io" where
  "moveDiskVM srv node vmid disk storage deleteSource' =
     (let deleteSource = default_to (JBool True) deleteSource' in
      if \<not> allowElevated srv then io_return (text_result
        (glyph_warning
          @ ''  **Disk Management Requires Elevated Permissions**\<newline>\<newline>''
          @ ''To move VM disks, set `PROXMOX_ALLOW_ELEVATED=true` in your .env file.\<newline>\<newline>''
          @ ''**Current permissions**: Basic (read-only)''))
      else io_catch
        (io_bind (io_lift (validateNodeName node)) (\<lambda>safeNode.
         io_bind (io_lift (validateVMID vmid)) (\<lambda>safeVMID.
         io_bind (proxmoxRequest srv
           (''/nodes/'' @ safeNode @ ''/qemu/'' @ safeVMID @ ''/move_disk'') POST
           (JObj [(''disk'', disk), (''storage'', storage),
                  (''delete'', JNum (if truthy deleteSource then 1 else 0))])) (\<lambda>result.
         io_return (text_result
           (glyph_package @ '' **VM Disk Move Started**\<newline>\<newline>'' @ glyph_bullet
             @ '' **VM ID**: '' @ safeVMID @ ''\<newline>'' @ glyph_bullet @ '' **Node**: ''
             @ safeNode @ ''\<newline>'' @ glyph_bullet @ '' **Disk**: '' @ ToString disk
             @ ''\<newline>'' @ glyph_bullet @ '' **Target Storage**: '' @ ToString storage
             @ ''\<newline>'' @ glyph_bullet @ '' **Delete Source**: ''
             @ (if truthy deleteSource then ''Yes'' else ''No'') @ ''\<newline>'' @ glyph_bullet
             @ '' **Task ID**: '' @ ToString (or_else result (JStr ''N/A''))
             @ ''\<newline>\<newline>''
             @ ''**Note**: Disk move operation may take several minutes depending on disk size.\<newline>''
             @ ''**Tip**: The VM should be stopped for this operation in most configurations.\<newline>''))))))
        (\<lambda>error. io_return (text_result
          (glyph_cross @ '' **Failed to move VM disk**\<newline>\<newline>Error: ''
            @ message error
            @ ''\<newline>\<newline>**Common issues**:\<newline>- Disk doesn't exist\<newline>''
            @ ''- Target storage doesn't exist\<newline>''
            @ ''- Insufficient space on target storage\<newline>''
            @ ''- VM is running (may need to be stopped)\<newline>- VM is locked or in use''))))"

text \<open>\<open>moveDiskLXC\<close>, 2666-2711.\<close>

definition moveDiskLXC :: "server \<Rightarrow> json \<Rightarrow> json \<Rightarrow> json \<Rightarrow> json \<Rightarrow> json \<Rightarrow> envelope io" where
  "moveDiskLXC srv node vmid disk storage deleteSource' =
     (let deleteSource = default_to (JBool True) deleteSource' in
      if \<not> allowElevated srv then io_return (text_result
        (glyph_warning
          @ ''  **Disk Management Requires Elevated Permissions**\<newline>\<newline>''
          @ ''To move LXC disks, set `PROXMOX_ALLOW_ELEVATED=true` in your .env file.\<newline>\<newline>''
          @ ''**Current permissions**: Basic (read-only)''))
      else io_catch
        (io_bind (io_lift (validateNodeName node)) (\<lambda>safeNode.
         io_bind (io_lift (validateVMID vmid)) (\<lambda>safeVMID.
         io_bind (proxmoxRequest srv
           (''/nodes/'' @ safeNode @ ''/lxc/'' @ safeVMID @ ''/move_volume'') POST
           (JObj [(''volume'', disk), (''storage'', storage),
                  (''delete'', JNum (if truthy deleteSource then 1 else 0))])) (\<lambda>result.
         io_return (text_result
           (glyph_package @ '' **LXC Disk Move Started**\<newline>\<newline>'' @ glyph_bullet
             @ '' **Container ID**: '' @ safeVMID @ ''\<newline>'' @ glyph_bullet
             @ '' **Node**: '' @ safeNode @ ''\<newline>'' @ glyph_bullet @ '' **Volume**: ''
             @ ToString disk @ ''\<newline>'' @ glyph_bullet @ '' **Target Storage**: ''
             @ ToString storage @ ''\<newline>'' @ glyph_bullet @ '' **Delete Source**: ''
             @ (if truthy deleteSource then ''Yes'' else ''No'') @ ''\<newline>'' @ glyph_bullet
             @ '' **Task ID**: '' @ ToString (or_else result (JStr ''N/A''))
             @ ''\<newline>\<newline>''
             @ ''**Valid volumes**: rootfs, mp0, mp1, mp2, etc.\<newline>\<newline>''
             @ ''**Note**: Volume move operation may take several minutes depending on volume size.\<newline>''
             @ ''**Tip**: The container should be stopped for this operation.\<newline>''))))))
        (\<lambda>error. io_return (text_result
          (glyph_cross @ '' **Failed to move LXC volume**\<newline>\<newline>Error: ''
            @ message error
            @ ''\<newline>\<newline>**Common issues**:\<newline>- Volume doesn't exist\<newline>''
            @ ''- Target storage doesn't exist\<newline>''
            @ ''- Insufficient space on target storage\<newline>''
            @ ''- Container is running (may need to be stopped)\<newline>''
            @ ''- Container is locked or in use''))))"

subsection \<open>Network interfaces\<close>

text \<open>\<open>addNetworkVM\<close>, 2713-2774.\<close>

definition addNetworkVM ::
  "server \<Rightarrow> json \<Rightarrow> json \<Rightarrow> json \<Rightarrow> json \<Rightarrow> json \<Rightarrow> json \<Rightarrow> json \<Rightarrow> json \<Rightarrow> envelope io" where
  "addNetworkVM srv node vmid net bridge model' macaddr vlan firewall =
     (let model = default_to (JStr ''virtio'') model' in
      if \<not> allowElevated srv then io_return (text_result
        (glyph_warning
          @ ''  **Network Management Requires Elevated Permissions**\<newline>\<newline>''
          @ ''To add VM network interfaces, set `PROXMOX_ALLOW_ELEVATED=true` in your .env file.\<newline>\<newline>''
          @ ''**Current permissions**: Basic (read-only)''))
      else io_catch
        (io_bind (io_lift (validateNodeName node)) (\<lambda>safeNode.
         io_bind (io_lift (validateVMID vmid)) (\<lambda>safeVMID.
         (let netConfig =
                ToString (or_else model (JStr ''virtio'')) @ '',bridge='' @ ToString bridge
                @ (if truthy macaddr then '',macaddr='' @ ToString macaddr else [])
                @ (if vlan \<noteq> JUndefined \<and> vlan \<noteq> JNull then '',tag='' @ ToString vlan else [])
                @ (if truthy firewall then '',firewall=1'' else [])
          in io_bind (proxmoxRequest srv
               (''/nodes/'' @ safeNode @ ''/qemu/'' @ safeVMID @ ''/config'') PUT
               (JObj [(ToString net, JStr netConfig)])) (\<lambda>result.
             io_return (text_result
               (glyph_globe @ '' **VM Network Interface Added**\<newline>\<newline>''
                 @ glyph_bullet @ '' **VM ID**: '' @ safeVMID @ ''\<newline>'' @ glyph_bullet
                 @ '' **Node**: '' @ safeNode @ ''\<newline>'' @ glyph_bullet
                 @ '' **Interface**: '' @ ToString net @ ''\<newline>'' @ glyph_bullet
                 @ '' **Bridge**: '' @ ToString bridge @ ''\<newline>'' @ glyph_bullet
                 @ '' **Model**: '' @ ToString (or_else model (JStr ''virtio''))
                 @ ''\<newline>''
                @ (if truthy macaddr then glyph_bullet @ '' **MAC Address**: '' @ ToString macaddr @ ''\<newline>'' else [])
                @ (if vlan \<noteq> JUndefined \<and> vlan \<noteq> JNull then glyph_bullet @ '' **VLAN Tag**: '' @ ToString vlan @ ''\<newline>'' else [])
                @ (if truthy firewall then glyph_bullet @ '' **Firewall**: Enabled\<newline>'' else [])
                @ ''\<newline>**Valid interfaces**: net0, net1, net2, etc.\<newline>''
                  @ ''**Valid models**: virtio (recommended), e1000, rtl8139, vmxnet3\<newline>''
                  @ ''**Valid bridges**: vmbr0, vmbr1, vmbr2, etc.\<newline>\<newline>''
                  @ ''**Tip**: Use virtio model for best performance with modern guests.\<newline>'')))))))
        (\<lambda>error. io_return (text_result
          (glyph_cross @ '' **Failed to add VM network interface**\<newline>\<newline>Error: ''
            @ message error @ ''\<newline>\<newline>**Common issues**:\<newline>''
            @ ''- Network interface already exists\<newline>- Bridge doesn't exist\<newline>''
            @ ''- Invalid MAC address format\<newline>- Invalid VLAN tag (must be 1-4094)\<newline>''
            @ ''- VM is locked or in use''))))"

text \<open>
  \<open>addNetworkLXC\<close>, 2776-2839. \<open>net.replace('net', '')\<close> throws unless \<open>net\<close> is a
  string.
\<close>

fun interface_number :: "json \<Rightarrow> js_error + string" where
  "interface_number (JStr s) = Inr (replace_first ''net'' [] s)"
| "interface_number JUndefined = Inl (cannot_read JUndefined ''replace'')"
| "interface_number JNull = Inl (cannot_read JNull ''replace'')"
| "interface_number v = Inl (TypeError ''net.replace is not a function'')"

definition addNetworkLXC ::
  "server \<Rightarrow> json \<Rightarrow> json \<Rightarrow> json \<Rightarrow> json \<Rightarrow> json \<Rightarrow> json \<Rightarrow> json \<Rightarrow> envelope io" where
  "addNetworkLXC srv node vmid net bridge ip gw firewall =
     (if \<not> allowElevated srv then io_return (text_result
        (glyph_warning
          @ ''  **Network Management Requires Elevated Permissions**\<newline>\<newline>''
          @ ''To add LXC network interfaces, set `PROXMOX_ALLOW_ELEVATED=true` in your .env file.\<newline>\<newline>''
          @ ''**Current permissions**: Basic (read-only)''))
      else io_catch
        (io_bind (io_lift (validateNodeName node)) (\<lambda>safeNode.
         io_bind (io_lift (validateVMID vmid)) (\<lambda>safeVMID.
         io_bind (io_lift (interface_number net)) (\<lambda>netNum.
         (let netConfig =
                ''name=eth'' @ netNum @ '',bridge='' @ ToString bridge
                @ (if truthy ip then '',ip='' @ ToString ip else [])
                @ (if truthy gw then '',gw='' @ ToString gw else [])
                @ (if truthy firewall then '',firewall=1'' else [])
          in io_bind (proxmoxRequest srv
               (''/nodes/'' @ safeNode @ ''/lxc/'' @ safeVMID @ ''/config'') PUT
               (JObj [(ToString net, JStr netConfig)])) (\<lambda>result.
             io_return (text_result
               (glyph_globe @ '' **LXC Network Interface Added**\<newline>\<newline>''
                 @ glyph_bullet @ '' **Container ID**: '' @ safeVMID @ ''\<newline>''
                 @ glyph_bullet @ '' **Node**: '' @ safeNode @ ''\<newline>'' @ glyph_bullet
                 @ '' **Interface**: '' @ ToString net @ '' (eth'' @ netNum @ '')\<newline>''
                 @ glyph_bullet @ '' **Bridge**: '' @ ToString bridge @ ''\<newline>''
                @ (if truthy ip then glyph_bullet @ '' **IP Address**: '' @ ToString ip @ ''\<newline>'' else [])
                @ (if truthy gw then glyph_bullet @ '' **Gateway**: '' @ ToString gw @ ''\<newline>'' else [])
                @ (if truthy firewall then glyph_bullet @ '' **Firewall**: Enabled\<newline>'' else [])
                @ ''\<newline>**Valid interfaces**: net0, net1, net2, etc.\<newline>''
                  @ ''**Valid bridges**: vmbr0, vmbr1, vmbr2, etc.\<newline>''
                  @ ''**IP formats**: dhcp, 192.168.1.100/24, auto\<newline>\<newline>''
                  @ ''**Tip**: Use DHCP for automatic IP assignment or specify static IP with CIDR notation.\<newline>''))))))))
        (\<lambda>error. io_return (text_result
          (glyph_cross
            @ '' **Failed to add LXC network interface**\<newline>\<newline>Error: ''
            @ message error @ ''\<newline>\<newline>**Common issues**:\<newline>''
            @ ''- Network interface already exists\<newline>- Bridge doesn't exist\<newline>''
            @ ''- Invalid IP address format\<newline>- Invalid gateway address\<newline>''
            @ ''- Container is locked or in use''))))"

text \<open>
  The two update handlers fetch the configuration, parse the interface's value into an
  object \<open>configParts\<close>, overlay the caller's fields and write the value back.

  \<open>parse_parts\<close> is the \<open>forEach\<close> of lines 2871-2874 and 2975-2978: each
  comma-separated part is split at \<open>=\<close>, its first piece is the key and its second piece,
  if any, the value; further pieces are dropped.
\<close>

definition parse_part :: "(string \<times> json) list \<Rightarrow> string \<Rightarrow> (string \<times> json) list" where
  "parse_part configParts part =
     (case str_split CHR ''='' part of
        [] \<Rightarrow> set_prop configParts ''undefined'' JUndefined
      | [key] \<Rightarrow> set_prop configParts key JUndefined
      | key # value # rest \<Rightarrow> set_prop configParts key (JStr value))"

definition parse_parts :: "string \<Rightarrow> (string \<times> json) list" where
  "parse_parts currentConfig = foldl parse_part [] (str_split CHR '','' currentConfig)"

text \<open>\<open>currentConfig.split(',')\<close> throws unless the value is a string.\<close>

fun config_string :: "json \<Rightarrow> js_error + string" where
  "config_string (JStr s) = Inr s"
| "config_string v = Inl (TypeError ''currentConfig.split is not a function'')"

text \<open>The list of interfaces in the advisory text, lines 2863 and 2967.\<close>

definition existing_interfaces :: "json \<Rightarrow> string" where
  "existing_interfaces config =
     (let found = join '', '' (filter (prefix ''net'') (object_keys config))
      in if found = [] then ''None'' else found)"

text \<open>
  Lines 2877-2885: a new model takes the MAC address found under the key \<open>macaddr\<close> or
  under a key that itself starts like a MAC address (two hexadecimal digits and a colon),
  and the four known model keys other than the new one are deleted.
\<close>

definition is_hex_digit :: "char \<Rightarrow> bool" where
  "is_hex_digit c = (c \<in> set ''0123456789abcdefABCDEF'')"

definition mac_like :: "string \<Rightarrow> bool" where
  "mac_like k =
     (case k of a # b # c # rest \<Rightarrow> is_hex_digit a \<and> is_hex_digit b \<and> c = CHR '':'' | _ \<Rightarrow> False)"

definition find_key :: "(string \<Rightarrow> bool) \<Rightarrow> string list \<Rightarrow> json" where
  "find_key p ks = (case filter p ks of [] \<Rightarrow> JUndefined | k # rest \<Rightarrow> JStr k)"

definition set_model :: "json \<Rightarrow> (string \<times> json) list \<Rightarrow> (string \<times> json) list" where
  "set_model model configParts =
     (let mac = or_else (read_prop (JObj configParts) ''macaddr'')
                  (read_prop (JObj configParts)
                     (ToString (find_key mac_like (map fst (entries configParts)))));
          configParts = set_prop configParts (ToString model) (or_else mac (JStr []))
      in foldl (\<lambda>cp m. if JStr m \<noteq> model then delete_prop cp m else cp) configParts
           [''virtio'', ''e1000'', ''rtl8139'', ''vmxnet3''])"

text \<open>Lines 2877-2907, the overlay of \<open>updateNetworkVM\<close>.\<close>

definition overlay_vm ::
  "json \<Rightarrow> json \<Rightarrow> json \<Rightarrow> json \<Rightarrow> json \<Rightarrow> (string \<times> json) list \<Rightarrow> (string \<times> json) list" where
  "overlay_vm bridge model macaddr vlan firewall configParts =
     (let cp1 = (if model \<noteq> JUndefined then set_model model configParts else configParts);
          cp2 = (if bridge \<noteq> JUndefined then set_prop cp1 ''bridge'' bridge else cp1);
          cp3 = (if macaddr \<noteq> JUndefined then set_prop cp2 ''macaddr'' macaddr else cp2);
          cp4 = (if vlan \<noteq> JUndefined \<and> vlan \<noteq> JNull then set_prop cp3 ''tag'' vlan
                 else if vlan = JNull then delete_prop cp3 ''tag'' else cp3)
      in if firewall \<noteq> JUndefined then
           (if truthy firewall then set_prop cp4 ''firewall'' (JStr ''1'')
            else delete_prop cp4 ''firewall'')
         else cp4)"

text \<open>Lines 2910-2912: a part with a falsy value is written as its key alone.\<close>

definition serialize_vm :: "(string \<times> json) list \<Rightarrow> string" where
  "serialize_vm configParts =
     join '','' (map (\<lambda>(key, value). if truthy value then key @ ''='' @ ToString value else key)
       (entries configParts))"

text \<open>\<open>updateNetworkVM\<close>, 2841-2943.\<close>

definition updateNetworkVM ::
  "server \<Rightarrow> json \<Rightarrow> json \<Rightarrow> json \<Rightarrow> json \<Rightarrow> json \<Rightarrow> json \<Rightarrow> json \<Rightarrow> json \<Rightarrow> envelope io" where
  "updateNetworkVM srv node vmid net bridge model macaddr vlan firewall =
     (if \<not> allowElevated srv then io_return (text_result
        (glyph_warning
          @ ''  **Network Management Requires Elevated Permissions**\<newline>\<newline>''
          @ ''To update VM network interfaces, set `PROXMOX_ALLOW_ELEVATED=true` in your .env file.\<newline>\<newline>''
          @ ''**Current permissions**: Basic (read-only)''))
      else io_catch
        (io_bind (io_lift (validateNodeName node)) (\<lambda>safeNode.
         io_bind (io_lift (validateVMID vmid)) (\<lambda>safeVMID.
         io_bind (proxmoxRequest srv
           (''/nodes/'' @ safeNode @ ''/qemu/'' @ safeVMID @ ''/config'') GET JNull) (\<lambda>config.
         io_bind (io_lift (get_prop config (ToString net))) (\<lambda>currentConfig.
         if \<not> truthy currentConfig then
           io_return (text_result
             (glyph_cross @ '' **Network interface '' @ ToString net
               @ '' does not exist**\<newline>\<newline>''
               @ ''Please add the interface first using proxmox_add_network_vm.\<newline>\<newline>''
               @ ''**Existing interfaces**: '' @ existing_interfaces config))
         else
           io_bind (io_lift (config_string currentConfig)) (\<lambda>current.
           (let configParts = overlay_vm bridge model macaddr vlan firewall (parse_parts current);
                netConfig = serialize_vm configParts
            in io_bind (proxmoxRequest srv
                 (''/nodes/'' @ safeNode @ ''/qemu/'' @ safeVMID @ ''/config'') PUT
                 (JObj [(ToString net, JStr netConfig)])) (\<lambda>result.
               io_return (text_result
                 (glyph_wrench @ '' **VM Network Interface Updated**\<newline>\<newline>''
                   @ glyph_bullet @ '' **VM ID**: '' @ safeVMID @ ''\<newline>'' @ glyph_bullet
                   @ '' **Node**: '' @ safeNode @ ''\<newline>'' @ glyph_bullet
                   @ '' **Interface**: '' @ ToString net @ ''\<newline>'' @ glyph_bullet
                   @ '' **New Configuration**: '' @ netConfig
                   @ ''\<newline>\<newline>**Changes applied**:\<newline>''
                  @ (if bridge \<noteq> JUndefined then ''- Bridge: '' @ ToString bridge @ ''\<newline>'' else [])
                  @ (if model \<noteq> JUndefined then ''- Model: '' @ ToString model @ ''\<newline>'' else [])
                  @ (if macaddr \<noteq> JUndefined then ''- MAC Address: '' @ ToString macaddr @ ''\<newline>'' else [])
                  @ (if vlan \<noteq> JUndefined then ''- VLAN Tag: ''
                    @ (if vlan \<noteq> JNull then ToString vlan else ''Removed'')
                    @ ''\<newline>'' else [])
                  @ (if firewall \<noteq> JUndefined then ''- Firewall: '' @ (if truthy firewall then ''Enabled'' else ''Disabled'')
                    @ ''\<newline>'' else [])))))))))))
        (\<lambda>error. io_return (text_result
          (glyph_cross
            @ '' **Failed to update VM network interface**\<newline>\<newline>Error: ''
            @ message error @ ''\<newline>\<newline>**Common issues**:\<newline>''
            @ ''- Network interface doesn't exist\<newline>- Bridge doesn't exist\<newline>''
            @ ''- Invalid MAC address format\<newline>- Invalid VLAN tag (must be 1-4094)\<newline>''
            @ ''- VM is locked or in use''))))"

text \<open>Lines 2981-2999, the overlay of \<open>updateNetworkLXC\<close>.\<close>

definition overlay_lxc ::
  "json \<Rightarrow> json \<Rightarrow> json \<Rightarrow> json \<Rightarrow> (string \<times> json) list \<Rightarrow> (string \<times> json) list" where
  "overlay_lxc bridge ip gw firewall configParts =
     (let cp1 = (if bridge \<noteq> JUndefined then set_prop configParts ''bridge'' bridge else configParts);
          cp2 = (if ip \<noteq> JUndefined then set_prop cp1 ''ip'' ip else cp1);
          cp3 = (if gw \<noteq> JUndefined then set_prop cp2 ''gw'' gw else cp2)
      in if firewall \<noteq> JUndefined then
           (if truthy firewall then set_prop cp3 ''firewall'' (JStr ''1'')
            else delete_prop cp3 ''firewall'')
         else cp3)"

text \<open>Lines 3002-3004: every part is written as \<open>key=value\<close>.\<close>

definition serialize_lxc :: "(string \<times> json) list \<Rightarrow> string" where
  "serialize_lxc configParts =
     join '','' (map (\<lambda>(key, value). key @ ''='' @ ToString value) (entries configParts))"

text \<open>\<open>updateNetworkLXC\<close>, 2945-3034.\<close>

definition updateNetworkLXC ::
  "server \<Rightarrow> json \<Rightarrow> json \<Rightarrow> json \<Rightarrow> json \<Rightarrow> json \<Rightarrow> json \<Rightarrow> json \<Rightarrow> envelope io" where
  "updateNetworkLXC srv node vmid net bridge ip gw firewall =
     (if \<not> allowElevated srv then io_return (text_result
        (glyph_warning
          @ ''  **Network Management Requires Elevated Permissions**\<newline>\<newline>''
          @ ''To update LXC network interfaces, set `PROXMOX_ALLOW_ELEVATED=true` in your .env file.\<newline>\<newline>''
          @ ''**Current permissions**: Basic (read-only)''))
      else io_catch
        (io_bind (io_lift (validateNodeName node)) (\<lambda>safeNode.
         io_bind (io_lift (validateVMID vmid)) (\<lambda>safeVMID.
         io_bind (proxmoxRequest srv
           (''/nodes/'' @ safeNode @ ''/lxc/'' @ safeVMID @ ''/config'') GET JNull) (\<lambda>config.
         io_bind (io_lift (get_prop config (ToString net))) (\<lambda>currentConfig.
         if \<not> truthy currentConfig then
           io_return (text_result
             (glyph_cross @ '' **Network interface '' @ ToString net
               @ '' does not exist**\<newline>\<newline>''
               @ ''Please add the interface first using proxmox_add_network_lxc.\<newline>\<newline>''
               @ ''**Existing interfaces**: '' @ existing_interfaces config))
         else
           io_bind (io_lift (config_string currentConfig)) (\<lambda>current.
           (let configParts = overlay_lxc bridge ip gw firewall (parse_parts current);
                netConfig = serialize_lxc configParts
            in io_bind (proxmoxRequest srv
                 (''/nodes/'' @ safeNode @ ''/lxc/'' @ safeVMID @ ''/config'') PUT
                 (JObj [(ToString net, JStr netConfig)])) (\<lambda>result.
               io_return (text_result
                 (glyph_wrench @ '' **LXC Network Interface Updated**\<newline>\<newline>''
                   @ glyph_bullet @ '' **Container ID**: '' @ safeVMID @ ''\<newline>''
                   @ glyph_bullet @ '' **Node**: '' @ safeNode @ ''\<newline>'' @ glyph_bullet
                   @ '' **Interface**: '' @ ToString net @ ''\<newline>'' @ glyph_bullet
                   @ '' **New Configuration**: '' @ netConfig
                   @ ''\<newline>\<newline>**Changes applied**:\<newline>''
                  @ (if bridge \<noteq> JUndefined then ''- Bridge: '' @ ToString bridge @ ''\<newline>'' else [])
                  @ (if ip \<noteq> JUndefined then ''- IP Address: '' @ ToString ip @ ''\<newline>'' else [])
                  @ (if gw \<noteq> JUndefined then ''- Gateway: '' @ ToString gw @ ''\<newline>'' else [])
                  @ (if firewall \<noteq> JUndefined then ''- Firewall: '' @ (if truthy firewall then ''Enabled'' else ''Disabled'')
                    @ ''\<newline>'' else [])))))))))))
        (\<lambda>error. io_return (text_result
          (glyph_cross
            @ '' **Failed to update LXC network interface**\<newline>\<newline>Error: ''
            @ message error @ ''\<newline>\<newline>**Common issues**:\<newline>''
            @ ''- Network interface doesn't exist\<newline>- Bridge doesn't exist\<newline>''
            @ ''- Invalid IP address format\<newline>- Invalid gateway address\<newline>''
            @ ''- Container is locked or in use''))))"

text \<open>\<open>removeNetworkVM\<close>, 3036-3075.\<close>

definition removeNetworkVM :: "server \<Rightarrow> json \<Rightarrow> json \<Rightarrow> json \<Rightarrow> envelope io" where
  "removeNetworkVM srv node vmid net =
     (if \<not> allowElevated srv then io_return (text_result
        (glyph_warning
          @ ''  **Network Management Requires Elevated Permissions**\<newline>\<newline>''
          @ ''To remove VM network interfaces, set `PROXMOX_ALLOW_ELEVATED=true` in your .env file.\<newline>\<newline>''
          @ ''**Current permissions**: Basic (read-only)''))
      else io_catch
        (io_bind (io_lift (validateNodeName node)) (\<lambda>safeNode.
         io_bind (io_lift (validateVMID vmid)) (\<lambda>safeVMID.
         io_bind (proxmoxRequest srv
           (''/nodes/'' @ safeNode @ ''/qemu/'' @ safeVMID @ ''/config'') PUT
           (JObj [(''delete'', net)])) (\<lambda>result.
         io_return (text_result
           (glyph_minus @ '' **VM Network Interface Removed**\<newline>\<newline>''
             @ glyph_bullet @ '' **VM ID**: '' @ safeVMID @ ''\<newline>'' @ glyph_bullet
             @ '' **Node**: '' @ safeNode @ ''\<newline>'' @ glyph_bullet
             @ '' **Interface Removed**: '' @ ToString net @ ''\<newline>\<newline>''
             @ ''**Note**: The network interface has been removed from the VM configuration.\<newline>''
             @ ''**Tip**: If the VM is running, you may need to restart it for changes to take effect.\<newline>''))))))
        (\<lambda>error. io_return (text_result
          (glyph_cross
            @ '' **Failed to remove VM network interface**\<newline>\<newline>Error: ''
            @ message error @ ''\<newline>\<newline>**Common issues**:\<newline>''
            @ ''- Network interface doesn't exist\<newline>- VM is locked or in use\<newline>''
            @ ''- Invalid interface name''))))"

text \<open>\<open>removeNetworkLXC\<close>, 3077-3116.\<close>

definition removeNetworkLXC :: "server \<Rightarrow> json \<Rightarrow> json \<Rightarrow> json \<Rightarrow> envelope io" where
  "removeNetworkLXC srv node vmid net =
     (if \<not> allowElevated srv then io_return (text_result
        (glyph_warning
          @ ''  **Network Management Requires Elevated Permissions**\<newline>\<newline>''
          @ ''To remove LXC network interfaces, set `PROXMOX_ALLOW_ELEVATED=true` in your .env file.\<newline>\<newline>''
          @ ''**Current permissions**: Basic (read-only)''))
      else io_catch
        (io_bind (io_lift (validateNodeName node)) (\<lambda>safeNode.
         io_bind (io_lift (validateVMID vmid)) (\<lambda>safeVMID.
         io_bind (proxmoxRequest srv
           (''/nodes/'' @ safeNode @ ''/lxc/'' @ safeVMID @ ''/config'') PUT
           (JObj [(''delete'', net)])) (\<lambda>result.
         io_return (text_result
           (glyph_minus @ '' **LXC Network Interface Removed**\<newline>\<newline>''
             @ glyph_bullet @ '' **Container ID**: '' @ safeVMID @ ''\<newline>'' @ glyph_bullet
             @ '' **Node**: '' @ safeNode @ ''\<newline>'' @ glyph_bullet
             @ '' **Interface Removed**: '' @ ToString net @ ''\<newline>\<newline>''
             @ ''**Note**: The network interface has been removed from the container configuration.\<newline>''
             @ ''**Tip**: If the container is running, you may need to restart it for changes to take effect.\<newline>''))))))
        (\<lambda>error. io_return (text_result
          (glyph_cross
            @ '' **Failed to remove LXC network interface**\<newline>\<newline>Error: ''
            @ message error @ ''\<newline>\<newline>**Common issues**:\<newline>''
            @ ''- Network interface doesn't exist\<newline>- Container is locked or in use\<newline>''
            @ ''- Invalid interface name''))))"


section \<open>The dispatcher\<close>

text \<open>
  The handler of \<open>CallToolRequestSchema\<close>, lines 900-1083. The arguments object is
  \<open>undefined\<close> when the caller sends none; reading a property of it then throws, inside
  the \<open>try\<close>.
\<close>

definition with_args :: "json \<Rightarrow> string \<Rightarrow> 'a io \<Rightarrow> 'a io" where
  "with_args args first m = (if nullish args then io_throw (cannot_read args first) else m)"

text \<open>The \<open>switch\<close> of lines 904-1072.\<close>

definition dispatch :: "presentation \<Rightarrow> server \<Rightarrow> string \<Rightarrow> json \<Rightarrow> envelope io" where
  "dispatch P srv name args =
     (if name = ''proxmox_get_nodes'' then
       getNodes P srv
     else if name = ''proxmox_get_node_status'' then
       with_args args ''node''
         (getNodeStatus P srv (read_prop args ''node''))
     else if name = ''proxmox_get_vms'' then
       with_args args ''node''
         (getVMs P srv (read_prop args ''node'') (read_prop args ''type''))
     else if name = ''proxmox_get_vm_status'' then
       with_args args ''node''
         (getVMStatus P srv (read_prop args ''node'') (read_prop args ''vmid'') (read_prop args ''type''))
     else if name = ''proxmox_execute_vm_command'' then
       with_args args ''node''
         (executeVMCommand srv (read_prop args ''node'') (read_prop args ''vmid'') (read_prop args ''command'') (read_prop args ''type''))
     else if name = ''proxmox_get_storage'' then
       with_args args ''node''
         (getStorage P srv (read_prop args ''node''))
     else if name = ''proxmox_get_cluster_status'' then
       getClusterStatus P srv
     else if name = ''proxmox_list_templates'' then
       with_args args ''node''
         (listTemplates P srv (read_prop args ''node'') (read_prop args ''storage''))
     else if name = ''proxmox_create_lxc'' then
       createLXCContainer srv args
     else if name = ''proxmox_create_vm'' then
       createVM srv args
     else if name = ''proxmox_get_next_vmid'' then
       getNextVMID srv
     else if name = ''proxmox_start_lxc'' then
       with_args args ''node''
         (startVM srv (read_prop args ''node'') (read_prop args ''vmid'') ''lxc'')
     else if name = ''proxmox_start_vm'' then
       with_args args ''node''
         (startVM srv (read_prop args ''node'') (read_prop args ''vmid'') ''qemu'')
     else if name = ''proxmox_stop_lxc'' then
       with_args args ''node''
         (stopVM srv (read_prop args ''node'') (read_prop args ''vmid'') ''lxc'')
     else if name = ''proxmox_stop_vm'' then
       with_args args ''node''
         (stopVM srv (read_prop args ''node'') (read_prop args ''vmid'') ''qemu'')
     else if name = ''proxmox_delete_lxc'' then
       with_args args ''node''
         (deleteVM srv (read_prop args ''node'') (read_prop args ''vmid'') ''lxc'')
     else if name = ''proxmox_delete_vm'' then
       with_args args ''node''
         (deleteVM srv (read_prop args ''node'') (read_prop args ''vmid'') ''qemu'')
     else if name = ''proxmox_reboot_lxc'' then
       with_args args ''node''
         (rebootVM srv (read_prop args ''node'') (read_prop args ''vmid'') ''lxc'')
     else if name = ''proxmox_reboot_vm'' then
       with_args args ''node''
         (rebootVM srv (read_prop args ''node'') (read_prop args ''vmid'') ''qemu'')
     else if name = ''proxmox_shutdown_lxc'' then
       with_args args ''node''
         (shutdownVM srv (read_prop args ''node'') (read_prop args ''vmid'') ''lxc'')
     else if name = ''proxmox_shutdown_vm'' then
       with_args args ''node''
         (shutdownVM srv (read_prop args ''node'') (read_prop args ''vmid'') ''qemu'')
     else if name = ''proxmox_pause_vm'' then
       with_args args ''node''
         (pauseVM srv (read_prop args ''node'') (read_prop args ''vmid''))
     else if name = ''proxmox_resume_vm'' then
       with_args args ''node''
         (resumeVM srv (read_prop args ''node'') (read_prop args ''vmid''))
     else if name = ''proxmox_clone_lxc'' then
       with_args args ''node''
         (cloneVM srv (read_prop args ''node'') (read_prop args ''vmid'') (read_prop args ''newid'') (read_prop args ''hostname'') ''lxc'')
     else if name = ''proxmox_clone_vm'' then
       with_args args ''node''
         (cloneVM srv (read_prop args ''node'') (read_prop args ''vmid'') (read_prop args ''newid'') (read_prop args ''name'') ''qemu'')
     else if name = ''proxmox_resize_lxc'' then
       with_args args ''node''
         (resizeVM srv (read_prop args ''node'') (read_prop args ''vmid'') (read_prop args ''memory'') (read_prop args ''cores'') ''lxc'')
     else if name = ''proxmox_resize_vm'' then
       with_args args ''node''
         (resizeVM srv (read_prop args ''node'') (read_prop args ''vmid'') (read_prop args ''memory'') (read_prop args ''cores'') ''qemu'')
     else if name = ''proxmox_create_snapshot_lxc'' then
       with_args args ''node''
         (createSnapshot srv (read_prop args ''node'') (read_prop args ''vmid'') (read_prop args ''snapname'') ''lxc'')
     else if name = ''proxmox_create_snapshot_vm'' then
       with_args args ''node''
         (createSnapshot srv (read_prop args ''node'') (read_prop args ''vmid'') (read_prop args ''snapname'') ''qemu'')
     else if name = ''proxmox_list_snapshots_lxc'' then
       with_args args ''node''
         (listSnapshots P srv (read_prop args ''node'') (read_prop args ''vmid'') ''lxc'')
     else if name = ''proxmox_list_snapshots_vm'' then
       with_args args ''node''
         (listSnapshots P srv (read_prop args ''node'') (read_prop args ''vmid'') ''qemu'')
     else if name = ''proxmox_rollback_snapshot_lxc'' then
       with_args args ''node''
         (rollbackSnapshot srv (read_prop args ''node'') (read_prop args ''vmid'') (read_prop args ''snapname'') ''lxc'')
     else if name = ''proxmox_rollback_snapshot_vm'' then
       with_args args ''node''
         (rollbackSnapshot srv (read_prop args ''node'') (read_prop args ''vmid'') (read_prop args ''snapname'') ''qemu'')
     else if name = ''proxmox_delete_snapshot_lxc'' then
       with_args args ''node''
         (deleteSnapshot srv (read_prop args ''node'') (read_prop args ''vmid'') (read_prop args ''snapname'') ''lxc'')
     else if name = ''proxmox_delete_snapshot_vm'' then
       with_args args ''node''
         (deleteSnapshot srv (read_prop args ''node'') (read_prop args ''vmid'') (read_prop args ''snapname'') ''qemu'')
     else if name = ''proxmox_create_backup_lxc'' then
       with_args args ''node''
         (createBackup srv (read_prop args ''node'') (read_prop args ''vmid'') (read_prop args ''storage'') (read_prop args ''mode'') (read_prop args ''compress'') ''lxc'')
     else if name = ''proxmox_create_backup_vm'' then
       with_args args ''node''
         (createBackup srv (read_prop args ''node'') (read_prop args ''vmid'') (read_prop args ''storage'') (read_prop args ''mode'') (read_prop args ''compress'') ''qemu'')
     else if name = ''proxmox_list_backups'' then
       with_args args ''node''
         (listBackups P srv (read_prop args ''node'') (read_prop args ''storage''))
     else if name = ''proxmox_restore_backup_lxc'' then
       with_args args ''node''
         (restoreBackup srv (read_prop args ''node'') (read_prop args ''vmid'') (read_prop args ''archive'') (read_prop args ''storage'') ''lxc'')
     else if name = ''proxmox_restore_backup_vm'' then
       with_args args ''node''
         (restoreBackup srv (read_prop args ''node'') (read_prop args ''vmid'') (read_prop args ''archive'') (read_prop args ''storage'') ''qemu'')
     else if name = ''proxmox_delete_backup'' then
       with_args args ''node''
         (deleteBackup srv (read_prop args ''node'') (read_prop args ''storage'') (read_prop args ''volume''))
     else if name = ''proxmox_add_disk_vm'' then
       with_args args ''node''
         (addDiskVM srv (read_prop args ''node'') (read_prop args ''vmid'') (read_prop args ''disk'') (read_prop args ''storage'') (read_prop args ''size''))
     else if name = ''proxmox_add_mountpoint_lxc'' then
       with_args args ''node''
         (addMountPointLXC srv (read_prop args ''node'') (read_prop args ''vmid'') (read_prop args ''mp'') (read_prop args ''storage'') (read_prop args ''size''))
     else if name = ''proxmox_resize_disk_vm'' then
       with_args args ''node''
         (resizeDiskVM srv (read_prop args ''node'') (read_prop args ''vmid'') (read_prop args ''disk'') (read_prop args ''size''))
     else if name = ''proxmox_resize_disk_lxc'' then
       with_args args ''node''
         (resizeDiskLXC srv (read_prop args ''node'') (read_prop args ''vmid'') (read_prop args ''disk'') (read_prop args ''size''))
     else if name = ''proxmox_remove_disk_vm'' then
       with_args args ''node''
         (removeDiskVM srv (read_prop args ''node'') (read_prop args ''vmid'') (read_prop args ''disk''))
     else if name = ''proxmox_remove_mountpoint_lxc'' then
       with_args args ''node''
         (removeMountPointLXC srv (read_prop args ''node'') (read_prop args ''vmid'') (read_prop args ''mp''))
     else if name = ''proxmox_move_disk_vm'' then
       with_args args ''node''
         (moveDiskVM srv (read_prop args ''node'') (read_prop args ''vmid'') (read_prop args ''disk'') (read_prop args ''storage'') (read_prop args ''delete''))
     else if name = ''proxmox_move_disk_lxc'' then
       with_args args ''node''
         (moveDiskLXC srv (read_prop args ''node'') (read_prop args ''vmid'') (read_prop args ''disk'') (read_prop args ''storage'') (read_prop args ''delete''))
     else if name = ''proxmox_add_network_vm'' then
       with_args args ''node''
         (addNetworkVM srv (read_prop args ''node'') (read_prop args ''vmid'') (read_prop args ''net'') (read_prop args ''bridge'') (read_prop args ''model'') (read_prop args ''macaddr'') (read_prop args ''vlan'') (read_prop args ''firewall''))
     else if name = ''proxmox_add_network_lxc'' then
       with_args args ''node''
         (addNetworkLXC srv (read_prop args ''node'') (read_prop args ''vmid'') (read_prop args ''net'') (read_prop args ''bridge'') (read_prop args ''ip'') (read_prop args ''gw'') (read_prop args ''firewall''))
     else if name = ''proxmox_update_network_vm'' then
       with_args args ''node''
         (updateNetworkVM srv (read_prop args ''node'') (read_prop args ''vmid'') (read_prop args ''net'') (read_prop args ''bridge'') (read_prop args ''model'') (read_prop args ''macaddr'') (read_prop args ''vlan'') (read_prop args ''firewall''))
     else if name = ''proxmox_update_network_lxc'' then
       with_args args ''node''
         (updateNetworkLXC srv (read_prop args ''node'') (read_prop args ''vmid'') (read_prop args ''net'') (read_prop args ''bridge'') (read_prop args ''ip'') (read_prop args ''gw'') (read_prop args ''firewall''))
     else if name = ''proxmox_remove_network_vm'' then
       with_args args ''node''
         (removeNetworkVM srv (read_prop args ''node'') (read_prop args ''vmid'') (read_prop args ''net''))
     else if name = ''proxmox_remove_network_lxc'' then
       with_args args ''node''
         (removeNetworkLXC srv (read_prop args ''node'') (read_prop args ''vmid'') (read_prop args ''net''))
     else io_throw (Error (''Unknown tool: '' @ name)))"

definition callTool :: "presentation \<Rightarrow> server \<Rightarrow> string \<Rightarrow> json \<Rightarrow> envelope io" where
  "callTool P srv name args =
     io_catch (dispatch P srv name args)
       (\<lambda>error. io_return (text_result (''Error: '' @ message error)))"

text \<open>The names listed by the handler of \<open>ListToolsRequestSchema\<close>, lines 166-898.\<close>

definition tool_names :: "string list" where
  "tool_names =
     [''proxmox_get_nodes'',
      ''proxmox_get_node_status'',
      ''proxmox_get_vms'',
      ''proxmox_get_vm_status'',
      ''proxmox_execute_vm_command'',
      ''proxmox_get_storage'',
      ''proxmox_get_cluster_status'',
      ''proxmox_list_templates'',
      ''proxmox_create_lxc'',
      ''proxmox_create_vm'',
      ''proxmox_get_next_vmid'',
      ''proxmox_start_lxc'',
      ''proxmox_start_vm'',
      ''proxmox_stop_lxc'',
      ''proxmox_stop_vm'',
      ''proxmox_delete_lxc'',
      ''proxmox_delete_vm'',
      ''proxmox_reboot_lxc'',
      ''proxmox_reboot_vm'',
      ''proxmox_shutdown_lxc'',
      ''proxmox_shutdown_vm'',
      ''proxmox_pause_vm'',
      ''proxmox_resume_vm'',
      ''proxmox_clone_lxc'',
      ''proxmox_clone_vm'',
      ''proxmox_resize_lxc'',
      ''proxmox_resize_vm'',
      ''proxmox_create_snapshot_lxc'',
      ''proxmox_create_snapshot_vm'',
      ''proxmox_list_snapshots_lxc'',
      ''proxmox_list_snapshots_vm'',
      ''proxmox_rollback_snapshot_lxc'',
      ''proxmox_rollback_snapshot_vm'',
      ''proxmox_delete_snapshot_lxc'',
      ''proxmox_delete_snapshot_vm'',
      ''proxmox_create_backup_lxc'',
      ''proxmox_create_backup_vm'',
      ''proxmox_list_backups'',
      ''proxmox_restore_backup_lxc'',
      ''proxmox_restore_backup_vm'',
      ''proxmox_delete_backup'',
      ''proxmox_add_disk_vm'',
      ''proxmox_add_mountpoint_lxc'',
      ''proxmox_resize_disk_vm'',
      ''proxmox_resize_disk_lxc'',
      ''proxmox_remove_disk_vm'',
      ''proxmox_remove_mountpoint_lxc'',
      ''proxmox_move_disk_vm'',
      ''proxmox_move_disk_lxc'',
      ''proxmox_add_network_vm'',
      ''proxmox_add_network_lxc'',
      ''proxmox_update_network_vm'',
      ''proxmox_update_network_lxc'',
      ''proxmox_remove_network_vm'',
      ''proxmox_remove_network_lxc'']"

section \<open>Notions used by the properties\<close>




text \<open>A method that, when it returns, returns a result holding exactly one text.\<close>

definition shaped :: "envelope io \<Rightarrow> bool" where
  "shaped m = (\<forall>log env log'. m log = (Inr env, log') \<longrightarrow> (\<exists>t. content env = [TextContent t]))"

text \<open>
  A concrete cluster for the examples: two nodes; node \<open>pve1\<close> has one virtual machine
  and one container, node \<open>pve2\<close> one container; virtual machine 150 has three snapshot
  entries, one of them the entry \<open>current\<close>, and two network interfaces. Every other
  request is answered with a task identifier. The renderers print one line per item.
\<close>

definition sample_transport :: "request list \<Rightarrow> request \<Rightarrow> js_error + json" where
  "sample_transport log r =
     (if endpoint r = ''/nodes'' then
        Inr (JArr [JObj [(''node'', JStr ''pve1'')], JObj [(''node'', JStr ''pve2'')]])
      else if endpoint r = ''/nodes/pve1/qemu'' then
        Inr (JArr [JObj [(''vmid'', JNum 150), (''name'', JStr ''web'')]])
      else if endpoint r = ''/nodes/pve1/lxc'' then
        Inr (JArr [JObj [(''vmid'', JNum 100), (''name'', JStr ''test-lxc'')]])
      else if endpoint r = ''/nodes/pve2/qemu'' then Inr (JArr [])
      else if endpoint r = ''/nodes/pve2/lxc'' then
        Inr (JArr [JObj [(''vmid'', JNum 101), (''name'', JStr ''db'')]])
      else if endpoint r = ''/nodes/pve1/storage'' then
        Inr (JArr [JObj [(''storage'', JStr ''local'')]])
      else if endpoint r = ''/nodes/pve2/storage'' then
        Inr (JArr [JObj [(''storage'', JStr ''local'')], JObj [(''storage'', JStr ''tank'')]])
      else if endpoint r = ''/nodes/pve1/qemu/150/snapshot'' \<and> verb r = GET then
        Inr (JArr [JObj [(''name'', JStr ''before-upgrade''), (''description'', JStr ''clean'')],
                   JObj [(''name'', JStr ''current''), (''description'', JStr ''You are here!'')],
                   JObj [(''name'', JStr ''nightly'')]])
      else if endpoint r = ''/nodes/pve1/qemu/150/config'' \<and> verb r = GET then
        Inr (JObj [(''memory'', JNum 2048),
                   (''net0'', JStr ''virtio=BC:24:11:AA:BB:CC,bridge=vmbr0,firewall=1,tag=50''),
                   (''net1'', JStr ''e1000,bridge=vmbr1'')])
      else if endpoint r = ''/nodes/pve1/lxc/100/config'' \<and> verb r = GET then
        Inr (JObj [(''memory'', JNum 512),
                   (''net0'', JStr ''name=eth0,bridge=vmbr0,ip=dhcp,ro'')])
      else Inr (JStr ''UPID:pve1:0001''))"

definition sample_presentation :: presentation where
  "sample_presentation =
     \<lparr>renderNodes = (\<lambda>nodes. Inr (ToString nodes)),
      renderNodeStatus = (\<lambda>safeNode status. Inr (safeNode @ '': '' @ ToString status)),
      renderVMs = (\<lambda>vms. Inr (concat (map (\<lambda>vm. ToString (read_prop vm ''vmid'') @ '' ''
         @ ToString (read_prop vm ''type'') @ '' on '' @ ToString (read_prop vm ''node'') @ ''; '') vms))),
      renderVMStatus = (\<lambda>type safeNode safeVMID vmStatus. Inr (safeVMID @ '': '' @ ToString vmStatus)),
      renderStorage = (\<lambda>storages. Inr (concat (map (\<lambda>s. ToString (read_prop s ''storage'')
         @ '' on '' @ ToString (read_prop s ''node'') @ ''; '') storages))),
      renderClusterStatus = (\<lambda>elevated nodes. Inr (ToString nodes)),
      renderTemplates = (\<lambda>storage templates. Inr (ToString templates)),
      renderBackups = (\<lambda>storage backups. Inr (ToString backups)),
      formatSnaptime = (\<lambda>snaptime. ToString snaptime)\<rparr>"

definition sample_server :: "bool \<Rightarrow> server" where
  "sample_server elevated =
     \<lparr>allowElevated = elevated, transport = sample_transport, randomBytes = (\<lambda>i. 7 * i)\<rparr>"





text \<open>
  The answers of the transport to requests issued one after the other, each request
  joining the log before the next is issued.
\<close>

fun responses :: "server \<Rightarrow> request list \<Rightarrow> request list \<Rightarrow> (js_error + json) list" where
  "responses srv log [] = []"
| "responses srv log (r # rs) = transport srv log r # responses srv (log @ [r]) rs"

text \<open>
  The requests of a listing without a node filter: the list of nodes, then for
  \<open>getStorage\<close> the storage of each node, and for \<open>getVMs\<close> each selected family of
  guests of each node, \<open>qemu\<close> before \<open>lxc\<close>.
\<close>

definition nodes_request :: request where
  "nodes_request = \<lparr>endpoint = ''/nodes'', verb = GET, body = JNull\<rparr>"

definition storage_request :: "json \<Rightarrow> request" where
  "storage_request node =
     \<lparr>endpoint = ''/nodes/'' @ ToString (read_prop node ''node'') @ ''/storage'', verb = GET,
      body = JNull\<rparr>"

definition vm_families :: "json \<Rightarrow> string list" where
  "vm_families typeFilter =
     (if typeFilter = JStr ''all'' \<or> typeFilter = JStr ''qemu'' then [''qemu''] else [])
     @ (if typeFilter = JStr ''all'' \<or> typeFilter = JStr ''lxc'' then [''lxc''] else [])"

definition vm_jobs :: "json \<Rightarrow> json list \<Rightarrow> (json \<times> string) list" where
  "vm_jobs typeFilter nodes = List.product nodes (vm_families typeFilter)"

definition vm_request :: "json \<times> string \<Rightarrow> request" where
  "vm_request job =
     \<lparr>endpoint = ''/nodes/'' @ ToString (read_prop (fst job) ''node'') @ ''/'' @ snd job,
      verb = GET, body = JNull\<rparr>"

text \<open>
  The entries that a listing collects from the arrays answered. A storage and a
  \<open>qemu\<close> guest get the name of the node asked; an \<open>lxc\<close> guest keeps a truthy
  \<open>node\<close> of its own.
\<close>

definition storages_of :: "json list \<Rightarrow> json list list \<Rightarrow> json list" where
  "storages_of nodes subs =
     concat (map (\<lambda>(node, elems). map (tag_storage (read_prop node ''node'')) elems)
       (zip nodes subs))"

definition tag_vm :: "json \<times> string \<Rightarrow> json \<Rightarrow> json" where
  "tag_vm job vm =
     (if snd job = ''qemu'' then tag_qemu (read_prop (fst job) ''node'') vm
      else spread_with vm [(''type'', JStr ''lxc''),
             (''node'', or_else (read_prop vm ''node'') (read_prop (fst job) ''node''))])"

definition vms_of :: "json \<Rightarrow> json list \<Rightarrow> json list list \<Rightarrow> json list" where
  "vms_of typeFilter nodes subs =
     concat (map (\<lambda>(job, elems). map (tag_vm job) elems) (zip (vm_jobs typeFilter nodes) subs))"

text \<open>
  An outcome stops at a failure when the log has only grown, and every request added
  that the transport answered with an error is the last one added, its error being the
  exception of the outcome.
\<close>

definition stops_at_failure ::
  "server \<Rightarrow> request list \<Rightarrow> (js_error + 'a) \<times> request list \<Rightarrow> bool" where
  "stops_at_failure srv log out =
     (let rs = drop (length log) (snd out)
      in take (length log) (snd out) = log
         \<and> (\<forall>i < length rs. \<forall>e. responses srv log rs ! i = Inl e
               \<longrightarrow> Suc i = length rs \<and> fst out = Inl e))"

text \<open>The sample cluster with the second node out of reach.\<close>

definition unreachable_transport :: "request list \<Rightarrow> request \<Rightarrow> js_error + json" where
  "unreachable_transport log r =
     (if take 11 (endpoint r) = ''/nodes/pve2''
      then Inl (Error ''Failed to connect to Proxmox: connect EHOSTUNREACH'')
      else sample_transport log r)"

definition unreachable_server :: server where
  "unreachable_server =
     \<lparr>allowElevated = False, transport = unreachable_transport, randomBytes = (\<lambda>i. 7 * i)\<rparr>"

section \<open>Properties of the validators\<close>

subsection \<open>Decimal strings\<close>

lemma lt10_cases: "d < 10 \<Longrightarrow> d \<in> {0, 1, 2, 3, 4, 5, 6, 7, 8, 9 :: nat}"
  by auto

lemma digit_val_digit_char: "d < 10 \<Longrightarrow> digit_val (digit_char d) = d"
  by (drule lt10_cases) (auto simp: digit_val_def digit_char_def)

lemma is_digit_digit_char: "d < 10 \<Longrightarrow> is_digit (digit_char d)"
  by (drule lt10_cases) (auto simp: is_digit_def digit_char_def)

lemma digits_val_snoc: "digits_val (ds @ [c]) = 10 * digits_val ds + digit_val c"
  by (simp add: digits_val_def)

lemma digits_val_dec_nat: "digits_val (dec_nat n) = n"
proof (induction n rule: dec_nat.induct)
  case (1 n)
  show ?case
  proof (cases "n < 10")
    case True
    then show ?thesis by (simp add: dec_nat.simps[of n] digits_val_def digit_val_digit_char)
  next
    case False
    then show ?thesis using 1 by (simp add: dec_nat.simps[of n] digits_val_snoc digit_val_digit_char)
  qed
qed

lemma dec_nat_digits: "list_all is_digit (dec_nat n)"
proof (induction n rule: dec_nat.induct)
  case (1 n)
  show ?case
  proof (cases "n < 10")
    case True
    then show ?thesis by (simp add: dec_nat.simps[of n] is_digit_digit_char)
  next
    case False
    then show ?thesis using 1 by (simp add: dec_nat.simps[of n] is_digit_digit_char)
  qed
qed

lemma dec_nat_nonempty: "dec_nat n \<noteq> []"
  by (subst dec_nat.simps) simp

lemma digit_not_ws: "is_digit c \<Longrightarrow> \<not> is_StrWhiteSpaceChar c"
  by (auto simp: is_digit_def is_StrWhiteSpaceChar_def)

lemma digit_not_sign: "is_digit c \<Longrightarrow> c \<noteq> CHR ''+'' \<and> c \<noteq> CHR ''-''"
  by (auto simp: is_digit_def)

lemma sign_not_ws: "\<not> is_StrWhiteSpaceChar CHR ''+''" "\<not> is_StrWhiteSpaceChar CHR ''-''"
  by (auto simp: is_StrWhiteSpaceChar_def)

lemma takeWhile_digits: 
  "list_all is_digit ds \<Longrightarrow> (case rest of [] \<Rightarrow> True | c # r \<Rightarrow> \<not> is_digit c) \<Longrightarrow> takeWhile is_digit (ds @ rest) = ds"
  by (induction ds) (auto split: list.splits)

lemma dropWhile_ws: 
  "list_all is_StrWhiteSpaceChar ws \<Longrightarrow> (case rest of [] \<Rightarrow> True | c # r \<Rightarrow> \<not> is_StrWhiteSpaceChar c) \<Longrightarrow> dropWhile is_StrWhiteSpaceChar (ws @ rest) = rest"
  by (induction ws) (auto split: list.splits)

lemma parseInt10_plain:
  assumes "list_all is_StrWhiteSpaceChar ws" "ds \<noteq> []" "list_all is_digit ds"
    "case rest of [] \<Rightarrow> True | c # r \<Rightarrow> \<not> is_digit c"
  shows "parseInt10 (ws @ ds @ rest) = Some (int (digits_val ds))"
proof -
  obtain d ds' where ds: "ds = d # ds'" using assms(2) by (cases ds) auto
  have d: "is_digit d" using assms(3) ds by simp
  have 1: "dropWhile is_StrWhiteSpaceChar (ws @ ds @ rest) = ds @ rest"
    using dropWhile_ws[OF assms(1), of "ds @ rest"] ds digit_not_ws[OF d] by simp
  have 2: "takeWhile is_digit (ds @ rest) = ds" using takeWhile_digits assms by blast
  show ?thesis using 1 2 ds digit_not_sign[OF d] assms(2)
    by (simp add: parseInt10_def Let_def)
qed

lemma parseInt10_plus:
  assumes "list_all is_StrWhiteSpaceChar ws" "ds \<noteq> []" "list_all is_digit ds"
    "case rest of [] \<Rightarrow> True | c # r \<Rightarrow> \<not> is_digit c"
  shows "parseInt10 (ws @ ''+'' @ ds @ rest) = Some (int (digits_val ds))"
proof -
  have 1: "dropWhile is_StrWhiteSpaceChar (ws @ ''+'' @ ds @ rest) = ''+'' @ ds @ rest"
    using dropWhile_ws[OF assms(1), of "''+'' @ ds @ rest"] sign_not_ws by simp
  have 2: "takeWhile is_digit (ds @ rest) = ds" using takeWhile_digits assms by blast
  show ?thesis using 1 2 assms(2)
    by (simp add: parseInt10_def Let_def)
qed

lemma parseInt10_minus:
  assumes "list_all is_StrWhiteSpaceChar ws" "ds \<noteq> []" "list_all is_digit ds"
    "case rest of [] \<Rightarrow> True | c # r \<Rightarrow> \<not> is_digit c"
  shows "parseInt10 (ws @ ''-'' @ ds @ rest) = Some (- int (digits_val ds))"
proof -
  have 1: "dropWhile is_StrWhiteSpaceChar (ws @ ''-'' @ ds @ rest) = ''-'' @ ds @ rest"
    using dropWhile_ws[OF assms(1), of "''-'' @ ds @ rest"] sign_not_ws by simp
  have 2: "takeWhile is_digit (ds @ rest) = ds" using takeWhile_digits assms by blast
  show ?thesis using 1 2 assms(2)
    by (simp add: parseInt10_def Let_def)
qed

text \<open>Every successful parse has this shape.\<close>

lemma parseInt10_SomeD:
  assumes "parseInt10 s = Some n"
  shows "\<exists>ws sg ds rest. s = ws @ sg @ ds @ rest \<and> list_all is_StrWhiteSpaceChar ws
           \<and> sg \<in> {[], ''+'', ''-''} \<and> ds \<noteq> [] \<and> list_all is_digit ds
           \<and> (case rest of [] \<Rightarrow> True | c # r \<Rightarrow> \<not> is_digit c)
           \<and> n = (if sg = ''-'' then - int (digits_val ds) else int (digits_val ds))"
proof -
  define ws where "ws = takeWhile is_StrWhiteSpaceChar s"
  define S where "S = dropWhile is_StrWhiteSpaceChar s"
  define sg where "sg = (case S of [] \<Rightarrow> [] | c # r \<Rightarrow> if c = CHR ''+'' \<or> c = CHR ''-'' then [c] else [])"
  define S' where "S' = (case S of [] \<Rightarrow> [] | c # r \<Rightarrow> if c = CHR ''+'' \<or> c = CHR ''-'' then r else S)"
  define ds where "ds = takeWhile is_digit S'"
  define rest where "rest = dropWhile is_digit S'"
  have s: "s = ws @ S" by (simp add: ws_def S_def)
  have S: "S = sg @ S'" by (auto simp: sg_def S'_def split: list.splits)
  have S': "S' = ds @ rest" by (simp add: ds_def rest_def)
  have ws: "list_all is_StrWhiteSpaceChar ws" unfolding ws_def list_all_iff by (auto dest: set_takeWhileD)
  have dsd: "list_all is_digit ds" unfolding ds_def list_all_iff by (auto dest: set_takeWhileD)
  have rest: "case rest of [] \<Rightarrow> True | c # r \<Rightarrow> \<not> is_digit c"
  proof (cases rest)
    case (Cons c r)
    then show ?thesis using hd_dropWhile[of is_digit S'] by (simp add: rest_def)
  qed simp
  have sgs: "sg \<in> {[], ''+'', ''-''}" by (auto simp: sg_def split: list.splits)
  have pe: "parseInt10 s = (if ds = [] then None
      else Some ((case S of [] \<Rightarrow> 1 | c # r \<Rightarrow> if c = CHR ''-'' then - 1 else (1 :: int)) * int (digits_val ds)))"
    unfolding parseInt10_def Let_def ds_def S'_def S_def by (rule refl)
  from assms have ne: "ds \<noteq> []" and n: "n = (case S of [] \<Rightarrow> 1 | c # r \<Rightarrow> if c = CHR ''-'' then - 1 else (1 :: int)) * int (digits_val ds)"
    by (auto simp: pe split: if_splits)
  have "n = (if sg = ''-'' then - int (digits_val ds) else int (digits_val ds))"
    using n by (auto simp: sg_def split: list.splits)
  then show ?thesis using s S S' ws dsd rest sgs ne by (intro exI[of _ ws] exI[of _ sg] exI[of _ ds] exI[of _ rest]) simp
qed


lemma validateVMID_str:
  "validateVMID (JStr s) = Inr r \<longleftrightarrow>
     (\<exists>n. parseInt10 s = Some n \<and> 100 \<le> n \<and> n \<le> 999999999 \<and> r = dec_int n)"
proof (cases "s = []")
  case True
  then show ?thesis by (simp add: validateVMID_def parseInt10_def)
next
  case False
  then show ?thesis
    by (auto simp: validateVMID_def invalid_vmid_def split: option.splits)
qed

lemma validateVMID_of_shape:
  assumes "list_all is_StrWhiteSpaceChar ws" "sg \<in> {[], ''+''}" "ds \<noteq> []" "list_all is_digit ds"
    "case rest of [] \<Rightarrow> True | c # r \<Rightarrow> \<not> is_digit c"
    "100 \<le> digits_val ds" "digits_val ds \<le> 999999999"
  shows "validateVMID (JStr (ws @ sg @ ds @ rest)) = Inr (dec_nat (digits_val ds))"
proof -
  have "parseInt10 (ws @ sg @ ds @ rest) = Some (int (digits_val ds))"
    using assms(2) parseInt10_plain[OF assms(1,3,4,5)] parseInt10_plus[OF assms(1,3,4,5)] by auto
  then show ?thesis using assms(6,7) by (simp add: validateVMID_str dec_int_def)
qed

lemma validateVMID_shapeD:
  assumes "validateVMID (JStr s) = Inr r"
  shows "\<exists>ws sg ds rest. s = ws @ sg @ ds @ rest \<and> list_all is_StrWhiteSpaceChar ws
           \<and> sg \<in> {[], ''+''} \<and> ds \<noteq> [] \<and> list_all is_digit ds
           \<and> (case rest of [] \<Rightarrow> True | c # r \<Rightarrow> \<not> is_digit c)
           \<and> 100 \<le> digits_val ds \<and> digits_val ds \<le> 999999999 \<and> r = dec_nat (digits_val ds)"
proof -
  from assms obtain n where n: "parseInt10 s = Some n" "100 \<le> n" "n \<le> 999999999" "r = dec_int n"
    by (auto simp: validateVMID_str)
  from parseInt10_SomeD[OF n(1)] obtain ws sg ds rest where d:
    "s = ws @ sg @ ds @ rest" "list_all is_StrWhiteSpaceChar ws" "sg \<in> {[], ''+'', ''-''}"
    "ds \<noteq> []" "list_all is_digit ds" "case rest of [] \<Rightarrow> True | c # r \<Rightarrow> \<not> is_digit c"
    "n = (if sg = ''-'' then - int (digits_val ds) else int (digits_val ds))"
    by blast
  from d(7) n(2) have sg: "sg \<noteq> ''-''" by (auto split: if_splits)
  with d(7) have nv: "n = int (digits_val ds)" by simp
  have "sg \<in> {[], ''+''}" using d(3) sg by auto
  moreover have "r = dec_nat (digits_val ds)" using n(4) nv by (simp add: dec_int_def)
  moreover have "100 \<le> digits_val ds" "digits_val ds \<le> 999999999" using n(2,3) nv by auto
  ultimately show ?thesis using d(1,2,4,5,6) by blast
qed

lemma base10_integer_parseInt10:
  assumes "base10_integer s = Some n"
  shows "parseInt10 s = Some n"
proof -
  define ws where "ws = takeWhile is_StrWhiteSpaceChar s"
  define u where "u = dropWhile is_StrWhiteSpaceChar s"
  define t where "t = rev (dropWhile is_StrWhiteSpaceChar (rev u))"
  define tr where "tr = rev (takeWhile is_StrWhiteSpaceChar (rev u))"
  define sg where "sg = (case t of [] \<Rightarrow> [] | c # r \<Rightarrow> if c = CHR ''+'' \<or> c = CHR ''-'' then [c] else [])"
  define ds where "ds = (case t of [] \<Rightarrow> [] | c # r \<Rightarrow> if c = CHR ''+'' \<or> c = CHR ''-'' then r else t)"
  have s: "s = ws @ u" by (simp add: ws_def u_def)
  have "rev u = takeWhile is_StrWhiteSpaceChar (rev u) @ dropWhile is_StrWhiteSpaceChar (rev u)" by simp
  then have "rev (rev u) = t @ tr" unfolding t_def tr_def by (metis rev_append)
  then have u: "u = t @ tr" by simp
  have t: "t = sg @ ds" by (auto simp: sg_def ds_def split: list.splits)
  have ws: "list_all is_StrWhiteSpaceChar ws" unfolding ws_def list_all_iff by (auto dest: set_takeWhileD)
  have tr: "list_all is_StrWhiteSpaceChar tr" unfolding tr_def list_all_iff by (auto dest: set_takeWhileD)
  have be: "base10_integer s = (if ds \<noteq> [] \<and> list_all is_digit ds
      then Some ((case t of [] \<Rightarrow> 1 | c # r \<Rightarrow> if c = CHR ''-'' then - 1 else (1 :: int)) * int (digits_val ds)) else None)"
    unfolding base10_integer_def Let_def ds_def t_def u_def by (rule refl)
  from assms have ne: "ds \<noteq> []" and dd: "list_all is_digit ds"
    and n: "n = (case t of [] \<Rightarrow> 1 | c # r \<Rightarrow> if c = CHR ''-'' then - 1 else (1 :: int)) * int (digits_val ds)"
    by (auto simp: be split: if_splits)
  have rest: "case tr of [] \<Rightarrow> True | c # r \<Rightarrow> \<not> is_digit c"
    using tr digit_not_ws by (cases tr) auto
  have sgs: "sg = [] \<or> sg = ''+'' \<or> sg = ''-''" by (auto simp: sg_def split: list.splits)
  have nv: "n = (if sg = ''-'' then - int (digits_val ds) else int (digits_val ds))"
    using n by (auto simp: sg_def split: list.splits)
  have se: "s = ws @ sg @ ds @ tr" using s u t by simp
  from sgs show ?thesis
  proof (elim disjE)
    assume "sg = []"
    then show ?thesis using parseInt10_plain[OF ws ne dd rest] nv se by simp
  next
    assume "sg = ''+''"
    then show ?thesis using parseInt10_plus[OF ws ne dd rest] nv se by simp
  next
    assume "sg = ''-''"
    then show ?thesis using parseInt10_minus[OF ws ne dd rest] nv se by simp
  qed
qed

lemma parseInt10_dec_nat: "parseInt10 (dec_nat n) = Some (int n)"
  using parseInt10_plain[of "[]" "dec_nat n" "[]"] dec_nat_nonempty dec_nat_digits digits_val_dec_nat
  by simp

text \<open>
  Claim C5, as amended. \<open>validateVMID\<close> succeeds on a string exactly when, after leading
  white space and an optional plus sign, the string starts with a non-empty run of decimal
  digits whose value lies in [100, 999999999]; whatever follows the digits is ignored, and
  the result is the canonical decimal string of that value. In particular every string
  that is as a whole a base-10 integer in the range (white space at the ends and leading
  zeros allowed) is accepted and yields its canonical string, and the canonical string
  of every integer in the range is returned unchanged.
\<close>

theorem validateVMID_prefix_parse:
  "(validateVMID (JStr s) = Inr r \<longleftrightarrow>
      (\<exists>ws sg ds rest. s = ws @ sg @ ds @ rest \<and> list_all is_StrWhiteSpaceChar ws
           \<and> sg \<in> {[], ''+''} \<and> ds \<noteq> [] \<and> list_all is_digit ds
           \<and> (case rest of [] \<Rightarrow> True | c # r \<Rightarrow> \<not> is_digit c)
           \<and> 100 \<le> digits_val ds \<and> digits_val ds \<le> 999999999 \<and> r = dec_nat (digits_val ds)))
   \<and> (base10_integer s = Some n \<and> 100 \<le> n \<and> n \<le> 999999999
        \<longrightarrow> validateVMID (JStr s) = Inr (dec_int n))
   \<and> (100 \<le> m \<and> m \<le> 999999999 \<longrightarrow> validateVMID (JStr (dec_int m)) = Inr (dec_int m))"
proof (intro conjI impI)
  show "validateVMID (JStr s) = Inr r \<longleftrightarrow>
      (\<exists>ws sg ds rest. s = ws @ sg @ ds @ rest \<and> list_all is_StrWhiteSpaceChar ws
           \<and> sg \<in> {[], ''+''} \<and> ds \<noteq> [] \<and> list_all is_digit ds
           \<and> (case rest of [] \<Rightarrow> True | c # r \<Rightarrow> \<not> is_digit c)
           \<and> 100 \<le> digits_val ds \<and> digits_val ds \<le> 999999999 \<and> r = dec_nat (digits_val ds))"
    using validateVMID_shapeD validateVMID_of_shape by blast
next
  assume "base10_integer s = Some n \<and> 100 \<le> n \<and> n \<le> 999999999"
  then show "validateVMID (JStr s) = Inr (dec_int n)"
    using base10_integer_parseInt10 by (simp add: validateVMID_str)
next
  assume m: "100 \<le> m \<and> m \<le> 999999999"
  then have "dec_int m = dec_nat (nat m)" by (simp add: dec_int_def)
  moreover have "parseInt10 (dec_nat (nat m)) = Some m" using m by (simp add: parseInt10_dec_nat)
  ultimately show "validateVMID (JStr (dec_int m)) = Inr (dec_int m)"
    using m by (simp add: validateVMID_str)
qed

text \<open>
  Claim C5 as stated fails: \<open>"150abc"\<close> is not a base-10 integer, and \<open>validateVMID\<close>
  accepts it, returning \<open>"150"\<close>.
\<close>

theorem validateVMID_trailing_text_counterexample:
  "validateVMID (JStr ''150abc'') = Inr ''150'' \<and> base10_integer ''150abc'' = None"
  by code_simp

theorem validateVMID_prefix_parse_witness:
  "validateVMID (JStr '' +0150/x'') = Inr ''150''
   \<and> base10_integer '' 0150 '' = Some 150 \<and> validateVMID (JStr '' 0150 '') = Inr ''150''
   \<and> validateVMID (JStr ''100'') = Inr ''100''"
proof -
  have a: "'' +0150/x'' = '' '' @ ''+'' @ ''0150'' @ ''/x''" by simp
  have b: "list_all is_StrWhiteSpaceChar '' ''" "list_all is_digit ''0150''"
    "digits_val ''0150'' = 150" "dec_nat 150 = ''150''" by code_simp+
  have c: "base10_integer '' 0150 '' = Some 150" "dec_int 150 = ''150''" "dec_int 100 = ''100''" by code_simp+
  have d: "\<not> is_digit CHR ''/''" by code_simp
  have e: "\<exists>ws sg ds rest. '' +0150/x'' = ws @ sg @ ds @ rest \<and> list_all is_StrWhiteSpaceChar ws
           \<and> sg \<in> {[], ''+''} \<and> ds \<noteq> [] \<and> list_all is_digit ds
           \<and> (case rest of [] \<Rightarrow> True | c # r \<Rightarrow> \<not> is_digit c)
           \<and> 100 \<le> digits_val ds \<and> digits_val ds \<le> 999999999 \<and> ''150'' = dec_nat (digits_val ds)"
    apply (rule exI[of _ "'' ''"])
    apply (rule exI[of _ "''+''"])
    apply (rule exI[of _ "''0150''"])
    apply (rule exI[of _ "''/x''"])
    using b d by simp
  have 1: "validateVMID (JStr '' +0150/x'') = Inr ''150''"
    using conjunct1[OF validateVMID_prefix_parse[of "'' +0150/x''" "''150''" 0 0]] e by blast
  have 2: "validateVMID (JStr '' 0150 '') = Inr ''150''"
    using validateVMID_prefix_parse[of "'' 0150 ''" "''150''" 150 0] c by simp
  have 3: "validateVMID (JStr ''100'') = Inr ''100''"
    using validateVMID_prefix_parse[of "''100''" "''100''" 0 100] c by simp
  show ?thesis using 1 2 3 c by simp
qed

subsection \<open>Shell commands\<close>

text \<open>
  Claim C8, as amended. Every string that contains one of the characters
  \<open>; & | ` $ ( ) { } [ ] < >\<close> or a backslash is rejected by \<open>validateCommand\<close>, and
  every non-empty string of at most 1000 characters that contains none of them (so in
  particular every such string of printable characters) is accepted and returned unchanged.
\<close>

theorem validateCommand_charset:
  "((\<exists>c \<in> set s. c \<in> dangerousChars) \<longrightarrow> (\<exists>e. validateCommand (JStr s) = Inl e))
   \<and> (s \<noteq> [] \<and> (\<forall>c \<in> set s. c \<notin> dangerousChars) \<and> length s \<le> 1000
        \<longrightarrow> validateCommand (JStr s) = Inr s)"
  by (auto simp: validateCommand_def)

text \<open>
  Claim C8 as stated fails on the empty string: it has at most 1000 characters, all of
  them printable and none dangerous, and the guard \<open>!command\<close> rejects it.
\<close>

theorem validateCommand_empty_counterexample:
  "validateCommand (JStr []) = Inl (Error ''Command is required and must be a string'')
   \<and> list_all is_printable [] \<and> list_all (\<lambda>c. c \<notin> dangerousChars) []
   \<and> length ([] :: string) \<le> 1000"
  by (simp add: validateCommand_def)

theorem validateCommand_charset_witness:
  "validateCommand (JStr ''ls -la /tmp'') = Inr ''ls -la /tmp''
   \<and> (\<exists>e. validateCommand (JStr ''ls; reboot'') = Inl e)"
proof -
  have a: "\<exists>c \<in> set ''ls; reboot''. c \<in> dangerousChars"
    by (simp add: dangerousChars_def)
  have b: "''ls -la /tmp'' \<noteq> [] \<and> (\<forall>c \<in> set ''ls -la /tmp''. c \<notin> dangerousChars)
           \<and> length ''ls -la /tmp'' \<le> 1000"
    by (simp add: dangerousChars_def)
  show ?thesis
    using validateCommand_charset[of "''ls; reboot''"]
      validateCommand_charset[of "''ls -la /tmp''"] a b
    by blast
qed

section \<open>The permission gate\<close>

lemma text_result_eq [simp]: "text_result a = text_result b \<longleftrightarrow> a = b"
  by (simp add: text_result_def)





















































section \<open>Validation before requests\<close>

lemma dispatch_get_vms:
  "dispatch P srv ''proxmox_get_vms'' args
     = with_args args ''node'' (getVMs P srv (read_prop args ''node'') (read_prop args ''type''))"
  by (simp add: dispatch_def)

lemma dispatch_get_storage:
  "dispatch P srv ''proxmox_get_storage'' args
     = with_args args ''node'' (getStorage P srv (read_prop args ''node''))"
  by (simp add: dispatch_def)

lemma io_catch_snd: "snd (io_catch m (\<lambda>e. io_return (x e)) log) = snd (m log)"
  by (auto simp: io_catch_def io_return_def split: prod.splits sum.splits)

lemma getVMs_filter_first:
  assumes "truthy nodeFilter"
  shows "\<exists>rest. snd (getVMs P srv nodeFilter typeFilter log)
     = log @ \<lparr>endpoint = ''/nodes/'' @ ToString nodeFilter @ ''/qemu'', verb = GET,
               body = JNull\<rparr> # rest"
proof -
  have nf: "default_to JNull nodeFilter = nodeFilter"
    using assms by (auto simp: default_to_def)
  show ?thesis
    unfolding getVMs_def Let_def nf
    using assms
    by (auto simp: io_bind_def io_lift_def io_return_def proxmoxRequest_def Let_def
        split: sum.splits prod.splits)
qed

lemma getStorage_filter_first:
  assumes "truthy nodeFilter"
  shows "\<exists>rest. snd (getStorage P srv nodeFilter log)
     = log @ \<lparr>endpoint = ''/nodes/'' @ ToString nodeFilter @ ''/storage'', verb = GET,
               body = JNull\<rparr> # rest"
proof -
  have nf: "default_to JNull nodeFilter = nodeFilter"
    using assms by (auto simp: default_to_def)
  show ?thesis
    unfolding getStorage_def Let_def nf
    using assms
    by (auto simp: io_bind_def io_lift_def io_return_def proxmoxRequest_def Let_def
        split: sum.splits prod.splits)
qed

text \<open>
  Claim C2 does not hold of \<open>getVMs\<close> and \<open>getStorage\<close>: the node filter
  \<open>pve1/../../cluster\<close> is rejected by \<open>validateNodeName\<close>, and both handlers
  interpolate it into the path of their first request, whatever the transport answers.
\<close>

theorem list_operations_skip_node_validation:
  "(\<exists>e. validateNodeName (JStr ''pve1/../../cluster'') = Inl e)
   \<and> (\<exists>rest. snd (callTool P srv ''proxmox_get_vms''
                     (JObj [(''node'', JStr ''pve1/../../cluster'')]) log)
         = log @ \<lparr>endpoint = ''/nodes/pve1/../../cluster/qemu'', verb = GET,
                   body = JNull\<rparr> # rest)
   \<and> (\<exists>rest. snd (callTool P srv ''proxmox_get_storage''
                     (JObj [(''node'', JStr ''pve1/../../cluster'')]) log)
         = log @ \<lparr>endpoint = ''/nodes/pve1/../../cluster/storage'', verb = GET,
                   body = JNull\<rparr> # rest)"
proof (intro conjI)
  show "\<exists>e. validateNodeName (JStr ''pve1/../../cluster'') = Inl e"
    by (simp add: validateNodeName_def is_node_char_def)
  show "\<exists>rest. snd (callTool P srv ''proxmox_get_vms''
                     (JObj [(''node'', JStr ''pve1/../../cluster'')]) log)
         = log @ \<lparr>endpoint = ''/nodes/pve1/../../cluster/qemu'', verb = GET,
                   body = JNull\<rparr> # rest"
    using getVMs_filter_first[of "JStr ''pve1/../../cluster''" P srv JUndefined log]
    by (simp add: callTool_def io_catch_snd dispatch_get_vms with_args_def nullish_def
        inherited_def object_prototype_names_def)
  show "\<exists>rest. snd (callTool P srv ''proxmox_get_storage''
                     (JObj [(''node'', JStr ''pve1/../../cluster'')]) log)
         = log @ \<lparr>endpoint = ''/nodes/pve1/../../cluster/storage'', verb = GET,
                   body = JNull\<rparr> # rest"
    using getStorage_filter_first[of "JStr ''pve1/../../cluster''" P srv log]
    by (simp add: callTool_def io_catch_snd dispatch_get_storage with_args_def nullish_def)
qed

theorem list_operations_skip_node_validation_witness:
  "(\<exists>e. validateNodeName (JStr ''pve1/../../cluster'') = Inl e)
   \<and> (\<exists>rest. snd (callTool sample_presentation (sample_server True) ''proxmox_get_vms''
                     (JObj [(''node'', JStr ''pve1/../../cluster'')]) [])
         = \<lparr>endpoint = ''/nodes/pve1/../../cluster/qemu'', verb = GET, body = JNull\<rparr> # rest)
   \<and> (\<exists>rest. snd (callTool sample_presentation (sample_server True) ''proxmox_get_storage''
                     (JObj [(''node'', JStr ''pve1/../../cluster'')]) [])
         = \<lparr>endpoint = ''/nodes/pve1/../../cluster/storage'', verb = GET, body = JNull\<rparr> # rest)"
  using list_operations_skip_node_validation[of sample_presentation "sample_server True" "[]"]
  by simp

section \<open>The dispatcher never throws\<close>

lemma shaped_return [intro!]: "shaped (io_return (text_result t))"
  by (simp add: shaped_def io_return_def text_result_def)

lemma shaped_return_error [intro!]: "shaped (io_return (error_result t))"
  by (simp add: shaped_def io_return_def error_result_def)

lemma shaped_throw [intro!]: "shaped (io_throw e)"
  by (simp add: shaped_def io_throw_def)

lemma shaped_bind [intro!]: "(\<And>x. shaped (f x)) \<Longrightarrow> shaped (io_bind m f)"
  unfolding shaped_def io_bind_def by (auto split: prod.splits sum.splits)

lemma shaped_catch [intro!]: "shaped m \<Longrightarrow> (\<And>e. shaped (h e)) \<Longrightarrow> shaped (io_catch m h)"
  unfolding shaped_def io_catch_def by (auto split: prod.splits sum.splits)

lemma shaped_if [intro!]: "shaped a \<Longrightarrow> shaped b \<Longrightarrow> shaped (if c then a else b)"
  by simp

lemma shaped_with_args [intro!]: "shaped m \<Longrightarrow> shaped (with_args args k m)"
  by (simp add: with_args_def shaped_throw)

text \<open>Every handler returns a result that holds one text.\<close>

lemma shaped_getNodes [intro!]: "shaped (getNodes P srv)"
  unfolding getNodes_def Let_def by (intro shaped_return shaped_return_error shaped_throw shaped_bind
      shaped_catch shaped_if)

lemma shaped_getNodeStatus [intro!]: "shaped (getNodeStatus P srv node)"
  unfolding getNodeStatus_def Let_def by (intro shaped_return shaped_return_error shaped_throw shaped_bind
      shaped_catch shaped_if)

lemma shaped_getVMs [intro!]: "shaped (getVMs P srv nodeFilter' typeFilter')"
  unfolding getVMs_def Let_def by (intro shaped_return shaped_return_error shaped_throw shaped_bind
      shaped_catch shaped_if)

lemma shaped_getVMStatus [intro!]: "shaped (getVMStatus P srv node vmid type')"
  unfolding getVMStatus_def Let_def by (intro shaped_return shaped_return_error shaped_throw shaped_bind
      shaped_catch shaped_if)

lemma shaped_executeVMCommand [intro!]: "shaped (executeVMCommand srv node vmid command type')"
  unfolding executeVMCommand_def Let_def by (intro shaped_return shaped_return_error shaped_throw shaped_bind
      shaped_catch shaped_if)

lemma shaped_getStorage [intro!]: "shaped (getStorage P srv nodeFilter')"
  unfolding getStorage_def Let_def by (intro shaped_return shaped_return_error shaped_throw shaped_bind
      shaped_catch shaped_if)

lemma shaped_getClusterStatus [intro!]: "shaped (getClusterStatus P srv)"
  unfolding getClusterStatus_def Let_def by (intro shaped_return shaped_return_error shaped_throw shaped_bind
      shaped_catch shaped_if)

lemma shaped_listTemplates [intro!]: "shaped (listTemplates P srv node storage')"
  unfolding listTemplates_def Let_def by (intro shaped_return shaped_return_error shaped_throw shaped_bind
      shaped_catch shaped_if)

lemma shaped_createLXCContainer [intro!]: "shaped (createLXCContainer srv args)"
  unfolding createLXCContainer_def Let_def by (intro shaped_return shaped_return_error shaped_throw shaped_bind
      shaped_catch shaped_if)

lemma shaped_createVM [intro!]: "shaped (createVM srv args)"
  unfolding createVM_def Let_def by (intro shaped_return shaped_return_error shaped_throw shaped_bind
      shaped_catch shaped_if)

lemma shaped_getNextVMID [intro!]: "shaped (getNextVMID srv)"
  unfolding getNextVMID_def Let_def by (intro shaped_return shaped_return_error shaped_throw shaped_bind
      shaped_catch shaped_if)

lemma shaped_startVM [intro!]: "shaped (startVM srv node vmid type)"
  unfolding startVM_def Let_def by (intro shaped_return shaped_return_error shaped_throw shaped_bind
      shaped_catch shaped_if)

lemma shaped_stopVM [intro!]: "shaped (stopVM srv node vmid type)"
  unfolding stopVM_def Let_def by (intro shaped_return shaped_return_error shaped_throw shaped_bind
      shaped_catch shaped_if)

lemma shaped_deleteVM [intro!]: "shaped (deleteVM srv node vmid type)"
  unfolding deleteVM_def Let_def by (intro shaped_return shaped_return_error shaped_throw shaped_bind
      shaped_catch shaped_if)

lemma shaped_rebootVM [intro!]: "shaped (rebootVM srv node vmid type)"
  unfolding rebootVM_def Let_def by (intro shaped_return shaped_return_error shaped_throw shaped_bind
      shaped_catch shaped_if)

lemma shaped_shutdownVM [intro!]: "shaped (shutdownVM srv node vmid type)"
  unfolding shutdownVM_def Let_def by (intro shaped_return shaped_return_error shaped_throw shaped_bind
      shaped_catch shaped_if)

lemma shaped_pauseVM [intro!]: "shaped (pauseVM srv node vmid)"
  unfolding pauseVM_def Let_def by (intro shaped_return shaped_return_error shaped_throw shaped_bind
      shaped_catch shaped_if)

lemma shaped_resumeVM [intro!]: "shaped (resumeVM srv node vmid)"
  unfolding resumeVM_def Let_def by (intro shaped_return shaped_return_error shaped_throw shaped_bind
      shaped_catch shaped_if)

lemma shaped_cloneVM [intro!]: "shaped (cloneVM srv node vmid newid nameOrHostname type)"
  unfolding cloneVM_def Let_def by (intro shaped_return shaped_return_error shaped_throw shaped_bind
      shaped_catch shaped_if)

lemma shaped_resizeVM [intro!]: "shaped (resizeVM srv node vmid memory cores type)"
  unfolding resizeVM_def Let_def by (intro shaped_return shaped_return_error shaped_throw shaped_bind
      shaped_catch shaped_if)

lemma shaped_createSnapshot [intro!]: "shaped (createSnapshot srv node vmid snapname type)"
  unfolding createSnapshot_def Let_def by (intro shaped_return shaped_return_error shaped_throw shaped_bind
      shaped_catch shaped_if)

lemma shaped_listSnapshots [intro!]: "shaped (listSnapshots P srv node vmid type)"
  unfolding listSnapshots_def Let_def by (intro shaped_return shaped_return_error shaped_throw shaped_bind
      shaped_catch shaped_if)

lemma shaped_rollbackSnapshot [intro!]: "shaped (rollbackSnapshot srv node vmid snapname type)"
  unfolding rollbackSnapshot_def Let_def by (intro shaped_return shaped_return_error shaped_throw shaped_bind
      shaped_catch shaped_if)

lemma shaped_deleteSnapshot [intro!]: "shaped (deleteSnapshot srv node vmid snapname type)"
  unfolding deleteSnapshot_def Let_def by (intro shaped_return shaped_return_error shaped_throw shaped_bind
      shaped_catch shaped_if)

lemma shaped_createBackup [intro!]: "shaped (createBackup srv node vmid storage' mode' compress' type)"
  unfolding createBackup_def Let_def by (intro shaped_return shaped_return_error shaped_throw shaped_bind
      shaped_catch shaped_if)

lemma shaped_listBackups [intro!]: "shaped (listBackups P srv node storage')"
  unfolding listBackups_def Let_def by (intro shaped_return shaped_return_error shaped_throw shaped_bind
      shaped_catch shaped_if)

lemma shaped_restoreBackup [intro!]: "shaped (restoreBackup srv node vmid archive storage type)"
  unfolding restoreBackup_def Let_def by (intro shaped_return shaped_return_error shaped_throw shaped_bind
      shaped_catch shaped_if)

lemma shaped_deleteBackup [intro!]: "shaped (deleteBackup srv node storage volume)"
  unfolding deleteBackup_def Let_def by (intro shaped_return shaped_return_error shaped_throw shaped_bind
      shaped_catch shaped_if)

lemma shaped_addDiskVM [intro!]: "shaped (addDiskVM srv node vmid disk storage size')"
  unfolding addDiskVM_def Let_def by (intro shaped_return shaped_return_error shaped_throw shaped_bind
      shaped_catch shaped_if)

lemma shaped_addMountPointLXC [intro!]: "shaped (addMountPointLXC srv node vmid mp storage size')"
  unfolding addMountPointLXC_def Let_def by (intro shaped_return shaped_return_error shaped_throw shaped_bind
      shaped_catch shaped_if)

lemma shaped_resizeDiskVM [intro!]: "shaped (resizeDiskVM srv node vmid disk size')"
  unfolding resizeDiskVM_def Let_def by (intro shaped_return shaped_return_error shaped_throw shaped_bind
      shaped_catch shaped_if)

lemma shaped_resizeDiskLXC [intro!]: "shaped (resizeDiskLXC srv node vmid disk size')"
  unfolding resizeDiskLXC_def Let_def by (intro shaped_return shaped_return_error shaped_throw shaped_bind
      shaped_catch shaped_if)

lemma shaped_removeDiskVM [intro!]: "shaped (removeDiskVM srv node vmid disk)"
  unfolding removeDiskVM_def Let_def by (intro shaped_return shaped_return_error shaped_throw shaped_bind
      shaped_catch shaped_if)

lemma shaped_removeMountPointLXC [intro!]: "shaped (removeMountPointLXC srv node vmid mp)"
  unfolding removeMountPointLXC_def Let_def by (intro shaped_return shaped_return_error shaped_throw shaped_bind
      shaped_catch shaped_if)

lemma shaped_moveDiskVM [intro!]: "shaped (moveDiskVM srv node vmid disk storage deleteSource')"
  unfolding moveDiskVM_def Let_def by (intro shaped_return shaped_return_error shaped_throw shaped_bind
      shaped_catch shaped_if)

lemma shaped_moveDiskLXC [intro!]: "shaped (moveDiskLXC srv node vmid disk storage deleteSource')"
  unfolding moveDiskLXC_def Let_def by (intro shaped_return shaped_return_error shaped_throw shaped_bind
      shaped_catch shaped_if)

lemma shaped_addNetworkVM [intro!]: "shaped (addNetworkVM srv node vmid net bridge model' macaddr vlan firewall)"
  unfolding addNetworkVM_def Let_def by (intro shaped_return shaped_return_error shaped_throw shaped_bind
      shaped_catch shaped_if)

lemma shaped_addNetworkLXC [intro!]: "shaped (addNetworkLXC srv node vmid net bridge ip gw firewall)"
  unfolding addNetworkLXC_def Let_def by (intro shaped_return shaped_return_error shaped_throw shaped_bind
      shaped_catch shaped_if)

lemma shaped_updateNetworkVM [intro!]: "shaped (updateNetworkVM srv node vmid net bridge model macaddr vlan firewall)"
  unfolding updateNetworkVM_def Let_def by (intro shaped_return shaped_return_error shaped_throw shaped_bind
      shaped_catch shaped_if)

lemma shaped_updateNetworkLXC [intro!]: "shaped (updateNetworkLXC srv node vmid net bridge ip gw firewall)"
  unfolding updateNetworkLXC_def Let_def by (intro shaped_return shaped_return_error shaped_throw shaped_bind
      shaped_catch shaped_if)

lemma shaped_removeNetworkVM [intro!]: "shaped (removeNetworkVM srv node vmid net)"
  unfolding removeNetworkVM_def Let_def by (intro shaped_return shaped_return_error shaped_throw shaped_bind
      shaped_catch shaped_if)

lemma shaped_removeNetworkLXC [intro!]: "shaped (removeNetworkLXC srv node vmid net)"
  unfolding removeNetworkLXC_def Let_def by (intro shaped_return shaped_return_error shaped_throw shaped_bind
      shaped_catch shaped_if)

lemma shaped_dispatch: "shaped (dispatch P srv name args)"
  unfolding dispatch_def
  by (intro shaped_if shaped_with_args shaped_throw
      shaped_getNodes shaped_getNodeStatus shaped_getVMs shaped_getVMStatus
      shaped_executeVMCommand shaped_getStorage shaped_getClusterStatus shaped_listTemplates
      shaped_createLXCContainer shaped_createVM shaped_getNextVMID shaped_startVM shaped_stopVM
      shaped_deleteVM shaped_rebootVM shaped_shutdownVM shaped_pauseVM shaped_resumeVM
      shaped_cloneVM shaped_resizeVM shaped_createSnapshot shaped_listSnapshots
      shaped_rollbackSnapshot shaped_deleteSnapshot shaped_createBackup shaped_listBackups
      shaped_restoreBackup shaped_deleteBackup shaped_addDiskVM shaped_addMountPointLXC
      shaped_resizeDiskVM shaped_resizeDiskLXC shaped_removeDiskVM shaped_removeMountPointLXC
      shaped_moveDiskVM shaped_moveDiskLXC shaped_addNetworkVM shaped_addNetworkLXC
      shaped_updateNetworkVM shaped_updateNetworkLXC shaped_removeNetworkVM
      shaped_removeNetworkLXC)

text \<open>
  Claim C3. For every tool name, arguments value, transport and log, \<open>callTool\<close> returns
  a result (never an exception), and the result holds exactly one text. For a name that
  is not registered, the result is the text \<open>Error: Unknown tool: \<close> followed by the
  name, without \<open>isError\<close>, and no transport call is made. An exception thrown by a
  handler or by the dispatcher itself becomes the text \<open>Error: \<close> followed by its message.
\<close>

theorem callTool_never_throws:
  "(\<exists>env log'. callTool P srv name args log = (Inr env, log')
       \<and> (\<exists>t. content env = [TextContent t]))
   \<and> (name \<notin> set tool_names \<longrightarrow>
        callTool P srv name args log
          = (Inr \<lparr>content = [TextContent (''Error: Unknown tool: '' @ name)], isError = False\<rparr>, log))
   \<and> (\<forall>e log'. dispatch P srv name args log = (Inl e, log') \<longrightarrow>
        callTool P srv name args log
          = (Inr \<lparr>content = [TextContent (''Error: '' @ message e)], isError = False\<rparr>, log'))"
proof (intro conjI impI allI)
  show "\<exists>env log'. callTool P srv name args log = (Inr env, log')
       \<and> (\<exists>t. content env = [TextContent t])"
  proof (cases "dispatch P srv name args log")
    case (Pair r log')
    show ?thesis
    proof (cases r)
      case (Inl e)
      with Pair show ?thesis
        by (simp add: callTool_def io_catch_def io_return_def text_result_def)
    next
      case (Inr env)
      with Pair shaped_dispatch[of P srv name args] show ?thesis
        by (auto simp: callTool_def io_catch_def shaped_def)
    qed
  qed
next
  assume "name \<notin> set tool_names"
  then have "dispatch P srv name args = io_throw (Error (''Unknown tool: '' @ name))"
    by (simp add: tool_names_def dispatch_def)
  then show "callTool P srv name args log
          = (Inr \<lparr>content = [TextContent (''Error: Unknown tool: '' @ name)], isError = False\<rparr>, log)"
    by (simp add: callTool_def io_catch_def io_throw_def io_return_def text_result_def)
next
  fix e log'
  assume "dispatch P srv name args log = (Inl e, log')"
  then show "callTool P srv name args log
          = (Inr \<lparr>content = [TextContent (''Error: '' @ message e)], isError = False\<rparr>, log')"
    by (simp add: callTool_def io_catch_def io_return_def text_result_def)
qed

theorem callTool_never_throws_witness:
  "callTool sample_presentation (sample_server True) ''proxmox_teleport_vm'' JUndefined []
     = (Inr \<lparr>content = [TextContent ''Error: Unknown tool: proxmox_teleport_vm''],
             isError = False\<rparr>, [])
   \<and> callTool sample_presentation (sample_server True) ''proxmox_start_vm'' JUndefined []
     = (Inr \<lparr>content = [TextContent
               (''Error: Cannot read properties of undefined (reading ''
                @ [CHR 0x27] @ ''node'' @ [CHR 0x27] @ '')'')],
             isError = False\<rparr>, [])"
proof -
  have a: "''proxmox_teleport_vm'' \<notin> set tool_names"
    by (simp add: tool_names_def)
  have b: "dispatch sample_presentation (sample_server True) ''proxmox_start_vm'' JUndefined []
             = (Inl (cannot_read JUndefined ''node''), [])"
    by (simp add: dispatch_def with_args_def nullish_def io_throw_def)
  have c: "message (cannot_read JUndefined ''node'')
             = ''Cannot read properties of undefined (reading '' @ [CHR 0x27] @ ''node''
               @ [CHR 0x27] @ '')''"
    by (simp add: cannot_read_def)
  show ?thesis
    using callTool_never_throws[of sample_presentation "sample_server True"
        "''proxmox_teleport_vm''" JUndefined "[]"]
      callTool_never_throws[of sample_presentation "sample_server True"
        "''proxmox_start_vm''" JUndefined "[]"] a b c
    by simp
qed

section \<open>Operations that read without a gate\<close>


















section \<open>Listing snapshots\<close>

lemma realSnapshots_of_filter:
  assumes "\<forall>s \<in> set elems. \<not> nullish s"
  shows "realSnapshots_of elems
           = Inr (filter (\<lambda>s. read_prop s ''name'' \<noteq> JStr ''current'') elems)"
  using assms by (induction elems) (auto simp: get_prop_def)

lemma renderSnapshots_array:
  assumes "\<forall>s \<in> set elems. \<not> nullish s"
  shows "renderSnapshots P type safeVMID (JArr elems)
     = Inr (glyph_clipboard @ '' **Snapshots for '' @ toUpperCase type @ '' '' @ safeVMID
       @ ''**\<newline>\<newline>''
            @ (if filter (\<lambda>s. read_prop s ''name'' \<noteq> JStr ''current'') elems = [] then
                 ''No snapshots found.\<newline>\<newline>''
                   @ ''**Tip**: Create a snapshot with `proxmox_create_snapshot_''
                   @ (if type = ''lxc'' then ''lxc'' else ''vm'') @ ''`.\<newline>''
               else
                 concat (map (renderSnapshot P)
                   (filter (\<lambda>s. read_prop s ''name'' \<noteq> JStr ''current'') elems))
                 @ ''**Total**: ''
                   @ dec_nat (length (filter (\<lambda>s. read_prop s ''name'' \<noteq> JStr ''current'') elems))
                   @ '' snapshot(s)\<newline>''))"
proof (cases "elems = []")
  case True
  then show ?thesis by (simp add: renderSnapshots_def)
next
  case False
  then show ?thesis
    using realSnapshots_of_filter[OF assms]
    by (simp add: renderSnapshots_def)
qed

text \<open>
  Claim C7. When the remote list of snapshots is an array of entries, \<open>listSnapshots\<close>
  drops every entry named \<open>current\<close> before it counts and before it displays: the text is
  the header, then the rendering of the remaining entries in order, then the total, which
  is the number of remaining entries. With the sentinel and two real snapshots that total
  is 2, and the text is the one that the two real snapshots alone produce.
\<close>

theorem listSnapshots_drops_sentinel:
  "allowElevated srv \<and> validateNodeName node = Inr safeNode \<and> validateVMID vmid = Inr safeVMID
   \<and> transport srv log
        \<lparr>endpoint = ''/nodes/'' @ safeNode @ ''/'' @ type @ ''/'' @ safeVMID @ ''/snapshot'',
         verb = GET, body = JNull\<rparr> = Inr (JArr elems)
   \<and> (\<forall>s \<in> set elems. \<not> nullish s)
   \<and> real = filter (\<lambda>s. read_prop s ''name'' \<noteq> JStr ''current'') elems
   \<longrightarrow>
   listSnapshots P srv node vmid type log
     = (Inr (text_result
          (glyph_clipboard @ '' **Snapshots for '' @ toUpperCase type @ '' '' @ safeVMID
            @ ''**\<newline>\<newline>''
           @ (if real = [] then
                ''No snapshots found.\<newline>\<newline>''
                  @ ''**Tip**: Create a snapshot with `proxmox_create_snapshot_''
                  @ (if type = ''lxc'' then ''lxc'' else ''vm'') @ ''`.\<newline>''
              else
                concat (map (renderSnapshot P) real)
                @ ''**Total**: '' @ dec_nat (length real) @ '' snapshot(s)\<newline>''))),
        log @ [\<lparr>endpoint = ''/nodes/'' @ safeNode @ ''/'' @ type @ ''/'' @ safeVMID @ ''/snapshot'',
                 verb = GET, body = JNull\<rparr>])
   \<and> renderSnapshots P type safeVMID (JArr elems) = renderSnapshots P type safeVMID (JArr real)
   \<and> (length real = 2 \<longrightarrow> dec_nat (length real) = ''2'')"
proof (intro impI conjI)
  assume a: "allowElevated srv \<and> validateNodeName node = Inr safeNode
   \<and> validateVMID vmid = Inr safeVMID
   \<and> transport srv log
        \<lparr>endpoint = ''/nodes/'' @ safeNode @ ''/'' @ type @ ''/'' @ safeVMID @ ''/snapshot'',
         verb = GET, body = JNull\<rparr> = Inr (JArr elems)
   \<and> (\<forall>s \<in> set elems. \<not> nullish s)
   \<and> real = filter (\<lambda>s. read_prop s ''name'' \<noteq> JStr ''current'') elems"
  then have r: "renderSnapshots P type safeVMID (JArr elems)
     = Inr (glyph_clipboard @ '' **Snapshots for '' @ toUpperCase type @ '' '' @ safeVMID
       @ ''**\<newline>\<newline>''
            @ (if real = [] then
                 ''No snapshots found.\<newline>\<newline>''
                   @ ''**Tip**: Create a snapshot with `proxmox_create_snapshot_''
                   @ (if type = ''lxc'' then ''lxc'' else ''vm'') @ ''`.\<newline>''
               else
                 concat (map (renderSnapshot P) real)
                 @ ''**Total**: '' @ dec_nat (length real) @ '' snapshot(s)\<newline>''))"
    using renderSnapshots_array[of elems P type safeVMID] by simp
  show "listSnapshots P srv node vmid type log
     = (Inr (text_result
          (glyph_clipboard @ '' **Snapshots for '' @ toUpperCase type @ '' '' @ safeVMID
            @ ''**\<newline>\<newline>''
           @ (if real = [] then
                ''No snapshots found.\<newline>\<newline>''
                  @ ''**Tip**: Create a snapshot with `proxmox_create_snapshot_''
                  @ (if type = ''lxc'' then ''lxc'' else ''vm'') @ ''`.\<newline>''
              else
                concat (map (renderSnapshot P) real)
                @ ''**Total**: '' @ dec_nat (length real) @ '' snapshot(s)\<newline>''))),
        log @ [\<lparr>endpoint = ''/nodes/'' @ safeNode @ ''/'' @ type @ ''/'' @ safeVMID @ ''/snapshot'',
                 verb = GET, body = JNull\<rparr>])"
    using a
    by (simp add: listSnapshots_def io_catch_def io_bind_def io_lift_def io_return_def
        proxmoxRequest_def r del: append_assoc)
  have n: "\<forall>s \<in> set real. \<not> nullish s" using a by auto
  have f: "filter (\<lambda>s. read_prop s ''name'' \<noteq> JStr ''current'') real = real"
    using a by simp
  show "renderSnapshots P type safeVMID (JArr elems) = renderSnapshots P type safeVMID (JArr real)"
    using renderSnapshots_array[OF n, of P type safeVMID] r f by simp
next
  assume "length real = 2"
  then show "dec_nat (length real) = ''2''"
    by (simp add: dec_nat.simps digit_char_def)
qed

theorem listSnapshots_drops_sentinel_witness:
  "listSnapshots sample_presentation (sample_server True) (JStr ''pve1'') (JStr ''150'') ''qemu'' []
     = (Inr (text_result
          (glyph_clipboard @ '' **Snapshots for QEMU 150**\<newline>\<newline>''
           @ glyph_bullet @ '' **before-upgrade**\<newline>  Description: clean\<newline>\<newline>''
           @ glyph_bullet @ '' **nightly**\<newline>\<newline>''
           @ ''**Total**: 2 snapshot(s)\<newline>'')),
        [\<lparr>endpoint = ''/nodes/pve1/qemu/150/snapshot'', verb = GET, body = JNull\<rparr>])
   \<and> \<not> str_includes
         (glyph_clipboard @ '' **Snapshots for QEMU 150**\<newline>\<newline>''
           @ glyph_bullet @ '' **before-upgrade**\<newline>  Description: clean\<newline>\<newline>''
           @ glyph_bullet @ '' **nightly**\<newline>\<newline>''
           @ ''**Total**: 2 snapshot(s)\<newline>'') ''current''"
proof -
  define a where "a = JObj [(''name'', JStr ''before-upgrade''), (''description'', JStr ''clean'')]"
  define c where "c = JObj [(''name'', JStr ''current''), (''description'', JStr ''You are here!'')]"
  define b where "b = JObj [(''name'', JStr ''nightly'')]"
  have h1: "allowElevated (sample_server True)"
    by (simp add: sample_server_def)
  have h2: "validateNodeName (JStr ''pve1'') = Inr ''pve1''"
    by (simp add: validateNodeName_def is_node_char_def)
  have h3: "validateVMID (JStr ''150'') = Inr ''150''"
    by code_simp
  have h4: "transport (sample_server True) []
        \<lparr>endpoint = ''/nodes/'' @ ''pve1'' @ ''/'' @ ''qemu'' @ ''/'' @ ''150'' @ ''/snapshot'',
         verb = GET, body = JNull\<rparr> = Inr (JArr [a, c, b])"
    by (simp add: sample_server_def sample_transport_def a_def b_def c_def)
  have h5: "\<forall>s \<in> set [a, c, b]. \<not> nullish s"
    by (simp add: nullish_def a_def b_def c_def)
  have h6: "[a, b] = filter (\<lambda>s. read_prop s ''name'' \<noteq> JStr ''current'') [a, c, b]"
    by (simp add: a_def b_def c_def)
  have r: "renderSnapshot sample_presentation a
             = glyph_bullet @ '' **before-upgrade**\<newline>  Description: clean\<newline>\<newline>''"
    "renderSnapshot sample_presentation b = glyph_bullet @ '' **nightly**\<newline>\<newline>''"
    by (simp_all add: renderSnapshot_def a_def b_def inherited_def object_prototype_names_def)
  have u: "toUpperCase ''qemu'' = ''QEMU''" "dec_nat (Suc (Suc 0)) = ''2''"
    by code_simp (simp add: dec_nat.simps digit_char_def)
  have n: "\<not> str_includes
         (glyph_clipboard @ '' **Snapshots for QEMU 150**\<newline>\<newline>''
           @ glyph_bullet @ '' **before-upgrade**\<newline>  Description: clean\<newline>\<newline>''
           @ glyph_bullet @ '' **nightly**\<newline>\<newline>''
           @ ''**Total**: 2 snapshot(s)\<newline>'') ''current''"
    by code_simp
  from conjunct1[OF mp[OF listSnapshots_drops_sentinel[where srv = "sample_server True"
        and node = "JStr ''pve1''" and safeNode = "''pve1''" and vmid = "JStr ''150''"
        and safeVMID = "''150''" and type = "''qemu''" and log = "[]" and elems = "[a, c, b]"
        and real = "[a, b]" and P = sample_presentation]
        conjI[OF h1 conjI[OF h2 conjI[OF h3 conjI[OF h4 conjI[OF h5 h6]]]]]]]
  show ?thesis
    using n by (simp add: r u)
qed

section \<open>Updating an interface that does not exist\<close>



section \<open>Partial updates of a network interface\<close>

subsection \<open>Splitting and joining\<close>



lemma str_split_id: "c \<notin> set p \<Longrightarrow> str_split c p = [p]"
  by (induction p) auto





lemma str_split_flag: "c \<notin> set p \<Longrightarrow> str_split c p = [p]"
  by (rule str_split_id)


subsection \<open>Parsing\<close>


















subsection \<open>Overlay and serialization\<close>







subsection \<open>The requests of an update\<close>






subsection \<open>Preservation\<close>








section \<open>Listings over all nodes\<close>

subsection \<open>Answers to a sequence of requests\<close>

lemma length_responses: "length (responses srv log rs) = length rs"
  by (induction rs arbitrary: log) simp_all

lemma responses_append:
  "responses srv log (a @ b) = responses srv log a @ responses srv (log @ a) b"
  by (induction a arbitrary: log) simp_all

subsection \<open>Outcomes that stop at a failure\<close>

lemma stops_at_failureI:
  assumes "snd out = log @ rs"
    and "\<And>i e. i < length rs \<Longrightarrow> responses srv log rs ! i = Inl e
           \<Longrightarrow> Suc i = length rs \<and> fst out = Inl e"
  shows "stops_at_failure srv log out"
  using assms by (simp add: stops_at_failure_def)

lemma stops_at_failureD:
  assumes "stops_at_failure srv log out"
  shows "\<exists>rs. snd out = log @ rs
     \<and> (\<forall>i e. i < length rs \<longrightarrow> responses srv log rs ! i = Inl e
           \<longrightarrow> Suc i = length rs \<and> fst out = Inl e)"
proof (intro exI conjI)
  have t: "take (length log) (snd out) = log"
    using assms by (simp add: stops_at_failure_def Let_def)
  show "snd out = log @ drop (length log) (snd out)"
    by (metis append_take_drop_id t)
  show "\<forall>i e. i < length (drop (length log) (snd out))
      \<longrightarrow> responses srv log (drop (length log) (snd out)) ! i = Inl e
      \<longrightarrow> Suc i = length (drop (length log) (snd out)) \<and> fst out = Inl e"
    using assms unfolding stops_at_failure_def Let_def by blast
qed

lemma stops_return: "stops_at_failure srv log (io_return x log)"
  by (rule stops_at_failureI[where rs = "[]"]) (simp_all add: io_return_def)

lemma stops_lift: "stops_at_failure srv log (io_lift r log)"
  by (rule stops_at_failureI[where rs = "[]"]) (simp_all add: io_lift_def)

lemma stops_request: "stops_at_failure srv log (proxmoxRequest srv ep m b log)"
  by (rule stops_at_failureI[where rs = "[\<lparr>endpoint = ep, verb = m, body = b\<rparr>]"])
     (simp_all add: proxmoxRequest_def Let_def)

lemma stops_bind:
  assumes m: "stops_at_failure srv log (m log)"
    and f: "\<And>x log'. stops_at_failure srv log' (f x log')"
  shows "stops_at_failure srv log (io_bind m f log)"
proof -
  from stops_at_failureD[OF m] obtain rs1 where s1: "snd (m log) = log @ rs1"
    and a1: "\<And>i e. i < length rs1 \<Longrightarrow> responses srv log rs1 ! i = Inl e
           \<Longrightarrow> Suc i = length rs1 \<and> fst (m log) = Inl e"
    by blast
  show ?thesis
  proof (cases "fst (m log)")
    case (Inl e)
    then have b1: "fst (io_bind m f log) = Inl e"
      by (cases "m log") (simp add: io_bind_def)
    have b2: "snd (io_bind m f log) = log @ rs1"
      using Inl s1 by (cases "m log") (simp add: io_bind_def)
    show ?thesis
    proof (rule stops_at_failureI[where rs = rs1])
      show "snd (io_bind m f log) = log @ rs1" by (rule b2)
    next
      fix i e'
      assume "i < length rs1" and "responses srv log rs1 ! i = Inl e'"
      then have "Suc i = length rs1 \<and> fst (m log) = Inl e'" by (rule a1)
      then show "Suc i = length rs1 \<and> fst (io_bind m f log) = Inl e'"
        using Inl b1 by simp
    qed
  next
    case (Inr x)
    then have b: "io_bind m f log = f x (log @ rs1)"
      using s1 by (cases "m log") (simp add: io_bind_def)
    from stops_at_failureD[OF f[of "log @ rs1" x]]
    obtain rs2 where s2: "snd (f x (log @ rs1)) = (log @ rs1) @ rs2"
      and a2: "\<And>i e. i < length rs2 \<Longrightarrow> responses srv (log @ rs1) rs2 ! i = Inl e
           \<Longrightarrow> Suc i = length rs2 \<and> fst (f x (log @ rs1)) = Inl e"
      by blast
    show ?thesis
    proof (rule stops_at_failureI[where rs = "rs1 @ rs2"])
      show "snd (io_bind m f log) = log @ rs1 @ rs2" using b s2 by simp
    next
      fix i e
      assume i: "i < length (rs1 @ rs2)" and r: "responses srv log (rs1 @ rs2) ! i = Inl e"
      show "Suc i = length (rs1 @ rs2) \<and> fst (io_bind m f log) = Inl e"
      proof (cases "i < length rs1")
        case True
        then have "responses srv log rs1 ! i = Inl e"
          using r by (simp add: responses_append nth_append length_responses)
        from a1[OF True this] Inr show ?thesis by simp
      next
        case False
        then have "responses srv (log @ rs1) rs2 ! (i - length rs1) = Inl e"
          using r by (simp add: responses_append nth_append length_responses)
        moreover have "i - length rs1 < length rs2" using i False by simp
        ultimately have "Suc (i - length rs1) = length rs2 \<and> fst (f x (log @ rs1)) = Inl e"
          by (rule a2[rotated])
        then show ?thesis using False b by auto
      qed
    qed
  qed
qed

lemma stops_if:
  assumes "c \<Longrightarrow> stops_at_failure srv log (a log)"
    and "\<not> c \<Longrightarrow> stops_at_failure srv log (b log)"
  shows "stops_at_failure srv log ((if c then a else b) log)"
  using assms by simp

lemmas stops_intros = stops_bind stops_if stops_return stops_lift stops_request

lemma stops_getStorage_loop:
  "stops_at_failure srv log (getStorage_loop srv nodes storages log)"
proof (induction nodes arbitrary: storages log)
  case Nil
  show ?case by (simp add: stops_return)
next
  case (Cons node nodes)
  show ?case
    unfolding getStorage_loop.simps getStorage_node_def
    by (intro stops_intros Cons.IH)
qed

lemma stops_getVMs_loop:
  "stops_at_failure srv log (getVMs_loop srv typeFilter nodes vms log)"
proof (induction nodes arbitrary: vms log)
  case Nil
  show ?case by (simp add: stops_return)
next
  case (Cons node nodes)
  show ?case
    unfolding getVMs_loop.simps getVMs_node_def
    by (intro stops_intros Cons.IH)
qed

lemma stops_getStorage: "stops_at_failure srv log (getStorage P srv nodeFilter log)"
  unfolding getStorage_def Let_def
  by (intro stops_intros stops_getStorage_loop)

lemma stops_getVMs: "stops_at_failure srv log (getVMs P srv nodeFilter typeFilter log)"
  unfolding getVMs_def Let_def
  by (intro stops_intros stops_getVMs_loop)

subsection \<open>The requests and the entries of a listing\<close>

lemma getStorage_node_ok:
  assumes "\<not> nullish node"
    and "transport srv log (storage_request node) = Inr (JArr elems)"
  shows "getStorage_node srv node acc log
     = (Inr (acc @ map (tag_storage (read_prop node ''node'')) elems),
        log @ [storage_request node])"
  using assms
  by (simp add: getStorage_node_def get_prop_def io_bind_def io_lift_def io_return_def
      proxmoxRequest_def storage_request_def Let_def)

lemma getStorage_loop_ok:
  assumes "\<forall>node \<in> set nodes. \<not> nullish node"
    and "responses srv log (map storage_request nodes) = map (\<lambda>elems. Inr (JArr elems)) subs"
  shows "getStorage_loop srv nodes acc log
     = (Inr (acc @ storages_of nodes subs), log @ map storage_request nodes)"
  using assms
proof (induction nodes arbitrary: acc log subs)
  case Nil
  then show ?case by (simp add: io_return_def storages_of_def)
next
  case (Cons node nodes)
  from Cons.prems(2) obtain s subs' where subs: "subs = s # subs'"
    by (cases subs) simp_all
  have t: "transport srv log (storage_request node) = Inr (JArr s)"
    and r: "responses srv (log @ [storage_request node]) (map storage_request nodes)
       = map (\<lambda>elems. Inr (JArr elems)) subs'"
    using Cons.prems(2) unfolding subs by simp_all
  have n: "\<not> nullish node" and ns: "\<forall>node \<in> set nodes. \<not> nullish node"
    using Cons.prems(1) by simp_all
  have "getStorage_loop srv (node # nodes) acc log
      = getStorage_loop srv nodes (acc @ map (tag_storage (read_prop node ''node'')) s)
          (log @ [storage_request node])"
    by (simp add: io_bind_def getStorage_node_ok[OF n t])
  also have "\<dots> = (Inr ((acc @ map (tag_storage (read_prop node ''node'')) s)
                        @ storages_of nodes subs'),
                   (log @ [storage_request node]) @ map storage_request nodes)"
    using ns r by (rule Cons.IH)
  finally show ?case by (simp add: subs storages_of_def)
qed

lemma map_throwing_tag_lxc:
  assumes "\<forall>vm \<in> set elems. \<not> nullish vm"
  shows "map_throwing (tag_lxc name) elems
     = Inr (map (\<lambda>vm. spread_with vm [(''type'', JStr ''lxc''),
                  (''node'', or_else (read_prop vm ''node'') name)]) elems)"
  using assms by (induction elems) (simp_all add: tag_lxc_def get_prop_def)

lemma getVMs_node_ok:
  assumes n: "\<not> nullish node"
    and r: "responses srv log (map vm_request (map (Pair node) (vm_families typeFilter)))
       = map (\<lambda>elems. Inr (JArr elems)) subs"
    and l: "\<forall>(job, elems) \<in> set (zip (map (Pair node) (vm_families typeFilter)) subs).
          snd job = ''lxc'' \<longrightarrow> (\<forall>vm \<in> set elems. \<not> nullish vm)"
  shows "getVMs_node srv typeFilter node acc log
     = (Inr (acc @ concat (map (\<lambda>(job, elems). map (tag_vm job) elems)
               (zip (map (Pair node) (vm_families typeFilter)) subs))),
        log @ map vm_request (map (Pair node) (vm_families typeFilter)))"
proof -
  have len: "length subs = length (vm_families typeFilter)"
    using arg_cong[OF r, of length] by (simp add: length_responses)
  consider (all) "typeFilter = JStr ''all''" | (qemu) "typeFilter = JStr ''qemu''"
    | (lxc) "typeFilter = JStr ''lxc''"
    | (none) "typeFilter \<noteq> JStr ''all''" "typeFilter \<noteq> JStr ''qemu''"
        "typeFilter \<noteq> JStr ''lxc''"
    by blast
  then show ?thesis
  proof cases
    case all
    then have f: "vm_families typeFilter = [''qemu'', ''lxc'']" by (simp add: vm_families_def)
    from len obtain q x where subs: "subs = [q, x]"
      unfolding f by (cases subs; cases "tl subs") auto
    have x: "\<forall>vm \<in> set x. \<not> nullish vm" using l unfolding f subs by simp
    show ?thesis
      using r n unfolding f subs
      by (simp add: getVMs_node_def all get_prop_def io_bind_def io_lift_def io_return_def
          proxmoxRequest_def vm_request_def Let_def map_throwing_tag_lxc[OF x] tag_vm_def)
  next
    case qemu
    then have f: "vm_families typeFilter = [''qemu'']" by (simp add: vm_families_def)
    from len obtain q where subs: "subs = [q]"
      unfolding f by (cases subs) auto
    show ?thesis
      using r n unfolding f subs
      by (simp add: getVMs_node_def qemu get_prop_def io_bind_def io_lift_def io_return_def
          proxmoxRequest_def vm_request_def Let_def tag_vm_def)
  next
    case lxc
    then have f: "vm_families typeFilter = [''lxc'']" by (simp add: vm_families_def)
    from len obtain x where subs: "subs = [x]"
      unfolding f by (cases subs) auto
    have x: "\<forall>vm \<in> set x. \<not> nullish vm" using l unfolding f subs by simp
    show ?thesis
      using r n unfolding f subs
      by (simp add: getVMs_node_def lxc get_prop_def io_bind_def io_lift_def io_return_def
          proxmoxRequest_def vm_request_def Let_def map_throwing_tag_lxc[OF x] tag_vm_def)
  next
    case none
    then have f: "vm_families typeFilter = []" by (simp add: vm_families_def)
    from len have subs: "subs = []" unfolding f by simp
    show ?thesis
      unfolding f subs using none
      by (simp add: getVMs_node_def io_bind_def io_return_def)
  qed
qed

lemma getVMs_loop_ok:
  assumes "\<forall>node \<in> set nodes. \<not> nullish node"
    and "responses srv log (map vm_request (vm_jobs typeFilter nodes))
       = map (\<lambda>elems. Inr (JArr elems)) subs"
    and "\<forall>(job, elems) \<in> set (zip (vm_jobs typeFilter nodes) subs).
          snd job = ''lxc'' \<longrightarrow> (\<forall>vm \<in> set elems. \<not> nullish vm)"
  shows "getVMs_loop srv typeFilter nodes acc log
     = (Inr (acc @ vms_of typeFilter nodes subs),
        log @ map vm_request (vm_jobs typeFilter nodes))"
  using assms
proof (induction nodes arbitrary: acc log subs)
  case Nil
  then show ?case by (simp add: io_return_def vms_of_def vm_jobs_def)
next
  case (Cons node nodes)
  let ?A = "map (Pair node) (vm_families typeFilter)"
  let ?k = "length (vm_families typeFilter)"
  let ?F = "\<lambda>elems. Inr (JArr elems) :: js_error + json"
  let ?T = "\<lambda>(job, elems). map (tag_vm job) elems"
  have j: "vm_jobs typeFilter (node # nodes) = ?A @ vm_jobs typeFilter nodes"
    by (simp add: vm_jobs_def)
  have ap: "responses srv log (map vm_request ?A)
        @ responses srv (log @ map vm_request ?A) (map vm_request (vm_jobs typeFilter nodes))
      = map ?F (take ?k subs) @ map ?F (drop ?k subs)"
    using Cons.prems(2) unfolding j map_append responses_append
    by (simp only: map_append[symmetric] append_take_drop_id)
  have ls: "length subs = ?k + length (vm_jobs typeFilter nodes)"
    using arg_cong[OF Cons.prems(2), of length] unfolding j
    by (simp add: length_responses)
  have "length (responses srv log (map vm_request ?A)) = length (map ?F (take ?k subs))"
    using ls by (simp add: length_responses)
  with ap have r1: "responses srv log (map vm_request ?A) = map ?F (take ?k subs)"
    and r2: "responses srv (log @ map vm_request ?A)
        (map vm_request (vm_jobs typeFilter nodes)) = map ?F (drop ?k subs)"
    by simp_all
  have z: "zip (?A @ vm_jobs typeFilter nodes) subs
      = zip ?A (take ?k subs) @ zip (vm_jobs typeFilter nodes) (drop ?k subs)"
    by (simp add: zip_append1)
  have l1: "\<forall>(job, elems) \<in> set (zip ?A (take ?k subs)).
          snd job = ''lxc'' \<longrightarrow> (\<forall>vm \<in> set elems. \<not> nullish vm)"
    and l2: "\<forall>(job, elems) \<in> set (zip (vm_jobs typeFilter nodes) (drop ?k subs)).
          snd job = ''lxc'' \<longrightarrow> (\<forall>vm \<in> set elems. \<not> nullish vm)"
    using Cons.prems(3) unfolding j z by simp_all
  have n: "\<not> nullish node" and ns: "\<forall>node \<in> set nodes. \<not> nullish node"
    using Cons.prems(1) by simp_all
  have "getVMs_loop srv typeFilter (node # nodes) acc log
      = getVMs_loop srv typeFilter nodes (acc @ concat (map ?T (zip ?A (take ?k subs))))
          (log @ map vm_request ?A)"
    by (simp add: io_bind_def getVMs_node_ok[OF n r1 l1])
  also have "\<dots> = (Inr ((acc @ concat (map ?T (zip ?A (take ?k subs))))
                        @ vms_of typeFilter nodes (drop ?k subs)),
                   (log @ map vm_request ?A) @ map vm_request (vm_jobs typeFilter nodes))"
    using ns r2 l2 by (rule Cons.IH)
  finally show ?case unfolding vms_of_def j z by simp
qed

lemma nodes_request_ok:
  assumes "transport srv log nodes_request = Inr (JArr nodes)"
  shows "proxmoxRequest srv ''/nodes'' GET JNull log = (Inr (JArr nodes), log @ [nodes_request])"
  using assms by (simp add: proxmoxRequest_def Let_def nodes_request_def)

lemma getStorage_ok:
  assumes "\<not> truthy (default_to JNull nodeFilter)"
    and "transport srv log nodes_request = Inr (JArr nodes)"
    and "\<forall>node \<in> set nodes. \<not> nullish node"
    and "responses srv (log @ [nodes_request]) (map storage_request nodes)
       = map (\<lambda>elems. Inr (JArr elems)) subs"
  shows "getStorage P srv nodeFilter log
     = ((case renderStorage P (storages_of nodes subs) of
           Inl e \<Rightarrow> Inl e | Inr output \<Rightarrow> Inr (text_result output)),
        log @ nodes_request # map storage_request nodes)"
  unfolding getStorage_def Let_def
  by (simp add: assms(1) io_bind_def nodes_request_ok[OF assms(2)] io_lift_def io_return_def
      getStorage_loop_ok[OF assms(3,4)] split: sum.splits)

lemma getVMs_ok:
  assumes "\<not> truthy (default_to JNull nodeFilter)"
    and "transport srv log nodes_request = Inr (JArr nodes)"
    and "\<forall>node \<in> set nodes. \<not> nullish node"
    and "responses srv (log @ [nodes_request])
           (map vm_request (vm_jobs (default_to (JStr ''all'') typeFilter) nodes))
       = map (\<lambda>elems. Inr (JArr elems)) subs"
    and "\<forall>(job, elems) \<in> set (zip (vm_jobs (default_to (JStr ''all'') typeFilter) nodes) subs).
          snd job = ''lxc'' \<longrightarrow> (\<forall>vm \<in> set elems. \<not> nullish vm)"
  shows "getVMs P srv nodeFilter typeFilter log
     = ((case renderVMs P (vms_of (default_to (JStr ''all'') typeFilter) nodes subs) of
           Inl e \<Rightarrow> Inl e | Inr output \<Rightarrow> Inr (text_result output)),
        log @ nodes_request
          # map vm_request (vm_jobs (default_to (JStr ''all'') typeFilter) nodes))"
  unfolding getVMs_def Let_def
  by (simp add: assms(1) io_bind_def nodes_request_ok[OF assms(2)] io_lift_def io_return_def
      getVMs_loop_ok[OF assms(3,4,5)] split: sum.splits)

text \<open>
  Claim C6, as amended. Without a node filter, on a cluster whose list of nodes has
  \<open>N\<close> entries, none of them \<open>null\<close> or \<open>undefined\<close>:
  \<^item> when every request for the storage of a node is answered with an array,
    \<open>getStorage\<close> issues the request for the nodes and then one request per node, in
    the order of the list, \<open>N + 1\<close> requests in all, and renders the entries of the
    arrays in that order, each tagged with the node asked;
  \<^item> when every request is answered with an array and no \<open>lxc\<close> entry is \<open>null\<close> or
    \<open>undefined\<close>, \<open>getVMs\<close> issues the request for the nodes and then, per node in the
    order of the list, one request for each selected family, \<open>qemu\<close> before \<open>lxc\<close>:
    \<open>2 N + 1\<close> requests for the type \<open>all\<close>, \<open>N + 1\<close> for \<open>qemu\<close> or \<open>lxc\<close>; it
    renders the entries in that order, a \<open>qemu\<close> entry tagged with the node asked and an
    \<open>lxc\<close> entry with its own \<open>node\<close> if that is truthy, else with the node asked.

  For every input, a request that the transport answers with an error is the last
  request of the handler, and the handler throws that error instead of returning an
  envelope.
\<close>

theorem fan_out_of_listings:
  "(\<not> truthy (default_to JNull nodeFilter)
    \<and> transport srv log nodes_request = Inr (JArr nodes)
    \<and> (\<forall>node \<in> set nodes. \<not> nullish node)
    \<longrightarrow>
      (responses srv (log @ [nodes_request]) (map storage_request nodes)
         = map (\<lambda>elems. Inr (JArr elems)) subs
       \<longrightarrow> snd (getStorage P srv nodeFilter log)
             = log @ nodes_request # map storage_request nodes
           \<and> length (snd (getStorage P srv nodeFilter log)) = length log + (length nodes + 1)
           \<and> fst (getStorage P srv nodeFilter log)
             = (case renderStorage P (storages_of nodes subs) of
                  Inl e \<Rightarrow> Inl e | Inr output \<Rightarrow> Inr (text_result output)))
      \<and> (responses srv (log @ [nodes_request])
           (map vm_request (vm_jobs (default_to (JStr ''all'') typeFilter) nodes))
         = map (\<lambda>elems. Inr (JArr elems)) subs'
         \<and> (\<forall>(job, elems)
               \<in> set (zip (vm_jobs (default_to (JStr ''all'') typeFilter) nodes) subs').
              snd job = ''lxc'' \<longrightarrow> (\<forall>vm \<in> set elems. \<not> nullish vm))
       \<longrightarrow> snd (getVMs P srv nodeFilter typeFilter log)
             = log @ nodes_request
                 # map vm_request (vm_jobs (default_to (JStr ''all'') typeFilter) nodes)
           \<and> length (snd (getVMs P srv nodeFilter typeFilter log))
             = length log
               + (length (vm_families (default_to (JStr ''all'') typeFilter)) * length nodes + 1)
           \<and> fst (getVMs P srv nodeFilter typeFilter log)
             = (case renderVMs P (vms_of (default_to (JStr ''all'') typeFilter) nodes subs') of
                  Inl e \<Rightarrow> Inl e | Inr output \<Rightarrow> Inr (text_result output))))
   \<and> stops_at_failure srv log (getStorage P srv nodeFilter log)
   \<and> stops_at_failure srv log (getVMs P srv nodeFilter typeFilter log)"
proof (intro conjI impI)
  assume h: "\<not> truthy (default_to JNull nodeFilter)
    \<and> transport srv log nodes_request = Inr (JArr nodes)
    \<and> (\<forall>node \<in> set nodes. \<not> nullish node)"
  assume r: "responses srv (log @ [nodes_request]) (map storage_request nodes)
         = map (\<lambda>elems. Inr (JArr elems)) subs"
  have g: "getStorage P srv nodeFilter log
     = ((case renderStorage P (storages_of nodes subs) of
           Inl e \<Rightarrow> Inl e | Inr output \<Rightarrow> Inr (text_result output)),
        log @ nodes_request # map storage_request nodes)"
    using h r by (intro getStorage_ok) simp_all
  show "snd (getStorage P srv nodeFilter log) = log @ nodes_request # map storage_request nodes"
    unfolding g by simp
  show "length (snd (getStorage P srv nodeFilter log)) = length log + (length nodes + 1)"
    unfolding g by simp
  show "fst (getStorage P srv nodeFilter log)
             = (case renderStorage P (storages_of nodes subs) of
                  Inl e \<Rightarrow> Inl e | Inr output \<Rightarrow> Inr (text_result output))"
    unfolding g by simp
next
  assume h: "\<not> truthy (default_to JNull nodeFilter)
    \<and> transport srv log nodes_request = Inr (JArr nodes)
    \<and> (\<forall>node \<in> set nodes. \<not> nullish node)"
  assume r: "responses srv (log @ [nodes_request])
           (map vm_request (vm_jobs (default_to (JStr ''all'') typeFilter) nodes))
         = map (\<lambda>elems. Inr (JArr elems)) subs'
         \<and> (\<forall>(job, elems)
               \<in> set (zip (vm_jobs (default_to (JStr ''all'') typeFilter) nodes) subs').
              snd job = ''lxc'' \<longrightarrow> (\<forall>vm \<in> set elems. \<not> nullish vm))"
  have g: "getVMs P srv nodeFilter typeFilter log
     = ((case renderVMs P (vms_of (default_to (JStr ''all'') typeFilter) nodes subs') of
           Inl e \<Rightarrow> Inl e | Inr output \<Rightarrow> Inr (text_result output)),
        log @ nodes_request
          # map vm_request (vm_jobs (default_to (JStr ''all'') typeFilter) nodes))"
    using h r by (intro getVMs_ok) simp_all
  show "snd (getVMs P srv nodeFilter typeFilter log)
             = log @ nodes_request
                 # map vm_request (vm_jobs (default_to (JStr ''all'') typeFilter) nodes)"
    unfolding g by simp
  show "length (snd (getVMs P srv nodeFilter typeFilter log))
             = length log
               + (length (vm_families (default_to (JStr ''all'') typeFilter)) * length nodes + 1)"
    unfolding g by (simp add: vm_jobs_def length_product)
  show "fst (getVMs P srv nodeFilter typeFilter log)
             = (case renderVMs P (vms_of (default_to (JStr ''all'') typeFilter) nodes subs') of
                  Inl e \<Rightarrow> Inl e | Inr output \<Rightarrow> Inr (text_result output))"
    unfolding g by simp
next
  show "stops_at_failure srv log (getStorage P srv nodeFilter log)"
    by (rule stops_getStorage)
  show "stops_at_failure srv log (getVMs P srv nodeFilter typeFilter log)"
    by (rule stops_getVMs)
qed

text \<open>
  The claim as worded fails for \<open>getVMs\<close>. On the sample cluster of two nodes a listing
  with neither filter issues five requests, not three: after the request for the nodes,
  one for the \<open>qemu\<close> guests and one for the \<open>lxc\<close> guests of each node.
\<close>

theorem getVMs_request_count_counterexample:
  "transport (sample_server False) [] \<lparr>endpoint = ''/nodes'', verb = GET, body = JNull\<rparr>
     = Inr (JArr [JObj [(''node'', JStr ''pve1'')], JObj [(''node'', JStr ''pve2'')]])
   \<and> getVMs sample_presentation (sample_server False) JUndefined JUndefined []
     = (Inr (text_result ''150 qemu on pve1; 100 lxc on pve1; 101 lxc on pve2; ''),
        [\<lparr>endpoint = ''/nodes'', verb = GET, body = JNull\<rparr>,
         \<lparr>endpoint = ''/nodes/pve1/qemu'', verb = GET, body = JNull\<rparr>,
         \<lparr>endpoint = ''/nodes/pve1/lxc'', verb = GET, body = JNull\<rparr>,
         \<lparr>endpoint = ''/nodes/pve2/qemu'', verb = GET, body = JNull\<rparr>,
         \<lparr>endpoint = ''/nodes/pve2/lxc'', verb = GET, body = JNull\<rparr>])
   \<and> length (snd (getVMs sample_presentation (sample_server False) JUndefined JUndefined []))
     \<noteq> length [JObj [(''node'', JStr ''pve1'')], JObj [(''node'', JStr ''pve2'')]] + 1"
proof -
  have t: "transport (sample_server False) []
      \<lparr>endpoint = ''/nodes'', verb = GET, body = JNull\<rparr>
     = Inr (JArr [JObj [(''node'', JStr ''pve1'')], JObj [(''node'', JStr ''pve2'')]])"
    by (simp add: sample_server_def sample_transport_def)
  have g: "getVMs sample_presentation (sample_server False) JUndefined JUndefined []
     = (Inr (text_result ''150 qemu on pve1; 100 lxc on pve1; 101 lxc on pve2; ''),
        [\<lparr>endpoint = ''/nodes'', verb = GET, body = JNull\<rparr>,
         \<lparr>endpoint = ''/nodes/pve1/qemu'', verb = GET, body = JNull\<rparr>,
         \<lparr>endpoint = ''/nodes/pve1/lxc'', verb = GET, body = JNull\<rparr>,
         \<lparr>endpoint = ''/nodes/pve2/qemu'', verb = GET, body = JNull\<rparr>,
         \<lparr>endpoint = ''/nodes/pve2/lxc'', verb = GET, body = JNull\<rparr>])"
    by code_simp
  show ?thesis unfolding g using t by simp
qed

theorem fan_out_of_listings_witness:
  "getStorage sample_presentation (sample_server False) JUndefined []
     = (Inr (text_result ''local on pve1; local on pve2; tank on pve2; ''),
        [\<lparr>endpoint = ''/nodes'', verb = GET, body = JNull\<rparr>,
         \<lparr>endpoint = ''/nodes/pve1/storage'', verb = GET, body = JNull\<rparr>,
         \<lparr>endpoint = ''/nodes/pve2/storage'', verb = GET, body = JNull\<rparr>])
   \<and> getVMs sample_presentation (sample_server False) JUndefined (JStr ''lxc'') []
     = (Inr (text_result ''100 lxc on pve1; 101 lxc on pve2; ''),
        [\<lparr>endpoint = ''/nodes'', verb = GET, body = JNull\<rparr>,
         \<lparr>endpoint = ''/nodes/pve1/lxc'', verb = GET, body = JNull\<rparr>,
         \<lparr>endpoint = ''/nodes/pve2/lxc'', verb = GET, body = JNull\<rparr>])
   \<and> fst (getStorage sample_presentation unreachable_server JUndefined [])
     = Inl (Error ''Failed to connect to Proxmox: connect EHOSTUNREACH'')
   \<and> fst (getVMs sample_presentation unreachable_server JUndefined JUndefined [])
     = Inl (Error ''Failed to connect to Proxmox: connect EHOSTUNREACH'')"
proof (intro conjI)
  define nodes where "nodes = [JObj [(''node'', JStr ''pve1'')], JObj [(''node'', JStr ''pve2'')]]"
  define subs where "subs = [[JObj [(''storage'', JStr ''local'')]],
      [JObj [(''storage'', JStr ''local'')], JObj [(''storage'', JStr ''tank'')]]]"
  define subs' where "subs' = [[JObj [(''vmid'', JNum 100), (''name'', JStr ''test-lxc'')]],
      [JObj [(''vmid'', JNum 101), (''name'', JStr ''db'')]]]"
  have a: "\<not> truthy (default_to JNull JUndefined)" by (simp add: default_to_def)
  have b: "transport (sample_server False) [] nodes_request = Inr (JArr nodes)"
    by (simp add: sample_server_def sample_transport_def nodes_request_def nodes_def)
  have c: "\<forall>node \<in> set nodes. \<not> nullish node" by (simp add: nodes_def nullish_def)
  have d: "responses (sample_server False) ([] @ [nodes_request]) (map storage_request nodes)
         = map (\<lambda>elems. Inr (JArr elems)) subs"
    unfolding nodes_def subs_def by code_simp
  have e: "responses (sample_server False) ([] @ [nodes_request])
           (map vm_request (vm_jobs (default_to (JStr ''all'') (JStr ''lxc'')) nodes))
         = map (\<lambda>elems. Inr (JArr elems)) subs'"
    unfolding nodes_def subs'_def by code_simp
  have f: "\<forall>(job, elems)
               \<in> set (zip (vm_jobs (default_to (JStr ''all'') (JStr ''lxc'')) nodes) subs').
              snd job = ''lxc'' \<longrightarrow> (\<forall>vm \<in> set elems. \<not> nullish vm)"
    unfolding nodes_def subs'_def by code_simp
  have g: "renderStorage sample_presentation (storages_of nodes subs)
      = Inr ''local on pve1; local on pve2; tank on pve2; ''"
    unfolding nodes_def subs_def by code_simp
  have h: "renderVMs sample_presentation
        (vms_of (default_to (JStr ''all'') (JStr ''lxc'')) nodes subs')
      = Inr ''100 lxc on pve1; 101 lxc on pve2; ''"
    unfolding nodes_def subs'_def by code_simp
  have i: "[] @ nodes_request # map storage_request nodes
      = [\<lparr>endpoint = ''/nodes'', verb = GET, body = JNull\<rparr>,
         \<lparr>endpoint = ''/nodes/pve1/storage'', verb = GET, body = JNull\<rparr>,
         \<lparr>endpoint = ''/nodes/pve2/storage'', verb = GET, body = JNull\<rparr>]"
    unfolding nodes_def by code_simp
  have j: "[] @ nodes_request
        # map vm_request (vm_jobs (default_to (JStr ''all'') (JStr ''lxc'')) nodes)
      = [\<lparr>endpoint = ''/nodes'', verb = GET, body = JNull\<rparr>,
         \<lparr>endpoint = ''/nodes/pve1/lxc'', verb = GET, body = JNull\<rparr>,
         \<lparr>endpoint = ''/nodes/pve2/lxc'', verb = GET, body = JNull\<rparr>]"
    unfolding nodes_def by code_simp
  have inst: "(\<not> truthy (default_to JNull JUndefined)
    \<and> transport (sample_server False) [] nodes_request = Inr (JArr nodes)
    \<and> (\<forall>node \<in> set nodes. \<not> nullish node)
    \<longrightarrow>
      (responses (sample_server False) ([] @ [nodes_request]) (map storage_request nodes)
         = map (\<lambda>elems. Inr (JArr elems)) subs
       \<longrightarrow> snd (getStorage sample_presentation (sample_server False) JUndefined [])
             = [] @ nodes_request # map storage_request nodes
           \<and> length (snd (getStorage sample_presentation (sample_server False) JUndefined []))
             = length ([] :: request list) + (length nodes + 1)
           \<and> fst (getStorage sample_presentation (sample_server False) JUndefined [])
             = (case renderStorage sample_presentation (storages_of nodes subs) of
                  Inl e \<Rightarrow> Inl e | Inr output \<Rightarrow> Inr (text_result output)))
      \<and> (responses (sample_server False) ([] @ [nodes_request])
           (map vm_request (vm_jobs (default_to (JStr ''all'') (JStr ''lxc'')) nodes))
         = map (\<lambda>elems. Inr (JArr elems)) subs'
         \<and> (\<forall>(job, elems)
               \<in> set (zip (vm_jobs (default_to (JStr ''all'') (JStr ''lxc'')) nodes) subs').
              snd job = ''lxc'' \<longrightarrow> (\<forall>vm \<in> set elems. \<not> nullish vm))
       \<longrightarrow> snd (getVMs sample_presentation (sample_server False) JUndefined (JStr ''lxc'') [])
             = [] @ nodes_request
                 # map vm_request (vm_jobs (default_to (JStr ''all'') (JStr ''lxc'')) nodes)
           \<and> length (snd (getVMs sample_presentation (sample_server False) JUndefined
                 (JStr ''lxc'') []))
             = length ([] :: request list)
               + (length (vm_families (default_to (JStr ''all'') (JStr ''lxc''))) * length nodes
                  + 1)
           \<and> fst (getVMs sample_presentation (sample_server False) JUndefined (JStr ''lxc'') [])
             = (case renderVMs sample_presentation
                      (vms_of (default_to (JStr ''all'') (JStr ''lxc'')) nodes subs') of
                  Inl e \<Rightarrow> Inl e | Inr output \<Rightarrow> Inr (text_result output))))"
    using fan_out_of_listings[where srv = "sample_server False" and log = "[]"
        and nodeFilter = JUndefined and typeFilter = "JStr ''lxc''" and nodes = nodes
        and subs = subs and subs' = subs' and P = sample_presentation]
    by (rule conjunct1)
  have both: "(responses (sample_server False) ([] @ [nodes_request]) (map storage_request nodes)
         = map (\<lambda>elems. Inr (JArr elems)) subs
       \<longrightarrow> snd (getStorage sample_presentation (sample_server False) JUndefined [])
             = [] @ nodes_request # map storage_request nodes
           \<and> length (snd (getStorage sample_presentation (sample_server False) JUndefined []))
             = length ([] :: request list) + (length nodes + 1)
           \<and> fst (getStorage sample_presentation (sample_server False) JUndefined [])
             = (case renderStorage sample_presentation (storages_of nodes subs) of
                  Inl e \<Rightarrow> Inl e | Inr output \<Rightarrow> Inr (text_result output)))
      \<and> (responses (sample_server False) ([] @ [nodes_request])
           (map vm_request (vm_jobs (default_to (JStr ''all'') (JStr ''lxc'')) nodes))
         = map (\<lambda>elems. Inr (JArr elems)) subs'
         \<and> (\<forall>(job, elems)
               \<in> set (zip (vm_jobs (default_to (JStr ''all'') (JStr ''lxc'')) nodes) subs').
              snd job = ''lxc'' \<longrightarrow> (\<forall>vm \<in> set elems. \<not> nullish vm))
       \<longrightarrow> snd (getVMs sample_presentation (sample_server False) JUndefined (JStr ''lxc'') [])
             = [] @ nodes_request
                 # map vm_request (vm_jobs (default_to (JStr ''all'') (JStr ''lxc'')) nodes)
           \<and> length (snd (getVMs sample_presentation (sample_server False) JUndefined
                 (JStr ''lxc'') []))
             = length ([] :: request list)
               + (length (vm_families (default_to (JStr ''all'') (JStr ''lxc''))) * length nodes
                  + 1)
           \<and> fst (getVMs sample_presentation (sample_server False) JUndefined (JStr ''lxc'') [])
             = (case renderVMs sample_presentation
                      (vms_of (default_to (JStr ''all'') (JStr ''lxc'')) nodes subs') of
                  Inl e \<Rightarrow> Inl e | Inr output \<Rightarrow> Inr (text_result output)))"
    by (rule mp[OF inst conjI[OF a conjI[OF b c]]])
  have s: "snd (getStorage sample_presentation (sample_server False) JUndefined [])
             = [] @ nodes_request # map storage_request nodes
           \<and> length (snd (getStorage sample_presentation (sample_server False) JUndefined []))
             = length ([] :: request list) + (length nodes + 1)
           \<and> fst (getStorage sample_presentation (sample_server False) JUndefined [])
             = (case renderStorage sample_presentation (storages_of nodes subs) of
                  Inl e \<Rightarrow> Inl e | Inr output \<Rightarrow> Inr (text_result output))"
    by (rule mp[OF conjunct1[OF both] d])
  have v: "snd (getVMs sample_presentation (sample_server False) JUndefined (JStr ''lxc'') [])
             = [] @ nodes_request
                 # map vm_request (vm_jobs (default_to (JStr ''all'') (JStr ''lxc'')) nodes)
           \<and> length (snd (getVMs sample_presentation (sample_server False) JUndefined
                 (JStr ''lxc'') []))
             = length ([] :: request list)
               + (length (vm_families (default_to (JStr ''all'') (JStr ''lxc''))) * length nodes
                  + 1)
           \<and> fst (getVMs sample_presentation (sample_server False) JUndefined (JStr ''lxc'') [])
             = (case renderVMs sample_presentation
                      (vms_of (default_to (JStr ''all'') (JStr ''lxc'')) nodes subs') of
                  Inl e \<Rightarrow> Inl e | Inr output \<Rightarrow> Inr (text_result output))"
    by (rule mp[OF conjunct2[OF both] conjI[OF e f]])
  show "getStorage sample_presentation (sample_server False) JUndefined []
     = (Inr (text_result ''local on pve1; local on pve2; tank on pve2; ''),
        [\<lparr>endpoint = ''/nodes'', verb = GET, body = JNull\<rparr>,
         \<lparr>endpoint = ''/nodes/pve1/storage'', verb = GET, body = JNull\<rparr>,
         \<lparr>endpoint = ''/nodes/pve2/storage'', verb = GET, body = JNull\<rparr>])"
    using s unfolding g i by (simp add: prod_eq_iff)
  show "getVMs sample_presentation (sample_server False) JUndefined (JStr ''lxc'') []
     = (Inr (text_result ''100 lxc on pve1; 101 lxc on pve2; ''),
        [\<lparr>endpoint = ''/nodes'', verb = GET, body = JNull\<rparr>,
         \<lparr>endpoint = ''/nodes/pve1/lxc'', verb = GET, body = JNull\<rparr>,
         \<lparr>endpoint = ''/nodes/pve2/lxc'', verb = GET, body = JNull\<rparr>])"
    using v unfolding h j by (simp add: prod_eq_iff)
next
  let ?e = "Error ''Failed to connect to Proxmox: connect EHOSTUNREACH''"
  let ?rs = "[\<lparr>endpoint = ''/nodes'', verb = GET, body = JNull\<rparr>,
         \<lparr>endpoint = ''/nodes/pve1/storage'', verb = GET, body = JNull\<rparr>,
         \<lparr>endpoint = ''/nodes/pve2/storage'', verb = GET, body = JNull\<rparr>]"
  have st: "stops_at_failure unreachable_server []
      (getStorage sample_presentation unreachable_server JUndefined [])"
    using fan_out_of_listings[where srv = unreachable_server and log = "[]"
        and nodeFilter = JUndefined and P = sample_presentation]
    by (rule conjunct1[OF conjunct2])
  have sn: "snd (getStorage sample_presentation unreachable_server JUndefined []) = ?rs"
    by code_simp
  have r: "responses unreachable_server [] ?rs ! 2 = Inl ?e"
    by code_simp
  from stops_at_failureD[OF st] obtain rs
    where rs: "snd (getStorage sample_presentation unreachable_server JUndefined []) = [] @ rs"
      and a: "\<forall>i e. i < length rs \<longrightarrow> responses unreachable_server [] rs ! i = Inl e
           \<longrightarrow> Suc i = length rs
             \<and> fst (getStorage sample_presentation unreachable_server JUndefined []) = Inl e"
    by blast
  have rs': "rs = ?rs" using rs sn by simp
  have i: "2 < length ?rs" by simp
  from a[unfolded rs', rule_format, OF i r]
  show "fst (getStorage sample_presentation unreachable_server JUndefined []) = Inl ?e"
    by (rule conjunct2)
next
  let ?e = "Error ''Failed to connect to Proxmox: connect EHOSTUNREACH''"
  let ?rs = "[\<lparr>endpoint = ''/nodes'', verb = GET, body = JNull\<rparr>,
         \<lparr>endpoint = ''/nodes/pve1/qemu'', verb = GET, body = JNull\<rparr>,
         \<lparr>endpoint = ''/nodes/pve1/lxc'', verb = GET, body = JNull\<rparr>,
         \<lparr>endpoint = ''/nodes/pve2/qemu'', verb = GET, body = JNull\<rparr>]"
  have st: "stops_at_failure unreachable_server []
      (getVMs sample_presentation unreachable_server JUndefined JUndefined [])"
    using fan_out_of_listings[where srv = unreachable_server and log = "[]"
        and nodeFilter = JUndefined and typeFilter = JUndefined and P = sample_presentation]
    by (rule conjunct2[OF conjunct2])
  have sn: "snd (getVMs sample_presentation unreachable_server JUndefined JUndefined []) = ?rs"
    by code_simp
  have r: "responses unreachable_server [] ?rs ! 3 = Inl ?e"
    by code_simp
  from stops_at_failureD[OF st] obtain rs
    where rs: "snd (getVMs sample_presentation unreachable_server JUndefined JUndefined [])
        = [] @ rs"
      and a: "\<forall>i e. i < length rs \<longrightarrow> responses unreachable_server [] rs ! i = Inl e
           \<longrightarrow> Suc i = length rs
             \<and> fst (getVMs sample_presentation unreachable_server JUndefined JUndefined [])
               = Inl e"
    by blast
  have rs': "rs = ?rs" using rs sn by simp
  have i: "3 < length ?rs" by simp
  from a[unfolded rs', rule_format, OF i r]
  show "fst (getVMs sample_presentation unreachable_server JUndefined JUndefined []) = Inl ?e"
    by (rule conjunct2)
qed

end
